(* ===== verification/Prelude.thy ===== *)
theory Prelude
  imports Complex_Main "HOL-Library.Sublist"
begin

text \<open>
  Shared vocabulary of the development: the types that name JavaScript numbers of the
  chart code, the JavaScript coercions the sources rely on (\<open>x || 0\<close>, the truthiness
  of an optional string), the bucketing arithmetic \<open>Math.floor(t / unit) * unit\<close>
  shared by every aggregation routine, and \<open>group_runs\<close>, the grouping of a list into
  maximal runs of equal key that serves as the reference specification of the bar
  bucketers. The collection \<open>model_defs\<close> gathers the definitions that a concrete
  input needs unfolded; \<open>bucket_simps\<close> gathers the arithmetic facts of bucketing.
\<close>

named_theorems model_defs "definitions of the model unfolded to evaluate a concrete input"
named_theorems bucket_simps "arithmetic facts about bucket starts"

section \<open>JavaScript numbers and coercions\<close>

text \<open>
  Prices and volumes are JavaScript numbers; the model reads them as reals (rounding of
  IEEE doubles is not modelled). Times are whole seconds or milliseconds and are read as
  integers.
\<close>

type_synonym price = real
type_synonym seconds = int
type_synonym millis = int

text \<open>\<open>x || 0\<close> on an optional number: \<open>undefined\<close> becomes \<open>0\<close>.\<close>

definition js_or_zero :: "real option \<Rightarrow> real" where
  "js_or_zero x = (case x of None \<Rightarrow> 0 | Some v \<Rightarrow> v)"

text \<open>Truthiness of an optional string: \<open>undefined\<close> and \<open>''\<close> are falsy.\<close>

definition js_truthy_str :: "string option \<Rightarrow> bool" where
  "js_truthy_str x = (case x of None \<Rightarrow> False | Some s \<Rightarrow> s \<noteq> [])"

declare js_or_zero_def [model_defs] js_truthy_str_def [model_defs]

section \<open>Bucket starts\<close>

text \<open>
  \<open>Math.floor(t / unit) * unit\<close> for integer \<open>t\<close> and a positive integer \<open>unit\<close> is
  floor division, which is \<open>div\<close> on \<open>int\<close> (rounding towards minus infinity, as
  \<open>Math.floor\<close> does).
\<close>

definition floor_to_unit :: "int \<Rightarrow> int \<Rightarrow> int" where
  "floor_to_unit u x = x div u * u"

declare floor_to_unit_def [model_defs]

section \<open>Maximal runs of equal key\<close>

text \<open>
  \<open>group_runs f xs\<close> cuts \<open>xs\<close> into maximal consecutive runs on which \<open>f\<close> is
  constant. It is the reference specification of the bucketers: a bucketer that folds a
  time-ordered feed into bars makes one bar per run of equal bucket start.
\<close>

function group_runs :: "('a \<Rightarrow> 'k) \<Rightarrow> 'a list \<Rightarrow> 'a list list" where
  "group_runs f [] = []"
| "group_runs f (x # xs) =
     (x # takeWhile (\<lambda>y. f y = f x) xs) # group_runs f (dropWhile (\<lambda>y. f y = f x) xs)"
  by pat_completeness auto
termination
  by (relation "measure (\<lambda>(f, xs). length xs)") (auto simp: le_imp_less_Suc length_dropWhile_le)

section \<open>Lemmas\<close>

lemma js_or_zero_simps [simp]:
  "js_or_zero None = 0" "js_or_zero (Some v) = v"
  by (simp_all add: js_or_zero_def)

lemma js_truthy_str_simps [simp]:
  "\<not> js_truthy_str None" "js_truthy_str (Some s) \<longleftrightarrow> s \<noteq> []"
  by (simp_all add: js_truthy_str_def)

lemma floor_to_unit_dvd [bucket_simps]: "u dvd floor_to_unit u x"
  by (simp add: floor_to_unit_def)

lemma floor_to_unit_le [bucket_simps]: "0 < u \<Longrightarrow> floor_to_unit u x \<le> x"
  by (simp add: floor_to_unit_def minus_mod_eq_div_mult [symmetric])

lemma floor_to_unit_gt [bucket_simps]: "0 < u \<Longrightarrow> x < floor_to_unit u x + u"
  by (simp add: floor_to_unit_def minus_mod_eq_div_mult [symmetric])

lemma floor_to_unit_mono: "0 < u \<Longrightarrow> x \<le> y \<Longrightarrow> floor_to_unit u x \<le> floor_to_unit u y"
  by (simp add: floor_to_unit_def zdiv_mono1)

lemma floor_to_unit_idem [simp]: "0 < u \<Longrightarrow> floor_to_unit u (floor_to_unit u x) = floor_to_unit u x"
  by (simp add: floor_to_unit_def)

lemma floor_to_unit_eq_iff:
  "0 < u \<Longrightarrow> floor_to_unit u x = b \<longleftrightarrow> u dvd b \<and> b \<le> x \<and> x < b + u"
proof
  assume u: "0 < u" and b: "floor_to_unit u x = b"
  then show "u dvd b \<and> b \<le> x \<and> x < b + u"
    using floor_to_unit_dvd floor_to_unit_le floor_to_unit_gt by blast
next
  assume u: "0 < u" and b: "u dvd b \<and> b \<le> x \<and> x < b + u"
  then obtain k where k: "b = u * k" by (auto simp: dvd_def)
  with b have "u * k \<le> x" "x < u * (k + 1)" by (simp_all add: algebra_simps)
  then have "x div u = k"
    by (intro int_div_pos_eq [of x u k "x - u * k"]) (simp_all add: algebra_simps)
  with k show "floor_to_unit u x = b" by (simp add: floor_to_unit_def mult.commute)
qed

text \<open>Millisecond bucket starts (\<open>barTime * 1000\<close>) keep the order of the seconds.\<close>

lemma times_1000_less_iff [simp]: "(a::int) * 1000 < b * 1000 \<longleftrightarrow> a < b"
  by simp

lemma concat_group_runs [simp]: "concat (group_runs f xs) = xs"
  by (induction f xs rule: group_runs.induct) simp_all

lemma group_runs_Nil_iff [simp]: "group_runs f xs = [] \<longleftrightarrow> xs = []"
  by (cases xs) simp_all

lemma group_runs_nonempty: "g \<in> set (group_runs f xs) \<Longrightarrow> g \<noteq> []"
  by (induction f xs rule: group_runs.induct) auto

lemma group_runs_same_key:
  "g \<in> set (group_runs f xs) \<Longrightarrow> y \<in> set g \<Longrightarrow> f y = f (hd g)"
  by (induction f xs rule: group_runs.induct) (auto dest: set_takeWhileD)

lemma sorted_wrt_dropWhile:
  "sorted_wrt P xs \<Longrightarrow> sorted_wrt P (dropWhile Q xs)"
  by (metis sorted_wrt_append takeWhile_dropWhile_id)

lemma dropWhile_key_less:
  fixes f :: "'a \<Rightarrow> 'k::linorder"
  assumes "sorted_wrt (\<ge>) (map f (x # xs))" and "y \<in> set (dropWhile (\<lambda>y. f y = f x) xs)"
  shows "f y < f x"
proof -
  let ?d = "dropWhile (\<lambda>y. f y = f x) xs"
  obtain d ds where d: "?d = d # ds"
    using assms(2) by (cases ?d) auto
  then have "d \<in> set xs"
    by (metis list.set_intros(1) set_dropWhileD)
  moreover have "f d \<noteq> f x"
    using d hd_dropWhile [of "\<lambda>y. f y = f x" xs] by simp
  ultimately have dx: "f d < f x" using assms(1) by auto
  have "sorted_wrt (\<ge>) (map f ?d)"
    using assms(1) by (simp add: sorted_wrt_map sorted_wrt_dropWhile)
  with d have "\<forall>z \<in> set ds. f z \<le> f d" by (simp add: sorted_wrt_map)
  with assms(2) d dx show ?thesis by auto
qed

text \<open>On a feed whose keys never increase, the runs have strictly decreasing keys.\<close>

lemma group_runs_keys_decreasing:
  fixes f :: "'a \<Rightarrow> 'k::linorder"
  shows "sorted_wrt (\<ge>) (map f xs) \<Longrightarrow>
   sorted_wrt (>) (map (\<lambda>g. f (hd g)) (group_runs f xs))"
proof (induction f xs rule: group_runs.induct)
  case (1 f)
  then show ?case by simp
next
  case (2 f x xs)
  let ?d = "dropWhile (\<lambda>y. f y = f x) xs"
  have sd: "sorted_wrt (\<ge>) (map f ?d)"
    using "2.prems" by (simp add: sorted_wrt_map sorted_wrt_dropWhile)
  have "\<forall>g \<in> set (group_runs f ?d). f (hd g) < f x"
  proof
    fix g assume g: "g \<in> set (group_runs f ?d)"
    have "hd g \<in> set g" using group_runs_nonempty [OF g] by simp
    with g have "hd g \<in> set (concat (group_runs f ?d))"
      by (simp only: set_concat) blast
    then have "hd g \<in> set ?d" by simp
    with "2.prems" show "f (hd g) < f x" by (rule dropWhile_key_less)
  qed
  with "2.IH" [OF sd] show ?case by simp
qed

lemma group_runs_cong_key:
  "(\<And>a b. f a = f b \<longleftrightarrow> g a = g b) \<Longrightarrow> group_runs f xs = group_runs g xs"
proof (induction f xs rule: group_runs.induct)
  case (2 f x xs)
  then show ?case by simp
qed simp

text \<open>On a feed whose integer keys never decrease, the runs have strictly increasing keys.\<close>

lemma group_runs_keys_increasing:
  fixes f :: "'a \<Rightarrow> int"
  assumes "sorted_wrt (\<le>) (map f xs)"
  shows "sorted_wrt (<) (map (\<lambda>g. f (hd g)) (group_runs f xs))"
proof -
  have eq: "group_runs (\<lambda>y. - f y) xs = group_runs f xs" by (rule group_runs_cong_key) simp
  have "sorted_wrt (\<ge>) (map (\<lambda>y. - f y) xs)" using assms by (simp add: sorted_wrt_map)
  then have "sorted_wrt (>) (map (\<lambda>g. - f (hd g)) (group_runs (\<lambda>y. - f y) xs))"
    by (rule group_runs_keys_decreasing)
  then show ?thesis by (simp add: eq sorted_wrt_map)
qed

end
