(* ===== verification/Resolution.thy ===== *)
theory Resolution
  imports Prelude
begin

text \<open>
  The resolution table. \<open>ResolutionString\<close> (datafeed.ts) is the union of the eight
  labels a chart may ask for (\<open>resolution_label\<close>); \<open>ResolutionToSeconds\<close> (type.ts) is an
  object whose keys (numeric keys become strings) map to bucket widths in seconds, an
  association list \<open>resolution_table\<close>. \<open>resolution_to_seconds\<close> is the lookup
  \<open>ResolutionToSeconds[resolution]\<close> that getBars and fetchChartData perform on a label of
  the union; the two files are separate, so whether every label is a key is a theorem.
  \<open>supported_resolutions\<close> is \<open>DataFeed.configurationData.supported_resolutions\<close>, and
  the three frame functions choose the upstream candle interval each fetch path requests.
  Resolutions are ordered by bucket width (a \<open>linorder\<close> instance), so that the
  comparisons of the birdeye path read as they do in the source.
\<close>

datatype resolution_string = R1 | R5 | R15 | R60 | R240 | R1D | R1W | R1M

fun resolution_label :: "resolution_string \<Rightarrow> string" where
  "resolution_label R1 = ''1''"
| "resolution_label R5 = ''5''"
| "resolution_label R15 = ''15''"
| "resolution_label R60 = ''60''"
| "resolution_label R240 = ''240''"
| "resolution_label R1D = ''1D''"
| "resolution_label R1W = ''1W''"
| "resolution_label R1M = ''1M''"

definition resolution_table :: "(string \<times> seconds) list" where
  "resolution_table =
     [(''1'', 60), (''5'', 5 * 60), (''15'', 15 * 60), (''60'', 60 * 60), (''240'', 60 * 60 * 4),
      (''1D'', 60 * 60 * 24), (''1W'', 60 * 60 * 24 * 7), (''1M'', 60 * 60 * 24 * 30)]"

text \<open>\<open>ResolutionToSeconds[resolution]\<close> for a label of the union.\<close>

definition resolution_to_seconds :: "resolution_string \<Rightarrow> seconds" where
  "resolution_to_seconds r = the (map_of resolution_table (resolution_label r))"

definition all_resolutions :: "resolution_string list" where
  "all_resolutions = [R1, R5, R15, R60, R240, R1D, R1W, R1M]"

definition supported_resolutions :: "resolution_string list" where
  "supported_resolutions = [R1, R5, R15]"

text \<open>The interval requested by \<open>DataFeed.getBars\<close> (datafeed.ts).\<close>

definition kline_frame :: "resolution_string \<Rightarrow> string" where
  "kline_frame r = (if r \<in> set supported_resolutions then resolution_label r @ ''m'' else ''5m'')"

text \<open>
  The interval requested by the regular path of \<open>fetchChartData\<close> (TVChart.tsx):
  \<open>ResolutionToSeconds[resolution] ? `${resolution}m` : '5m'\<close>; every width is
  positive, hence truthy.
\<close>

definition regular_frame :: "resolution_string \<Rightarrow> string" where
  "regular_frame r = (if resolution_to_seconds r \<noteq> 0 then resolution_label r @ ''m'' else ''5m'')"

text \<open>The \<open>type\<close> requested by the birdeye path of \<open>fetchChartData\<close> (TVChart.tsx).\<close>

definition birdeye_frame :: "resolution_string \<Rightarrow> string" where
  "birdeye_frame r =
     (let timeUnit = resolution_to_seconds r in
      if timeUnit \<ge> resolution_to_seconds R1D then resolution_label r
      else if timeUnit \<le> resolution_to_seconds R15 then resolution_label r @ ''m''
      else ''15m'')"

declare all_resolutions_def [model_defs] resolution_table_def [model_defs]
  supported_resolutions_def [model_defs] kline_frame_def [model_defs]
  regular_frame_def [model_defs] birdeye_frame_def [model_defs]

instantiation resolution_string :: linorder
begin

definition less_eq_resolution_string :: "resolution_string \<Rightarrow> resolution_string \<Rightarrow> bool" where
  "less_eq_resolution_string r s \<longleftrightarrow> resolution_to_seconds r \<le> resolution_to_seconds s"

definition less_resolution_string :: "resolution_string \<Rightarrow> resolution_string \<Rightarrow> bool" where
  "less_resolution_string r s \<longleftrightarrow> resolution_to_seconds r < resolution_to_seconds s"

instance
proof
  fix r s t :: resolution_string
  show "(r < s) = (r \<le> s \<and> \<not> s \<le> r)"
    by (auto simp: less_eq_resolution_string_def less_resolution_string_def)
  show "r \<le> r" by (simp add: less_eq_resolution_string_def)
  show "r \<le> s \<Longrightarrow> s \<le> t \<Longrightarrow> r \<le> t" by (simp add: less_eq_resolution_string_def)
  show "r \<le> s \<Longrightarrow> s \<le> r \<Longrightarrow> r = s"
    by (cases r; cases s) (simp_all add: less_eq_resolution_string_def resolution_to_seconds_def resolution_table_def)
  show "r \<le> s \<or> s \<le> r" by (auto simp: less_eq_resolution_string_def)
qed

end

lemma resolution_to_seconds_simps [simp]:
  "resolution_to_seconds R1 = 60" "resolution_to_seconds R5 = 5 * 60" "resolution_to_seconds R15 = 15 * 60"
  "resolution_to_seconds R60 = 60 * 60" "resolution_to_seconds R240 = 60 * 60 * 4"
  "resolution_to_seconds R1D = 60 * 60 * 24" "resolution_to_seconds R1W = 60 * 60 * 24 * 7"
  "resolution_to_seconds R1M = 60 * 60 * 24 * 30"
  by (simp_all add: resolution_to_seconds_def resolution_table_def)


lemma resolution_to_seconds_inj: "resolution_to_seconds r = resolution_to_seconds s \<Longrightarrow> r = s"
  by (cases r; cases s) simp_all

lemma resolution_cases_all: "r \<in> set all_resolutions"
  by (cases r) (simp_all add: all_resolutions_def)

lemma resolution_label_inj: "resolution_label r = resolution_label s \<Longrightarrow> r = s"
  by (cases r; cases s) simp_all

lemma resolution_to_seconds_pos [simp]: "0 < resolution_to_seconds r"
  by (cases r) simp_all


text \<open>
  Every bucket width is a whole number of minutes between one minute and thirty days,
  and the table lists the resolutions in strictly increasing width.
\<close>

theorem resolution_to_seconds_bounds:
  "60 dvd resolution_to_seconds r \<and> 60 \<le> resolution_to_seconds r \<and>
   resolution_to_seconds r \<le> 60 * 60 * 24 * 30 \<and> sorted_wrt (<) all_resolutions"
  by (cases r) (simp_all add: all_resolutions_def less_resolution_string_def)

text \<open>
  The candle interval that \<open>getBars\<close> requests is a supported resolution whose
  width divides the bucket width, so every upstream candle falls inside one bucket.
\<close>

theorem kline_frame_divides:
  "\<exists>f \<in> set supported_resolutions.
     kline_frame r = resolution_label f @ ''m'' \<and> resolution_to_seconds f dvd resolution_to_seconds r"
proof (cases "r \<in> set supported_resolutions")
  case True
  then show ?thesis by (auto simp: kline_frame_def)
next
  case False
  then have "kline_frame r = resolution_label R5 @ ''m''" by (simp add: kline_frame_def)
  moreover have "resolution_to_seconds R5 dvd resolution_to_seconds r"
    using False by (cases r) (simp_all add: supported_resolutions_def)
  ultimately show ?thesis by (auto simp: supported_resolutions_def)
qed



end
