(* ===== verification/Bars.thy ===== *)
theory Bars
  imports Prelude
begin

text \<open>
  The data the chart code moves around: \<open>LightweightBar\<close> (datafeed.ts, the same
  interface is repeated in TVChart.tsx), the kline row \<open>TradeData\<close> of the history host
  (datafeed.ts; the regular path of TVChart.tsx reads the same fields), and the item of
  the birdeye OHLCV feed (TVChart.tsx reads \<open>unixTime, o, h, l, c, vQuote\<close>). Field names
  carry a prefix so that the one-letter JSON keys do not become global constants.
  \<open>bar_wf\<close> is the OHLC invariant of a bar, \<open>row_close_in_range\<close> and
  \<open>item_ohlc_consistent\<close> the consistency of an upstream row that the aggregation
  needs to keep it.
\<close>

record lightweight_bar =
  lb_time :: millis
  lb_open :: price
  lb_high :: price
  lb_low :: price
  lb_close :: price
  lb_volume :: "price option"

type_synonym bar = lightweight_bar

record trade_data =
  td_c :: price
  td_h :: price
  td_l :: price
  td_o :: price
  td_poolId :: string
  td_t :: seconds
  td_vA :: price
  td_vB :: price
  td_vU :: price

record birdeye_item =
  unixTime :: seconds
  bi_o :: price
  bi_h :: price
  bi_l :: price
  bi_c :: price
  vQuote :: "price option"

definition bar_wf :: "bar \<Rightarrow> bool" where
  "bar_wf b \<longleftrightarrow> lb_low b \<le> lb_open b \<and> lb_low b \<le> lb_close b \<and>
     lb_open b \<le> lb_high b \<and> lb_close b \<le> lb_high b"

definition row_close_in_range :: "trade_data \<Rightarrow> bool" where
  "row_close_in_range r \<longleftrightarrow> td_l r \<le> td_c r \<and> td_c r \<le> td_h r"

definition item_ohlc_consistent :: "birdeye_item \<Rightarrow> bool" where
  "item_ohlc_consistent i \<longleftrightarrow> bi_l i \<le> bi_o i \<and> bi_l i \<le> bi_c i \<and> bi_o i \<le> bi_h i \<and> bi_c i \<le> bi_h i"

declare bar_wf_def [model_defs] row_close_in_range_def [model_defs] item_ohlc_consistent_def [model_defs]

text \<open>A bar built from prices that respect their bounds is well formed.\<close>

lemma bar_wfI [intro]:
  "lb_low b \<le> lb_open b \<Longrightarrow> lb_low b \<le> lb_close b \<Longrightarrow> lb_open b \<le> lb_high b \<Longrightarrow>
   lb_close b \<le> lb_high b \<Longrightarrow> bar_wf b"
  by (simp add: bar_wf_def)

lemma bar_wfD:
  "bar_wf b \<Longrightarrow> lb_low b \<le> lb_open b \<and> lb_low b \<le> lb_close b \<and> lb_open b \<le> lb_high b \<and>
   lb_close b \<le> lb_high b"
  by (simp add: bar_wf_def)

lemma bar_wf_low_le_high: "bar_wf b \<Longrightarrow> lb_low b \<le> lb_high b"
  by (auto simp: bar_wf_def)

end
