(* ===== verification/BucketLoop.thy ===== *)
theory BucketLoop
  imports Bars
begin

text \<open>
  The shape shared by the three bucketing loops of the sources (\<open>DataFeed.getBars\<close> and
  both paths of \<open>fetchChartData\<close>): a \<open>forEach\<close> over the rows that keeps an output
  array and an accumulator bar, closes the accumulator when a row's bucket start compares
  in the loop's direction with the accumulator's time, opens a bar from a row when there is
  no accumulator and otherwise merges the row into it, and pushes the accumulator at the end.
  \<open>bucket_step\<close> is one iteration for a given bucket key, closing comparison, opening and
  merging function; \<open>push_current\<close> is the final push. The lemmas are proved once here:
  an invariant of the loop (\<open>bucket_loop_preserves\<close>), and the refinement
  (\<open>bucket_loop_runs\<close>): on rows whose keys are ordered so that the closing comparison
  fires exactly on a change of key, the loop makes one bar per run of equal key.
\<close>

definition bucket_step ::
  "('a \<Rightarrow> seconds) \<Rightarrow> (millis \<Rightarrow> millis \<Rightarrow> bool) \<Rightarrow> ('a \<Rightarrow> bar) \<Rightarrow> (bar \<Rightarrow> 'a \<Rightarrow> bar) \<Rightarrow>
   bar list \<times> bar option \<Rightarrow> 'a \<Rightarrow> bar list \<times> bar option" where
  "bucket_step key closes opn mrg acc r =
     (let (bars, currentBar) = acc;
          (bars, currentBar) =
            (case currentBar of
               Some cb \<Rightarrow> if closes (key r * 1000) (lb_time cb) then (bars @ [cb], None) else (bars, currentBar)
             | None \<Rightarrow> (bars, None))
      in case currentBar of
           None \<Rightarrow> (bars, Some (opn r))
         | Some cb \<Rightarrow> (bars, Some (mrg cb r)))"

definition push_current :: "bar list \<times> bar option \<Rightarrow> bar list" where
  "push_current acc = (case acc of (bars, None) \<Rightarrow> bars | (bars, Some cb) \<Rightarrow> bars @ [cb])"

definition bucket_loop ::
  "('a \<Rightarrow> seconds) \<Rightarrow> (millis \<Rightarrow> millis \<Rightarrow> bool) \<Rightarrow> ('a \<Rightarrow> bar) \<Rightarrow> (bar \<Rightarrow> 'a \<Rightarrow> bar) \<Rightarrow>
   'a list \<Rightarrow> bar list" where
  "bucket_loop key closes opn mrg rows =
     push_current (fold (\<lambda>r acc. bucket_step key closes opn mrg acc r) rows ([], None))"

definition bucket_aggregate :: "('a \<Rightarrow> bar) \<Rightarrow> (bar \<Rightarrow> 'a \<Rightarrow> bar) \<Rightarrow> 'a list \<Rightarrow> bar" where
  "bucket_aggregate opn mrg g = fold (\<lambda>r b. mrg b r) (tl g) (opn (hd g))"

text \<open>
  The hypotheses of the refinement: opening a bar stamps it with the row's key in
  milliseconds, merging keeps the time, and on keys in the feed's order (\<open>R\<close>, reflexive)
  the closing comparison fires exactly when the key changes.
\<close>

definition closes_on_change :: "(seconds \<Rightarrow> seconds \<Rightarrow> bool) \<Rightarrow> (millis \<Rightarrow> millis \<Rightarrow> bool) \<Rightarrow> bool" where
  "closes_on_change R closes \<longleftrightarrow> (\<forall>a. R a a) \<and> (\<forall>a b. R a b \<longrightarrow> (closes (b * 1000) (a * 1000) \<longleftrightarrow> b \<noteq> a))"

declare bucket_step_def [model_defs] push_current_def [model_defs] bucket_loop_def [model_defs]
  bucket_aggregate_def [model_defs]

section \<open>One iteration\<close>

lemma bucket_step_None [simp]: "bucket_step key closes opn mrg (bars, None) r = (bars, Some (opn r))"
  by (simp add: bucket_step_def)

lemma bucket_step_Some:
  "bucket_step key closes opn mrg (bars, Some cb) r =
     (if closes (key r * 1000) (lb_time cb) then (bars @ [cb], Some (opn r)) else (bars, Some (mrg cb r)))"
  by (simp add: bucket_step_def)

lemma bucket_step_current: "snd (bucket_step key closes opn mrg acc r) \<noteq> None"
  by (cases acc; cases "snd acc") (simp_all add: bucket_step_Some)

lemma push_current_simps [simp]:
  "push_current (bars, None) = bars" "push_current (bars, Some cb) = bars @ [cb]"
  by (simp_all add: push_current_def)

section \<open>Invariant of the loop\<close>

lemma bucket_step_preserves:
  assumes opn: "\<And>r. Q r \<Longrightarrow> P (opn r)" and mrg: "\<And>cb r. P cb \<Longrightarrow> Q r \<Longrightarrow> P (mrg cb r)"
    and inv: "(\<forall>b \<in> set (fst acc). P b) \<and> pred_option P (snd acc)" and q: "Q r"
  shows "(\<forall>b \<in> set (fst (bucket_step key closes opn mrg acc r)). P b) \<and>
         pred_option P (snd (bucket_step key closes opn mrg acc r))"
proof (cases acc)
  case (Pair bars cur)
  have po: "P (opn r)" using q by (rule opn)
  show ?thesis
  proof (cases cur)
    case None
    with Pair inv po show ?thesis by simp
  next
    case (Some cb)
    with Pair inv have pcb: "P cb" and pb: "\<forall>b \<in> set bars. P b" by simp_all
    have pm: "P (mrg cb r)" using pcb q by (rule mrg)
    from Pair Some pcb pb po pm show ?thesis by (simp add: bucket_step_Some)
  qed
qed

lemma fold_bucket_step_preserves:
  assumes opn: "\<And>r. Q r \<Longrightarrow> P (opn r)" and mrg: "\<And>cb r. P cb \<Longrightarrow> Q r \<Longrightarrow> P (mrg cb r)"
  shows "(\<forall>b \<in> set (fst acc). P b) \<and> pred_option P (snd acc) \<Longrightarrow> \<forall>r \<in> set rows. Q r \<Longrightarrow>
    (\<forall>b \<in> set (fst (fold (\<lambda>r acc. bucket_step key closes opn mrg acc r) rows acc)). P b) \<and>
    pred_option P (snd (fold (\<lambda>r acc. bucket_step key closes opn mrg acc r) rows acc))"
proof (induction rows arbitrary: acc)
  case (Cons r rows)
  from Cons.prems(2) have q: "Q r" by simp
  have st: "(\<forall>b \<in> set (fst (bucket_step key closes opn mrg acc r)). P b) \<and>
      pred_option P (snd (bucket_step key closes opn mrg acc r))"
    by (rule bucket_step_preserves [of Q P opn mrg, OF opn mrg Cons.prems(1) q])
  from Cons.prems(2) have rs: "\<forall>r \<in> set rows. Q r" by simp
  from Cons.IH [OF st rs] show ?case by simp
qed simp

lemma bucket_loop_preserves:
  assumes opn: "\<And>r. Q r \<Longrightarrow> P (opn r)" and mrg: "\<And>cb r. P cb \<Longrightarrow> Q r \<Longrightarrow> P (mrg cb r)"
    and rows: "\<forall>r \<in> set rows. Q r"
  shows "\<forall>b \<in> set (bucket_loop key closes opn mrg rows). P b"
proof -
  let ?acc = "fold (\<lambda>r acc. bucket_step key closes opn mrg acc r) rows ([], None)"
  have "(\<forall>b \<in> set ([]::bar list). P b) \<and> pred_option P (None::bar option)" by simp
  then have "(\<forall>b \<in> set (fst ?acc). P b) \<and> pred_option P (snd ?acc)"
    using opn mrg rows by (intro fold_bucket_step_preserves) simp_all
  moreover obtain bars cur where "?acc = (bars, cur)" by (cases ?acc)
  ultimately show ?thesis by (cases cur) (simp_all add: bucket_loop_def)
qed

lemma fold_bucket_step_current:
  "rows \<noteq> [] \<Longrightarrow> snd (fold (\<lambda>r acc. bucket_step key closes opn mrg acc r) rows acc) \<noteq> None"
proof (induction rows arbitrary: acc rule: rev_induct)
  case (snoc r rows)
  then show ?case by (simp add: bucket_step_current)
qed simp

lemma bucket_loop_nonempty: "rows \<noteq> [] \<Longrightarrow> bucket_loop key closes opn mrg rows \<noteq> []"
  using fold_bucket_step_current [of rows key closes opn mrg "([], None)"]
  by (cases "fold (\<lambda>r acc. bucket_step key closes opn mrg acc r) rows ([], None)")
    (auto simp: bucket_loop_def push_current_def split: option.splits)

section \<open>Refinement: one bar per run of equal key\<close>

lemma fold_merge_time:
  "(\<And>cb r. lb_time (mrg cb r) = lb_time cb) \<Longrightarrow> lb_time (fold (\<lambda>r b. mrg b r) rs cb) = lb_time cb"
  by (induction rs arbitrary: cb) simp_all

lemma bucket_aggregate_time:
  "(\<And>r. lb_time (opn r) = key r * 1000) \<Longrightarrow> (\<And>cb r. lb_time (mrg cb r) = lb_time cb) \<Longrightarrow>
   lb_time (bucket_aggregate opn mrg g) = key (hd g) * 1000"
  by (simp add: bucket_aggregate_def fold_merge_time)

lemma fold_bucket_run:
  "(\<And>cb r. lb_time (mrg cb r) = lb_time cb) \<Longrightarrow> \<forall>r \<in> set g. \<not> closes (key r * 1000) (lb_time cb) \<Longrightarrow>
   fold (\<lambda>r acc. bucket_step key closes opn mrg acc r) g (bars, Some cb) = (bars, Some (fold (\<lambda>r b. mrg b r) g cb))"
  by (induction g arbitrary: cb) (simp_all add: bucket_step_Some)

lemma bucket_finish_runs:
  assumes time_open: "\<And>r. lb_time (opn r) = key r * 1000"
    and time_merge: "\<And>cb r. lb_time (mrg cb r) = lb_time cb"
    and coc: "closes_on_change R closes"
  shows "f = key \<Longrightarrow> sorted_wrt R (map f rows) \<Longrightarrow>
    push_current (fold (\<lambda>r acc. bucket_step key closes opn mrg acc r) rows (bars, None)) =
    bars @ map (bucket_aggregate opn mrg) (group_runs f rows)"
proof (induction f rows arbitrary: bars rule: group_runs.induct)
  case (1 f)
  then show ?case by simp
next
  case (2 f x xs)
  let ?tw = "takeWhile (\<lambda>y. f y = f x) xs" and ?dw = "dropWhile (\<lambda>y. f y = f x) xs"
  let ?agg = "bucket_aggregate opn mrg (x # ?tw)"
  let ?fold = "\<lambda>rs acc. fold (\<lambda>r acc. bucket_step key closes opn mrg acc r) rs acc"
  have refl: "R a a" for a using coc by (simp add: closes_on_change_def)
  have "\<forall>r \<in> set ?tw. \<not> closes (key r * 1000) (lb_time (opn x))"
    using "2.prems"(1) coc refl by (auto simp: time_open closes_on_change_def dest: set_takeWhileD)
  then have run: "?fold (x # ?tw) (bars, None) = (bars, Some ?agg)"
    by (simp add: fold_bucket_run time_merge bucket_aggregate_def)
  have "x # xs = (x # ?tw) @ ?dw" by simp
  then have whole: "?fold (x # xs) (bars, None) = ?fold ?dw (bars, Some ?agg)"
    by (metis fold_append comp_apply run)
  have sd: "sorted_wrt R (map f ?dw)"
    using "2.prems"(2) by (simp add: sorted_wrt_map sorted_wrt_dropWhile)
  show ?case
  proof (cases ?dw)
    case Nil
    with whole show ?thesis by simp
  next
    case (Cons y ys)
    then have "y \<in> set ?dw" by simp
    then have "y \<in> set xs" by (rule set_dropWhileD)
    moreover have "f y \<noteq> f x"
      using Cons hd_dropWhile [of "\<lambda>y. f y = f x" xs] by simp
    moreover from \<open>y \<in> set xs\<close> "2.prems"(2) have "R (f x) (f y)" by (simp add: sorted_wrt_map)
    ultimately have "closes (key y * 1000) (lb_time ?agg)"
      using coc "2.prems"(1) bucket_aggregate_time [of opn key mrg, OF time_open time_merge]
      by (simp add: closes_on_change_def)
    then have "?fold ?dw (bars, Some ?agg) = ?fold ?dw (bars @ [?agg], None)"
      using Cons by (simp add: bucket_step_Some)
    with whole "2.IH" [OF "2.prems"(1) sd, of "bars @ [?agg]"] show ?thesis by simp
  qed
qed

lemma bucket_loop_runs:
  assumes "\<And>r. lb_time (opn r) = key r * 1000" and "\<And>cb r. lb_time (mrg cb r) = lb_time cb"
    and "closes_on_change R closes" and "sorted_wrt R (map key rows)"
  shows "bucket_loop key closes opn mrg rows = map (bucket_aggregate opn mrg) (group_runs key rows)"
  using bucket_finish_runs [OF assms(1-3) refl assms(4), where bars = "[]"] by (simp add: bucket_loop_def)

end
