(* ===== verification/KlineBucketer.thy ===== *)
theory KlineBucketer
  imports BucketLoop
begin

text \<open>
  The bucketing loop over the rows of the kline history host: the body of
  \<open>rows.forEach\<close> in \<open>DataFeed.getBars\<close> (datafeed.ts), repeated verbatim in the
  regular path of \<open>fetchChartData\<close> (TVChart.tsx). The loop keeps the output array
  \<open>bars\<close> and the accumulator \<open>currentBar\<close>; \<open>kline_step\<close> is one iteration,
  \<open>kline_collect\<close> the whole loop with the final push; \<open>kline_step_is_bucket_step\<close>
  identifies the iteration as an instance of the generic loop of \<open>BucketLoop\<close>, whose
  lemmas carry the proofs below. The host returns rows newest
  first, and the loop closes the accumulator when a row falls in an \<^emph>\<open>earlier\<close>
  bucket.

  \<open>kline_aggregate\<close> folds one run of rows into a bar, and the refinement lemma
  \<open>kline_collect_eq_runs\<close> says that on a feed whose times never increase the loop makes
  exactly one bar per run of equal bucket start (\<open>group_runs\<close> of the prelude). The
  invariants (well-formed bars, bar times on the bucket grid) are proved for any order of
  the feed, by an invariant of the loop.
\<close>

section \<open>The loop\<close>

definition kline_bucket :: "seconds \<Rightarrow> trade_data \<Rightarrow> seconds" where
  "kline_bucket timeUnit r = floor_to_unit timeUnit (td_t r)"

definition kline_open_bar :: "seconds \<Rightarrow> trade_data \<Rightarrow> bar" where
  "kline_open_bar barTime r =
     \<lparr>lb_time = barTime * 1000,
      lb_open = td_o r,
      lb_high = max (max (max (td_o r) (td_l r)) (td_h r)) (td_c r),
      lb_low = min (min (min (td_o r) (td_l r)) (td_h r)) (td_c r),
      lb_close = td_c r,
      lb_volume = None\<rparr>"

definition kline_merge_row :: "bar \<Rightarrow> trade_data \<Rightarrow> bar" where
  "kline_merge_row currentBar r =
     currentBar\<lparr>lb_close := td_c r,
                lb_low := min (td_l r) (lb_low currentBar),
                lb_high := max (td_h r) (lb_high currentBar)\<rparr>"

definition kline_step :: "seconds \<Rightarrow> bar list \<times> bar option \<Rightarrow> trade_data \<Rightarrow> bar list \<times> bar option" where
  "kline_step timeUnit acc r =
     (let (bars, currentBar) = acc;
          barTime = floor_to_unit timeUnit (td_t r);
          (bars, currentBar) =
            (case currentBar of
               Some cb \<Rightarrow> if barTime * 1000 < lb_time cb then (bars @ [cb], None) else (bars, currentBar)
             | None \<Rightarrow> (bars, None))
      in case currentBar of
           None \<Rightarrow> (bars, Some (kline_open_bar barTime r))
         | Some cb \<Rightarrow> (bars, Some (kline_merge_row cb r)))"

definition kline_collect :: "seconds \<Rightarrow> trade_data list \<Rightarrow> bar list" where
  "kline_collect timeUnit rows = push_current (fold (\<lambda>r acc. kline_step timeUnit acc r) rows ([], None))"

text \<open>Reference: one run of rows folded into one bar.\<close>

definition kline_aggregate :: "seconds \<Rightarrow> trade_data list \<Rightarrow> bar" where
  "kline_aggregate timeUnit g =
     fold (\<lambda>r b. kline_merge_row b r) (tl g) (kline_open_bar (kline_bucket timeUnit (hd g)) (hd g))"

declare kline_bucket_def [model_defs] kline_open_bar_def [model_defs] kline_merge_row_def [model_defs]
  kline_step_def [model_defs] kline_collect_def [model_defs]
  kline_aggregate_def [model_defs]

section \<open>The loop as an instance of the generic loop\<close>

lemma kline_step_is_bucket_step:
  "kline_step u = bucket_step (kline_bucket u) (<) (\<lambda>r. kline_open_bar (kline_bucket u r) r) kline_merge_row"
  unfolding kline_step_def bucket_step_def kline_bucket_def Let_def by (intro ext) (rule refl)

lemma kline_collect_is_bucket_loop:
  "kline_collect u rows =
   bucket_loop (kline_bucket u) (<) (\<lambda>r. kline_open_bar (kline_bucket u r) r) kline_merge_row rows"
  by (simp add: kline_collect_def bucket_loop_def kline_step_is_bucket_step)

lemma kline_aggregate_is_bucket_aggregate:
  "kline_aggregate u = bucket_aggregate (\<lambda>r. kline_open_bar (kline_bucket u r) r) kline_merge_row"
  by (intro ext) (simp add: kline_aggregate_def bucket_aggregate_def)

lemma kline_merge_row_time [simp]: "lb_time (kline_merge_row cb r) = lb_time cb"
  by (simp add: kline_merge_row_def)

lemma kline_open_bar_time [simp]: "lb_time (kline_open_bar b r) = b * 1000"
  by (simp add: kline_open_bar_def)

lemma kline_aggregate_time [simp]: "lb_time (kline_aggregate u g) = kline_bucket u (hd g) * 1000"
  by (simp add: kline_aggregate_is_bucket_aggregate bucket_aggregate_time)

lemma kline_closes_on_change: "closes_on_change (\<lambda>a b. b \<le> a) (<)"
  by (auto simp: closes_on_change_def)

lemma kline_collect_preserves:
  "(\<And>r. Q r \<Longrightarrow> P (kline_open_bar (kline_bucket u r) r)) \<Longrightarrow>
   (\<And>cb r. P cb \<Longrightarrow> Q r \<Longrightarrow> P (kline_merge_row cb r)) \<Longrightarrow> \<forall>r \<in> set rows. Q r \<Longrightarrow>
   \<forall>b \<in> set (kline_collect u rows). P b"
  unfolding kline_collect_is_bucket_loop by (rule bucket_loop_preserves)

lemma kline_collect_nonempty: "rows \<noteq> [] \<Longrightarrow> kline_collect u rows \<noteq> []"
  unfolding kline_collect_is_bucket_loop by (rule bucket_loop_nonempty)

section \<open>Refinement: one bar per run of equal bucket\<close>

lemma kline_bucket_sorted:
  assumes u: "0 < u" and s: "sorted_wrt (\<ge>) (map td_t rows)"
  shows "sorted_wrt (\<ge>) (map (kline_bucket u) rows)"
proof -
  have "sorted_wrt (\<lambda>a b. td_t b \<le> td_t a) rows" using s by (simp add: sorted_wrt_map)
  then have "sorted_wrt (\<lambda>a b. kline_bucket u b \<le> kline_bucket u a) rows"
    by (rule sorted_wrt_mono_rel [rotated]) (simp add: kline_bucket_def floor_to_unit_mono u)
  then show ?thesis by (simp add: sorted_wrt_map)
qed

lemma kline_collect_eq_runs:
  assumes "0 < u" and "sorted_wrt (\<ge>) (map td_t rows)"
  shows "kline_collect u rows = map (kline_aggregate u) (group_runs (kline_bucket u) rows)"
proof -
  have "sorted_wrt (\<lambda>a b. b \<le> a) (map (kline_bucket u) rows)"
    using kline_bucket_sorted [OF assms] by simp
  then show ?thesis
    unfolding kline_collect_is_bucket_loop kline_aggregate_is_bucket_aggregate
    by (intro bucket_loop_runs [OF _ _ kline_closes_on_change]) simp_all
qed

section \<open>What one aggregated bar holds\<close>

lemma fold_kline_merge_fields:
  "lb_open (fold (\<lambda>r b. kline_merge_row b r) rs cb) = lb_open cb \<and>
   lb_volume (fold (\<lambda>r b. kline_merge_row b r) rs cb) = lb_volume cb \<and>
   lb_close (fold (\<lambda>r b. kline_merge_row b r) rs cb) = (if rs = [] then lb_close cb else td_c (last rs)) \<and>
   lb_high (fold (\<lambda>r b. kline_merge_row b r) rs cb) = Max (insert (lb_high cb) (td_h ` set rs)) \<and>
   lb_low (fold (\<lambda>r b. kline_merge_row b r) rs cb) = Min (insert (lb_low cb) (td_l ` set rs))"
proof (induction rs arbitrary: cb)
  case Nil
  then show ?case by simp
next
  case (Cons r rs)
  have "Max (insert (max (td_h r) (lb_high cb)) (td_h ` set rs)) = Max (insert (lb_high cb) (td_h ` set (r # rs)))"
    by (cases "rs = []") (simp_all add: max.left_commute max.commute)
  moreover have "Min (insert (min (td_l r) (lb_low cb)) (td_l ` set rs)) = Min (insert (lb_low cb) (td_l ` set (r # rs)))"
    by (cases "rs = []") (simp_all add: min.left_commute min.commute)
  ultimately show ?case using Cons.IH [of "kline_merge_row cb r"] by (simp add: kline_merge_row_def)
qed

text \<open>Each run of a list sorted by a relation is sorted by it, newest row first and oldest last.\<close>

lemma sorted_wrt_concat_mem: "sorted_wrt R (concat gs) \<Longrightarrow> g \<in> set gs \<Longrightarrow> sorted_wrt R g"
  by (induction gs) (auto simp: sorted_wrt_append)

lemma sorted_desc_hd_last:
  fixes f :: "'a \<Rightarrow> 'b::linorder"
  shows "sorted_wrt (\<ge>) (map f g) \<Longrightarrow> g \<noteq> [] \<Longrightarrow> list_all (\<lambda>x. f (last g) \<le> f x \<and> f x \<le> f (hd g)) g"
proof (induction g)
  case (Cons a g)
  then show ?case by (cases g) (auto simp: list_all_iff intro: order_trans)
qed simp

section \<open>Loop instances of the invariant\<close>

lemma kline_open_bar_wf: "bar_wf (kline_open_bar b r)"
  by (auto simp: kline_open_bar_def bar_wf_def)

lemma kline_merge_row_wf: "bar_wf cb \<Longrightarrow> row_close_in_range r \<Longrightarrow> bar_wf (kline_merge_row cb r)"
  by (auto simp: kline_merge_row_def bar_wf_def row_close_in_range_def)

lemma kline_open_bar_grid: "u * 1000 dvd lb_time (kline_open_bar (kline_bucket u r) r)"
  by (simp add: kline_bucket_def floor_to_unit_dvd)

lemma kline_collect_grid: "\<forall>b \<in> set (kline_collect u rows). u * 1000 dvd lb_time b"
  by (rule kline_collect_preserves [where Q = "\<lambda>_. True"]) (simp_all add: kline_bucket_def floor_to_unit_dvd)

lemma kline_collect_times:
  "0 < u \<Longrightarrow> sorted_wrt (\<ge>) (map td_t rows) \<Longrightarrow>
   map lb_time (kline_collect u rows) = map (\<lambda>g. kline_bucket u (hd g) * 1000) (group_runs (kline_bucket u) rows)"
  by (simp add: kline_collect_eq_runs)

lemma kline_collect_desc_grid:
  assumes u: "0 < u" and s: "sorted_wrt (\<ge>) (map td_t rows)"
  shows "sorted_wrt (>) (map lb_time (kline_collect u rows)) \<and>
         (\<forall>b \<in> set (kline_collect u rows). u * 1000 dvd lb_time b)"
proof
  have "sorted_wrt (>) (map (\<lambda>g. kline_bucket u (hd g)) (group_runs (kline_bucket u) rows))"
    using kline_bucket_sorted [OF u s] by (rule group_runs_keys_decreasing)
  then have "sorted_wrt (>) (map (\<lambda>g. kline_bucket u (hd g) * 1000) (group_runs (kline_bucket u) rows))"
    by (simp add: sorted_wrt_map)
  then show "sorted_wrt (>) (map lb_time (kline_collect u rows))"
    by (simp only: kline_collect_times [OF u s])
  show "\<forall>b \<in> set (kline_collect u rows). u * 1000 dvd lb_time b"
    by (rule kline_collect_grid)
qed

text \<open>C1: bucketing a newest-first page is one aggregate bar per run of equal bucket start.\<close>

theorem kline_collect_refines_runs:
  assumes "0 < u" and "sorted_wrt (\<ge>) (map td_t rows)"
  shows "kline_collect u rows = map (kline_aggregate u) (group_runs (kline_bucket u) rows)"
  using assms by (rule kline_collect_eq_runs)

text \<open>
  C7: on a newest-first page the bars are strictly newest first, one per bucket, and every
  bar time is the start of a bucket, in milliseconds.
\<close>

theorem kline_collect_grid_decreasing:
  assumes "0 < u" and "sorted_wrt (\<ge>) (map td_t rows)"
  shows "sorted_wrt (>) (map lb_time (kline_collect u rows)) \<and>
         (\<forall>b \<in> set (kline_collect u rows). u * 1000 dvd lb_time b)"
  using assms by (rule kline_collect_desc_grid)

text \<open>
  C9: whatever the order of the page, every bar is well formed (low below open and close,
  high above them) when every row has its close between its low and its high.
\<close>

theorem kline_collect_wf:
  "\<forall>r \<in> set rows. row_close_in_range r \<Longrightarrow> \<forall>b \<in> set (kline_collect u rows). bar_wf b"
  by (rule kline_collect_preserves [where Q = row_close_in_range])
    (simp_all add: kline_open_bar_wf kline_merge_row_wf)

text \<open>
  The bar of a run opens at the open of its first row, closes at the close of its last
  row, and spans the extremes of the run; it carries no volume.
\<close>

theorem kline_aggregate_fields:
  "lb_time (kline_aggregate u (r # rs)) = floor_to_unit u (td_t r) * 1000 \<and>
   lb_open (kline_aggregate u (r # rs)) = td_o r \<and>
   lb_close (kline_aggregate u (r # rs)) = td_c (last (r # rs)) \<and>
   lb_high (kline_aggregate u (r # rs)) =
     Max (insert (max (max (max (td_o r) (td_l r)) (td_h r)) (td_c r)) (td_h ` set rs)) \<and>
   lb_low (kline_aggregate u (r # rs)) =
     Min (insert (min (min (min (td_o r) (td_l r)) (td_h r)) (td_c r)) (td_l ` set rs)) \<and>
   lb_volume (kline_aggregate u (r # rs)) = None"
proof -
  let ?b = "kline_open_bar (kline_bucket u r) r"
  have agg: "kline_aggregate u (r # rs) = fold (\<lambda>r b. kline_merge_row b r) rs ?b"
    by (simp add: kline_aggregate_def)
  have ob: "lb_time ?b = floor_to_unit u (td_t r) * 1000" "lb_open ?b = td_o r" "lb_volume ?b = None"
    "lb_close ?b = td_c r" "lb_high ?b = max (max (max (td_o r) (td_l r)) (td_h r)) (td_c r)"
    "lb_low ?b = min (min (min (td_o r) (td_l r)) (td_h r)) (td_c r)"
    by (simp_all add: kline_open_bar_def kline_bucket_def)
  show ?thesis unfolding agg
    using fold_kline_merge_fields [of rs ?b] ob fold_merge_time [of kline_merge_row rs ?b] by simp
qed

text \<open>
  C28: on a newest-first page every bar takes its open from the newest row of its bucket
  and its close from the oldest, because the loop opens a bar on the first row it meets:
  OHLC semantics (and the specification's fold, close = latest sample) want the opposite.
\<close>

theorem kline_collect_open_from_newest:
  assumes u: "0 < u" and s: "sorted_wrt (\<ge>) (map td_t rows)" and b: "b \<in> set (kline_collect u rows)"
  shows "\<exists>g \<in> set (group_runs (kline_bucket u) rows).
           lb_open b = td_o (hd g) \<and> lb_close b = td_c (last g) \<and>
           list_all (\<lambda>x. td_t (last g) \<le> td_t x \<and> td_t x \<le> td_t (hd g)) g"
proof -
  obtain g where g: "g \<in> set (group_runs (kline_bucket u) rows)" and bg: "b = kline_aggregate u g"
    using b kline_collect_eq_runs [OF u s] by auto
  obtain r rs where rg: "g = r # rs" using group_runs_nonempty [OF g] by (cases g) auto
  have "sorted_wrt (\<ge>) (map td_t g)"
    using s g sorted_wrt_concat_mem [of "\<lambda>x y. td_t y \<le> td_t x" "group_runs (kline_bucket u) rows" g]
    by (simp add: sorted_wrt_map)
  then have l: "list_all (\<lambda>x. td_t (last g) \<le> td_t x \<and> td_t x \<le> td_t (hd g)) g"
    using rg by (intro sorted_desc_hd_last) simp_all
  have "lb_open b = td_o (hd g) \<and> lb_close b = td_c (last g)"
    using bg rg kline_aggregate_fields [of u r rs] by simp
  with l show ?thesis using g by blast
qed

text \<open>
  The loop trusts the newest-first order: a page in ascending order never closes the
  accumulator, and rows of two different minutes come out as one bar.
\<close>

theorem kline_collect_ascending_merges:
  "kline_collect 60 [trade_data.make 2 3 1 2 ''pool'' 60 0 0 0, trade_data.make 2 3 1 2 ''pool'' 120 0 0 0] =
   [\<lparr>lb_time = 60000, lb_open = 2, lb_high = 3, lb_low = 1, lb_close = 2, lb_volume = None\<rparr>]"
  by (simp add: model_defs trade_data.make_def)

section \<open>Witnesses\<close>

theorem kline_collect_open_from_newest_witness:
  "kline_collect 300 [trade_data.make 6 6 5 5 ''pool'' 120 0 0 0, trade_data.make 2 2 1 1 ''pool'' 60 0 0 0] =
     [\<lparr>lb_time = 0, lb_open = 5, lb_high = 6, lb_low = 1, lb_close = 2, lb_volume = None\<rparr>] \<and>
   (\<exists>g \<in> set (group_runs (kline_bucket 300) [trade_data.make 6 6 5 5 ''pool'' 120 0 0 0, trade_data.make 2 2 1 1 ''pool'' 60 0 0 0]).
      lb_open \<lparr>lb_time = 0, lb_open = 5, lb_high = 6, lb_low = 1, lb_close = 2, lb_volume = None\<rparr> = td_o (hd g) \<and>
      lb_close \<lparr>lb_time = 0, lb_open = 5, lb_high = 6, lb_low = 1, lb_close = 2, lb_volume = None\<rparr> = td_c (last g) \<and>
      list_all (\<lambda>x. td_t (last g) \<le> td_t x \<and> td_t x \<le> td_t (hd g)) g)"
proof -
  have c: "kline_collect 300 [trade_data.make 6 6 5 5 ''pool'' 120 0 0 0, trade_data.make 2 2 1 1 ''pool'' 60 0 0 0] =
     [\<lparr>lb_time = 0, lb_open = 5, lb_high = 6, lb_low = 1, lb_close = 2, lb_volume = None\<rparr>]"
    by (simp add: model_defs trade_data.make_def)
  have s: "sorted_wrt (\<ge>) (map td_t [trade_data.make 6 6 5 5 ''pool'' 120 0 0 0, trade_data.make 2 2 1 1 ''pool'' 60 0 0 0])"
    by (simp add: trade_data.make_def)
  have b: "\<lparr>lb_time = 0, lb_open = 5, lb_high = 6, lb_low = 1, lb_close = 2, lb_volume = None\<rparr> \<in>
      set (kline_collect 300 [trade_data.make 6 6 5 5 ''pool'' 120 0 0 0, trade_data.make 2 2 1 1 ''pool'' 60 0 0 0])"
    unfolding c by simp
  show ?thesis using c kline_collect_open_from_newest [OF _ s b] by simp
qed

theorem kline_collect_refines_runs_witness:
  "0 < (60::int) \<and> sorted_wrt (\<ge>) (map td_t [trade_data.make 2 3 1 2 ''pool'' 120 0 0 0, trade_data.make 2 3 1 2 ''pool'' 60 0 0 0]) \<and>
   kline_collect 60 [trade_data.make 2 3 1 2 ''pool'' 120 0 0 0, trade_data.make 2 3 1 2 ''pool'' 60 0 0 0] =
     map (kline_aggregate 60) (group_runs (kline_bucket 60) [trade_data.make 2 3 1 2 ''pool'' 120 0 0 0, trade_data.make 2 3 1 2 ''pool'' 60 0 0 0])"
proof -
  have h1: "0 < (60::int)" by simp
  have h2: "sorted_wrt (\<ge>) (map td_t [trade_data.make 2 3 1 2 ''pool'' 120 0 0 0, trade_data.make 2 3 1 2 ''pool'' 60 0 0 0])" by (simp add: trade_data.make_def)
  show ?thesis using h1 h2 kline_collect_refines_runs [OF h1 h2] by blast
qed

theorem kline_collect_grid_decreasing_witness:
  "0 < (60::int) \<and> sorted_wrt (\<ge>) (map td_t [trade_data.make 2 3 1 2 ''pool'' 120 0 0 0, trade_data.make 2 3 1 2 ''pool'' 60 0 0 0]) \<and>
   sorted_wrt (>) (map lb_time (kline_collect 60 [trade_data.make 2 3 1 2 ''pool'' 120 0 0 0, trade_data.make 2 3 1 2 ''pool'' 60 0 0 0])) \<and>
   list_all (\<lambda>b. 60 * 1000 dvd lb_time b) (kline_collect 60 [trade_data.make 2 3 1 2 ''pool'' 120 0 0 0, trade_data.make 2 3 1 2 ''pool'' 60 0 0 0]) \<and>
   length (kline_collect 60 [trade_data.make 2 3 1 2 ''pool'' 120 0 0 0, trade_data.make 2 3 1 2 ''pool'' 60 0 0 0]) = 2"
proof -
  have h1: "0 < (60::int)" by simp
  have h2: "sorted_wrt (\<ge>) (map td_t [trade_data.make 2 3 1 2 ''pool'' 120 0 0 0, trade_data.make 2 3 1 2 ''pool'' 60 0 0 0])" by (simp add: trade_data.make_def)
  have "length (kline_collect 60 [trade_data.make 2 3 1 2 ''pool'' 120 0 0 0, trade_data.make 2 3 1 2 ''pool'' 60 0 0 0]) = 2" by (simp add: model_defs trade_data.make_def)
  then show ?thesis using h1 h2 kline_collect_grid_decreasing [OF h1 h2] by (simp add: list_all_iff)
qed

theorem kline_collect_wf_witness:
  "row_close_in_range (trade_data.make 2 3 1 2 ''pool'' 120 0 0 0) \<and> row_close_in_range (trade_data.make 2 3 1 2 ''pool'' 60 0 0 0) \<and>
   list_all bar_wf (kline_collect 60 [trade_data.make 2 3 1 2 ''pool'' 120 0 0 0, trade_data.make 2 3 1 2 ''pool'' 60 0 0 0])"
proof -
  have h: "\<forall>r \<in> set [trade_data.make 2 3 1 2 ''pool'' 120 0 0 0, trade_data.make 2 3 1 2 ''pool'' 60 0 0 0]. row_close_in_range r"
    by (simp add: row_close_in_range_def trade_data.make_def)
  show ?thesis using h kline_collect_wf [OF h] by (simp add: list_all_iff)
qed

end
