(* ===== verification/Datafeed.thy ===== *)
theory Datafeed
  imports Resolution KlineBucketer
begin

text \<open>
  The \<open>DataFeed\<close> class of datafeed.ts and the module state it writes: the
  module-level \<open>nextPageKey\<close> (the pagination cursor) and \<open>lastBarsCache\<close> (a map
  from pool id to a bar) become fields of \<open>feed_state\<close>, passed and returned
  explicitly. The history host is a parameter \<open>api\<close>, a function from the request
  \<open>getBars\<close> builds to either an error (a thrown axios call) or the parsed response;
  \<open>get_bars\<close> returns the new state, the callback it invokes and the list of requests it
  issued, so that "no request" is a statement about that list.
  \<open>initPoolPriceDecimal\<close> comes from utils.ts, which is not part of the sources: it is
  a parameter \<open>ip\<close>.
\<close>

section \<open>State, requests and callbacks\<close>

record symbol_info =
  si_poolId :: string
  si_exchange :: string
  si_decimals :: nat
  si_pricescale :: nat

record kline_request =
  req_poolId :: string
  req_interval :: string
  req_limit :: nat
  req_nextPageKey :: "string option"

record kline_response =
  resp_rows :: "trade_data list option"
  resp_nextPageKey :: "string option"

datatype fetch_error = FetchError string

datatype history_callback = OnHistory "bar list" bool | OnError fetch_error

record feed_state =
  nextPageKey :: "string option"
  lastBarsCache :: "string \<Rightarrow> bar option"

type_synonym kline_api = "kline_request \<Rightarrow> fetch_error + kline_response"

text \<open>
  What the history host promises: its pages are newest first (the order the loop of
  \<open>getBars\<close> relies on), and each row has its close within its low and high.
\<close>

definition host_newest_first :: "kline_api \<Rightarrow> bool" where
  "host_newest_first api \<longleftrightarrow>
     (\<forall>req data rows. api req = Inr data \<longrightarrow> resp_rows data = Some rows \<longrightarrow> sorted_wrt (\<ge>) (map td_t rows))"

definition host_rows_consistent :: "kline_api \<Rightarrow> bool" where
  "host_rows_consistent api \<longleftrightarrow>
     (\<forall>req data rows. api req = Inr data \<longrightarrow> resp_rows data = Some rows \<longrightarrow> (\<forall>r \<in> set rows. row_close_in_range r))"

section \<open>getBars\<close>

definition clamp_single_bar :: "price \<Rightarrow> bar list \<Rightarrow> bar list" where
  "clamp_single_bar initPoolPriceDecimal bars =
     (case bars of
        [b] \<Rightarrow> [b\<lparr>lb_open := min initPoolPriceDecimal (lb_open b),
                   lb_low := min initPoolPriceDecimal (lb_low b)\<rparr>]
      | _ \<Rightarrow> bars)"

definition kline_page_request :: "symbol_info \<Rightarrow> resolution_string \<Rightarrow> string option \<Rightarrow> kline_request" where
  "kline_page_request symbolInfo resolution key =
     \<lparr>req_poolId = si_poolId symbolInfo,
      req_interval = kline_frame resolution,
      req_limit = 300,
      req_nextPageKey = (if js_truthy_str key then key else None)\<rparr>"

definition get_bars ::
  "price \<Rightarrow> kline_api \<Rightarrow> symbol_info \<Rightarrow> resolution_string \<Rightarrow> bool \<Rightarrow> feed_state \<Rightarrow>
   feed_state \<times> history_callback \<times> kline_request list" where
  "get_bars ip api symbolInfo resolution firstDataRequest st0 =
     (let timeUnit = resolution_to_seconds resolution;
          st = st0\<lparr>nextPageKey := (if firstDataRequest then None else nextPageKey st0)\<rparr>
      in if \<not> firstDataRequest \<and> \<not> js_truthy_str (nextPageKey st) then (st, OnHistory [] True, [])
         else
           (let req = kline_page_request symbolInfo resolution (nextPageKey st)
            in case api req of
                 Inl e \<Rightarrow> (st, OnError e, [req])
               | Inr data \<Rightarrow>
                   (let rows = (case resp_rows data of None \<Rightarrow> [] | Some rs \<Rightarrow> rs);
                        st = st\<lparr>nextPageKey := resp_nextPageKey data\<rparr>
                    in if rows = [] then (st, OnHistory [] True, [req])
                       else
                         (let bars = clamp_single_bar ip (kline_collect timeUnit rows);
                              st = (if firstDataRequest
                                    then st\<lparr>lastBarsCache := (lastBarsCache st)(si_poolId symbolInfo \<mapsto> hd bars)\<rparr>
                                    else st)
                          in (st, OnHistory (rev bars) False, [req])))))"

declare clamp_single_bar_def [model_defs] kline_page_request_def [model_defs] get_bars_def [model_defs]

section \<open>Example inputs\<close>

text \<open>A two-minute newest-first page, a host that serves it, a symbol, an empty state.\<close>

abbreviation example_row :: "seconds \<Rightarrow> trade_data" where
  "example_row t \<equiv> trade_data.make 2 3 1 2 ''pool'' t 0 0 0"

abbreviation example_api :: "string option \<Rightarrow> kline_api" where
  "example_api key \<equiv> (\<lambda>req. Inr \<lparr>resp_rows = Some [example_row 120, example_row 60], resp_nextPageKey = key\<rparr>)"

abbreviation example_symbol :: "string \<Rightarrow> symbol_info" where
  "example_symbol pool \<equiv> \<lparr>si_poolId = pool, si_exchange = ''Raydium'', si_decimals = 12, si_pricescale = 10 ^ 12\<rparr>"

abbreviation example_state :: feed_state where
  "example_state \<equiv> \<lparr>nextPageKey = None, lastBarsCache = Map.empty\<rparr>"

section \<open>Lemmas\<close>

lemma clamp_single_bar_time [simp]: "map lb_time (clamp_single_bar ip bars) = map lb_time bars"
  by (simp add: clamp_single_bar_def split: list.splits)

lemma clamp_single_bar_length [simp]: "length (clamp_single_bar ip bars) = length bars"
  by (simp add: clamp_single_bar_def split: list.splits)

lemma clamp_single_bar_Nil_iff [simp]: "clamp_single_bar ip bars = [] \<longleftrightarrow> bars = []"
  by (simp add: clamp_single_bar_def split: list.splits)

lemma clamp_single_bar_wf:
  "\<forall>b \<in> set bars. bar_wf b \<Longrightarrow> \<forall>b \<in> set (clamp_single_bar ip bars). bar_wf b"
  by (auto simp: clamp_single_bar_def bar_wf_def split: list.splits)

text \<open>The outcomes of one call, as equations.\<close>

lemma get_bars_no_more:
  "\<not> js_truthy_str (nextPageKey st) \<Longrightarrow> get_bars ip api si r False st = (st, OnHistory [] True, [])"
  by (simp add: get_bars_def)

lemma get_bars_requests:
  "snd (snd (get_bars ip api si r first st)) =
     (if \<not> first \<and> \<not> js_truthy_str (nextPageKey st) then []
      else [kline_page_request si r (if first then None else nextPageKey st)])"
  by (auto simp: get_bars_def Let_def split: sum.splits)

lemma get_bars_error:
  "first \<or> js_truthy_str (nextPageKey st) \<Longrightarrow>
   api (kline_page_request si r (if first then None else nextPageKey st)) = Inl e \<Longrightarrow>
   get_bars ip api si r first st =
     (st\<lparr>nextPageKey := (if first then None else nextPageKey st)\<rparr>, OnError e,
      [kline_page_request si r (if first then None else nextPageKey st)])"
  by (auto simp: get_bars_def Let_def)

lemma get_bars_data_cursor:
  "get_bars ip api si r first st = (st', cb, [req]) \<Longrightarrow> api req = Inr data \<Longrightarrow>
   nextPageKey st' = resp_nextPageKey data"
  by (auto simp: get_bars_def Let_def split: if_splits sum.splits)

lemma get_bars_data_bars:
  "get_bars ip api si r first st = (st', OnHistory bars False, reqs) \<Longrightarrow>
   \<exists>data rows. reqs = [kline_page_request si r (if first then None else nextPageKey st)] \<and>
     api (hd reqs) = Inr data \<and> resp_rows data = Some rows \<and> rows \<noteq> [] \<and>
     bars = rev (clamp_single_bar ip (kline_collect (resolution_to_seconds r) rows)) \<and>
     lastBarsCache st' = (if first then (lastBarsCache st)(si_poolId si \<mapsto> hd (clamp_single_bar ip
        (kline_collect (resolution_to_seconds r) rows))) else lastBarsCache st)"
  by (auto simp: get_bars_def Let_def split: if_splits sum.splits option.splits)

lemma sorted_less_last_max:
  fixes f :: "'a \<Rightarrow> 'b::linorder"
  shows "sorted_wrt (<) (map f xs) \<Longrightarrow> b \<in> set xs \<Longrightarrow> f b \<le> f (last xs)"
proof (induction xs)
  case (Cons x xs)
  show ?case
  proof (cases "xs = []")
    case True
    with Cons.prems show ?thesis by simp
  next
    case False
    then have "last xs \<in> set xs" by simp
    with Cons False show ?thesis by (auto simp: less_imp_le)
  qed
qed simp

lemma get_bars_rows_bars:
  assumes "get_bars ip api si r first st = (st', OnHistory bars False, reqs)"
  obtains data rows where "api (hd reqs) = Inr data" and "resp_rows data = Some rows" and "rows \<noteq> []"
    and "bars = rev (clamp_single_bar ip (kline_collect (resolution_to_seconds r) rows))"
    and "lastBarsCache st' = (if first then (lastBarsCache st)(si_poolId si \<mapsto>
           hd (clamp_single_bar ip (kline_collect (resolution_to_seconds r) rows))) else lastBarsCache st)"
  using get_bars_data_bars [OF assms] by blast

lemma get_bars_sorted_grid:
  assumes call: "get_bars ip api si r first st = (st', OnHistory bars False, reqs)"
    and host: "host_newest_first api"
  shows "sorted_wrt (<) (map lb_time bars) \<and> (\<forall>b \<in> set bars. resolution_to_seconds r * 1000 dvd lb_time b)"
proof -
  obtain data rows where d: "api (hd reqs) = Inr data" and rows: "resp_rows data = Some rows"
    and bars: "bars = rev (clamp_single_bar ip (kline_collect (resolution_to_seconds r) rows))"
    using call by (rule get_bars_rows_bars)
  have s: "sorted_wrt (\<ge>) (map td_t rows)" using host d rows by (auto simp: host_newest_first_def)
  note g = kline_collect_desc_grid [OF resolution_to_seconds_pos s]
  have m: "map lb_time bars = rev (map lb_time (kline_collect (resolution_to_seconds r) rows))"
    by (simp only: bars rev_map [symmetric] clamp_single_bar_time)
  have "sorted_wrt (<) (map lb_time bars)"
    unfolding m sorted_wrt_rev using g by simp
  moreover have "\<forall>b \<in> set bars. resolution_to_seconds r * 1000 dvd lb_time b"
  proof
    fix b assume "b \<in> set bars"
    then have "lb_time b \<in> set (map lb_time (kline_collect (resolution_to_seconds r) rows))"
      using clamp_single_bar_time [of ip "kline_collect (resolution_to_seconds r) rows"]
      by (metis bars image_eqI list.set_map set_rev)
    with g show "resolution_to_seconds r * 1000 dvd lb_time b" by auto
  qed
  ultimately show ?thesis by blast
qed

text \<open>
  C6: a successful page reaches the chart oldest first: strictly increasing bar times on
  the bucket grid, when the host returns its rows newest first.
\<close>

theorem get_bars_oldest_first:
  assumes "get_bars ip api si r first st = (st', OnHistory bars False, reqs)"
    and "host_newest_first api"
  shows "sorted_wrt (<) (map lb_time bars) \<and> (\<forall>b \<in> set bars. resolution_to_seconds r * 1000 dvd lb_time b)"
  using assms by (rule get_bars_sorted_grid)

lemma get_bars_first_cache:
  assumes call: "get_bars ip api si r True st = (st', OnHistory bars False, reqs)"
    and host: "host_newest_first api"
  shows "bars \<noteq> [] \<and> lastBarsCache st' (si_poolId si) = Some (last bars) \<and>
         (\<forall>b \<in> set bars. lb_time b \<le> lb_time (last bars))"
proof -
  obtain data rows where "api (hd reqs) = Inr data" and "resp_rows data = Some rows" and ne: "rows \<noteq> []"
    and bars: "bars = rev (clamp_single_bar ip (kline_collect (resolution_to_seconds r) rows))"
    and cache0: "lastBarsCache st' = (if True then (lastBarsCache st)(si_poolId si \<mapsto>
           hd (clamp_single_bar ip (kline_collect (resolution_to_seconds r) rows))) else lastBarsCache st)"
    using call by (rule get_bars_rows_bars)
  from cache0 have cache: "lastBarsCache st' = (lastBarsCache st)(si_poolId si \<mapsto>
           hd (clamp_single_bar ip (kline_collect (resolution_to_seconds r) rows)))" by simp
  have "kline_collect (resolution_to_seconds r) rows \<noteq> []" using ne by (rule kline_collect_nonempty)
  then have ne': "bars \<noteq> []" by (simp add: bars)
  moreover have "lastBarsCache st' (si_poolId si) = Some (last bars)"
    using ne' by (simp add: cache bars last_rev)
  moreover have "\<forall>b \<in> set bars. lb_time b \<le> lb_time (last bars)"
  proof
    fix b assume "b \<in> set bars"
    with get_bars_sorted_grid [OF call host] show "lb_time b \<le> lb_time (last bars)"
      by (blast intro: sorted_less_last_max)
  qed
  ultimately show ?thesis by blast
qed

text \<open>
  C18: the first page seeds the last-bar cache of its pool with the bar the chart receives
  last, which is the newest bar of the page.
\<close>

theorem get_bars_caches_newest:
  assumes "get_bars ip api si r True st = (st', OnHistory bars False, reqs)"
    and "host_newest_first api"
  shows "bars \<noteq> [] \<and> lastBarsCache st' (si_poolId si) = Some (last bars) \<and>
         (\<forall>b \<in> set bars. lb_time b \<le> lb_time (last bars))"
  using assms by (rule get_bars_first_cache)

text \<open>
  C3: once a page has come back without a \<open>nextPageKey\<close>, the next non-first call answers
  "no data" at once and issues no request, whatever the symbol and resolution.
\<close>

theorem get_bars_exhausted_no_request:
  assumes "get_bars ip api si r first st = (st1, cb, [req])" and "api req = Inr data"
    and "resp_nextPageKey data = None"
  shows "get_bars ip' api' si' r' False st1 = (st1, OnHistory [] True, [])"
proof -
  have "nextPageKey st1 = None" using get_bars_data_cursor [OF assms(1,2)] assms(3) by simp
  then show ?thesis by (simp add: get_bars_no_more)
qed

text \<open>
  A first request resets the cursor: it issues exactly one request, for the symbol's
  pool, at the resolution's candle interval, with no page key.
\<close>

theorem get_bars_first_resets_cursor:
  "snd (snd (get_bars ip api si r True st)) =
     [\<lparr>req_poolId = si_poolId si, req_interval = kline_frame r, req_limit = 300, req_nextPageKey = None\<rparr>]"
  by (simp add: get_bars_requests kline_page_request_def)

text \<open>
  C17: an upstream failure goes to the error callback and commits nothing: the cache is
  unchanged and the cursor is only the reset one.
\<close>

theorem get_bars_error_commits_nothing:
  assumes "get_bars ip api si r first st = (st', OnError e, reqs)"
  shows "reqs = [kline_page_request si r (if first then None else nextPageKey st)] \<and>
         api (hd reqs) = Inl e \<and> lastBarsCache st' = lastBarsCache st \<and>
         nextPageKey st' = (if first then None else nextPageKey st)"
  using assms by (auto simp: get_bars_def Let_def split: if_splits sum.splits)

text \<open>
  C29: the cursor is one module-level variable, not scoped to a symbol: after a first page
  of one pool with a page key, a non-first call for any other pool requests that key.
\<close>

theorem get_bars_cursor_shared:
  assumes "get_bars ip api si r True st = (st1, cb, [req])" and "api req = Inr data"
    and "resp_nextPageKey data = Some k" and "k \<noteq> []"
  shows "snd (snd (get_bars ip' api' si' r' False st1)) =
     [\<lparr>req_poolId = si_poolId si', req_interval = kline_frame r', req_limit = 300, req_nextPageKey = Some k\<rparr>]"
proof -
  have "nextPageKey st1 = Some k" using get_bars_data_cursor [OF assms(1,2)] assms(3) by simp
  with assms(4) show ?thesis by (simp add: get_bars_requests kline_page_request_def)
qed

text \<open>
  With a host whose rows are consistent, every bar the chart receives and the bar the
  cache keeps are well formed; the single-bar clamp keeps that.
\<close>

theorem get_bars_wf:
  assumes call: "get_bars ip api si r first st = (st', OnHistory bars False, reqs)"
    and host: "host_rows_consistent api"
  shows "(\<forall>b \<in> set bars. bar_wf b) \<and> (first \<longrightarrow> pred_option bar_wf (lastBarsCache st' (si_poolId si)))"
proof -
  obtain data rows where d: "api (hd reqs) = Inr data" and rows: "resp_rows data = Some rows"
    and ne: "rows \<noteq> []"
    and bars: "bars = rev (clamp_single_bar ip (kline_collect (resolution_to_seconds r) rows))"
    and cache: "lastBarsCache st' = (if first then (lastBarsCache st)(si_poolId si \<mapsto>
           hd (clamp_single_bar ip (kline_collect (resolution_to_seconds r) rows))) else lastBarsCache st)"
    using call by (rule get_bars_rows_bars)
  let ?cb = "clamp_single_bar ip (kline_collect (resolution_to_seconds r) rows)"
  have ok: "\<forall>r \<in> set rows. row_close_in_range r" using host d rows by (auto simp: host_rows_consistent_def)
  have "\<forall>b \<in> set (kline_collect (resolution_to_seconds r) rows). bar_wf b"
    by (rule kline_collect_preserves [where Q = row_close_in_range, OF _ _ ok])
      (simp_all add: kline_open_bar_wf kline_merge_row_wf)
  then have wf: "\<forall>b \<in> set ?cb. bar_wf b" by (rule clamp_single_bar_wf)
  have "?cb \<noteq> []" using kline_collect_nonempty [OF ne] by simp
  with wf have "bar_wf (hd ?cb)" by simp
  with wf show ?thesis by (simp add: bars cache)
qed

section \<open>Witnesses\<close>

lemma example_host_newest_first: "host_newest_first (example_api key)"
  by (simp add: host_newest_first_def trade_data.make_def)

lemma example_host_consistent: "host_rows_consistent (example_api key)"
  by (auto simp: host_rows_consistent_def row_close_in_range_def trade_data.make_def)

lemma example_first_page:
  "\<exists>st' bars reqs. get_bars 1 (example_api key) (example_symbol ''poolA'') R1 True example_state =
     (st', OnHistory bars False, reqs)"
  by (simp add: model_defs trade_data.make_def)

theorem get_bars_oldest_first_witness:
  "\<exists>st' bars reqs. get_bars 1 (example_api None) (example_symbol ''poolA'') R1 True example_state =
     (st', OnHistory bars False, reqs) \<and> host_newest_first (example_api None) \<and>
     sorted_wrt (<) (map lb_time bars) \<and> list_all (\<lambda>b. 60 * 1000 dvd lb_time b) bars"
proof -
  obtain st' bars reqs where g: "get_bars 1 (example_api None) (example_symbol ''poolA'') R1 True example_state =
     (st', OnHistory bars False, reqs)" using example_first_page by blast
  note c = get_bars_oldest_first [OF g example_host_newest_first]
  show ?thesis using g c example_host_newest_first by (auto simp: list_all_iff)
qed

theorem get_bars_caches_newest_witness:
  "\<exists>st' bars reqs. get_bars 1 (example_api None) (example_symbol ''poolA'') R1 True example_state =
     (st', OnHistory bars False, reqs) \<and> host_newest_first (example_api None) \<and>
     bars \<noteq> [] \<and> lastBarsCache st' ''poolA'' = Some (last bars) \<and>
     list_all (\<lambda>b. lb_time b \<le> lb_time (last bars)) bars"
proof -
  obtain st' bars reqs where g: "get_bars 1 (example_api None) (example_symbol ''poolA'') R1 True example_state =
     (st', OnHistory bars False, reqs)" using example_first_page by blast
  note c = get_bars_caches_newest [OF g example_host_newest_first]
  show ?thesis using g c example_host_newest_first by (auto simp: list_all_iff)
qed

theorem get_bars_exhausted_no_request_witness:
  "\<exists>st1 cb. get_bars 1 (example_api None) (example_symbol ''poolA'') R1 True example_state =
      (st1, cb, [kline_page_request (example_symbol ''poolA'') R1 None]) \<and>
    example_api None (kline_page_request (example_symbol ''poolA'') R1 None) =
      Inr \<lparr>resp_rows = Some [example_row 120, example_row 60], resp_nextPageKey = None\<rparr> \<and>
    get_bars 1 (example_api (Some ''k'')) (example_symbol ''poolB'') R5 False st1 = (st1, OnHistory [] True, [])"
proof -
  obtain st1 cb reqs where g: "get_bars 1 (example_api None) (example_symbol ''poolA'') R1 True example_state =
      (st1, cb, reqs)" by (cases "get_bars 1 (example_api None) (example_symbol ''poolA'') R1 True example_state")
  have "reqs = [kline_page_request (example_symbol ''poolA'') R1 None]"
    using get_bars_requests [of 1 "example_api None" "example_symbol ''poolA''" R1 True example_state] g by simp
  with g have g': "get_bars 1 (example_api None) (example_symbol ''poolA'') R1 True example_state =
      (st1, cb, [kline_page_request (example_symbol ''poolA'') R1 None])" by simp
  have d: "example_api None (kline_page_request (example_symbol ''poolA'') R1 None) =
      Inr \<lparr>resp_rows = Some [example_row 120, example_row 60], resp_nextPageKey = None\<rparr>" by simp
  note c = get_bars_exhausted_no_request [OF g' d, of 1 "example_api (Some ''k'')" "example_symbol ''poolB''" R5]
  show ?thesis using g' d c by auto
qed

theorem get_bars_cursor_shared_witness:
  "\<exists>st1 cb. get_bars 1 (example_api (Some ''k2'')) (example_symbol ''poolA'') R1 True example_state =
      (st1, cb, [kline_page_request (example_symbol ''poolA'') R1 None]) \<and>
    example_api (Some ''k2'') (kline_page_request (example_symbol ''poolA'') R1 None) =
      Inr \<lparr>resp_rows = Some [example_row 120, example_row 60], resp_nextPageKey = Some ''k2''\<rparr> \<and>
    ''k2'' \<noteq> [] \<and>
    snd (snd (get_bars 1 (example_api None) (example_symbol ''poolB'') R5 False st1)) =
      [\<lparr>req_poolId = ''poolB'', req_interval = ''5m'', req_limit = 300, req_nextPageKey = Some ''k2''\<rparr>]"
proof -
  obtain st1 cb reqs where g: "get_bars 1 (example_api (Some ''k2'')) (example_symbol ''poolA'') R1 True example_state =
      (st1, cb, reqs)" by (cases "get_bars 1 (example_api (Some ''k2'')) (example_symbol ''poolA'') R1 True example_state")
  have "reqs = [kline_page_request (example_symbol ''poolA'') R1 None]"
    using get_bars_requests [of 1 "example_api (Some ''k2'')" "example_symbol ''poolA''" R1 True example_state] g by simp
  with g have g': "get_bars 1 (example_api (Some ''k2'')) (example_symbol ''poolA'') R1 True example_state =
      (st1, cb, [kline_page_request (example_symbol ''poolA'') R1 None])" by simp
  have d: "example_api (Some ''k2'') (kline_page_request (example_symbol ''poolA'') R1 None) =
      Inr \<lparr>resp_rows = Some [example_row 120, example_row 60], resp_nextPageKey = Some ''k2''\<rparr>" by simp
  have k: "''k2'' \<noteq> []" by simp
  note c = get_bars_cursor_shared [OF g' d _ k, of 1 "example_api None" "example_symbol ''poolB''" R5]
  show ?thesis using g' d k c by (simp add: kline_frame_def supported_resolutions_def)
qed

theorem get_bars_error_commits_nothing_witness:
  "\<exists>st' reqs. get_bars 1 (\<lambda>req. Inl (FetchError ''timeout'')) (example_symbol ''poolA'') R1 True example_state =
      (st', OnError (FetchError ''timeout''), reqs) \<and> lastBarsCache st' = lastBarsCache example_state \<and>
    nextPageKey st' = None"
proof -
  obtain st' reqs where g: "get_bars 1 (\<lambda>req. Inl (FetchError ''timeout'')) (example_symbol ''poolA'') R1 True example_state =
      (st', OnError (FetchError ''timeout''), reqs)" by (simp add: get_bars_def)
  note c = get_bars_error_commits_nothing [OF g]
  show ?thesis using g c by auto
qed

theorem get_bars_wf_witness:
  "\<exists>st' bars reqs. get_bars 1 (example_api None) (example_symbol ''poolA'') R1 True example_state =
     (st', OnHistory bars False, reqs) \<and> host_rows_consistent (example_api None) \<and>
     list_all bar_wf bars \<and> pred_option bar_wf (lastBarsCache st' ''poolA'')"
proof -
  obtain st' bars reqs where g: "get_bars 1 (example_api None) (example_symbol ''poolA'') R1 True example_state =
     (st', OnHistory bars False, reqs)" using example_first_page by blast
  note c = get_bars_wf [OF g example_host_consistent]
  show ?thesis using g c example_host_consistent by (auto simp: list_all_iff)
qed

end
