(* ===== verification/BirdeyeBucketer.thy ===== *)
theory BirdeyeBucketer
  imports BucketLoop
begin

text \<open>
  The bucketing loop of the birdeye branch of \<open>fetchChartData\<close> (TVChart.tsx): the feed
  is oldest first, items outside \<open>[from, to)\<close> are skipped, the accumulator is closed
  when an item falls in a \<^emph>\<open>later\<close> bucket, prices are scaled by the market-cap
  multiplier, and volumes add up (\<open>(currentBar.volume || 0) + (bar.vQuote || 0)\<close>).
  \<open>birdeye_step\<close> is one iteration, \<open>birdeye_collect\<close> the loop with the final push.
  On an in-range item the iteration is the generic \<open>bucket_step\<close> with the comparison
  \<open>>\<close>; the refinement, the grid and the invariants follow from \<open>BucketLoop\<close>.
\<close>

section \<open>The loop\<close>

definition birdeye_in_range :: "seconds \<Rightarrow> seconds \<Rightarrow> birdeye_item \<Rightarrow> bool" where
  "birdeye_in_range from to i \<longleftrightarrow> unixTime i \<ge> from \<and> unixTime i < to"

definition birdeye_bucket :: "seconds \<Rightarrow> birdeye_item \<Rightarrow> seconds" where
  "birdeye_bucket timeUnit i = floor_to_unit timeUnit (unixTime i)"

definition birdeye_open_bar :: "seconds \<Rightarrow> price \<Rightarrow> birdeye_item \<Rightarrow> bar" where
  "birdeye_open_bar barTime multiplier i =
     \<lparr>lb_time = barTime * 1000,
      lb_open = bi_o i * multiplier,
      lb_high = bi_h i * multiplier,
      lb_low = bi_l i * multiplier,
      lb_close = bi_c i * multiplier,
      lb_volume = vQuote i\<rparr>"

definition birdeye_merge_item :: "price \<Rightarrow> bar \<Rightarrow> birdeye_item \<Rightarrow> bar" where
  "birdeye_merge_item multiplier currentBar i =
     currentBar\<lparr>lb_volume := Some (js_or_zero (lb_volume currentBar) + js_or_zero (vQuote i)),
                lb_close := bi_c i * multiplier,
                lb_low := min (bi_l i * multiplier) (lb_low currentBar),
                lb_high := max (bi_h i * multiplier) (lb_high currentBar)\<rparr>"

definition birdeye_step ::
  "seconds \<Rightarrow> seconds \<Rightarrow> seconds \<Rightarrow> price \<Rightarrow> bar list \<times> bar option \<Rightarrow> birdeye_item \<Rightarrow> bar list \<times> bar option" where
  "birdeye_step from to timeUnit multiplier acc i =
     (if unixTime i \<ge> from \<and> unixTime i < to then
        (let (bars, currentBar) = acc;
             barTime = floor_to_unit timeUnit (unixTime i);
             (bars, currentBar) =
               (case currentBar of
                  Some cb \<Rightarrow> if barTime * 1000 > lb_time cb then (bars @ [cb], None) else (bars, currentBar)
                | None \<Rightarrow> (bars, None))
         in case currentBar of
              None \<Rightarrow> (bars, Some (birdeye_open_bar barTime multiplier i))
            | Some cb \<Rightarrow> (bars, Some (birdeye_merge_item multiplier cb i)))
      else acc)"

definition birdeye_collect :: "seconds \<Rightarrow> seconds \<Rightarrow> seconds \<Rightarrow> price \<Rightarrow> birdeye_item list \<Rightarrow> bar list" where
  "birdeye_collect from to timeUnit multiplier items =
     push_current (fold (\<lambda>i acc. birdeye_step from to timeUnit multiplier acc i) items ([], None))"

text \<open>Reference: one run of items folded into one bar.\<close>

definition birdeye_aggregate :: "seconds \<Rightarrow> price \<Rightarrow> birdeye_item list \<Rightarrow> bar" where
  "birdeye_aggregate timeUnit multiplier g =
     fold (\<lambda>i b. birdeye_merge_item multiplier b i) (tl g)
       (birdeye_open_bar (birdeye_bucket timeUnit (hd g)) multiplier (hd g))"

definition bars_volume :: "bar list \<Rightarrow> real" where
  "bars_volume bars = sum_list (map (\<lambda>b. js_or_zero (lb_volume b)) bars)"

declare birdeye_in_range_def [model_defs] birdeye_bucket_def [model_defs] birdeye_open_bar_def [model_defs]
  birdeye_merge_item_def [model_defs] birdeye_step_def [model_defs] birdeye_collect_def [model_defs]
  birdeye_aggregate_def [model_defs] bars_volume_def [model_defs]

section \<open>The loop as an instance of the generic loop\<close>

lemma birdeye_step_out_of_range:
  assumes "\<not> birdeye_in_range from to i"
  shows "birdeye_step from to u m acc i = acc"
proof -
  have c: "\<not> (unixTime i \<ge> from \<and> unixTime i < to)" using assms unfolding birdeye_in_range_def by assumption
  show ?thesis unfolding birdeye_step_def by (rule if_not_P [OF c])
qed

lemma birdeye_step_in_range:
  "birdeye_in_range from to i \<Longrightarrow>
   birdeye_step from to u m acc i =
     bucket_step (birdeye_bucket u) (>) (\<lambda>i. birdeye_open_bar (birdeye_bucket u i) m i) (birdeye_merge_item m) acc i"
  unfolding birdeye_step_def bucket_step_def birdeye_bucket_def birdeye_in_range_def Let_def by simp

lemma fold_birdeye_step_filter:
  "fold (\<lambda>i acc. birdeye_step from to u m acc i) items acc =
   fold (\<lambda>i acc. bucket_step (birdeye_bucket u) (>) (\<lambda>i. birdeye_open_bar (birdeye_bucket u i) m i)
      (birdeye_merge_item m) acc i) (filter (birdeye_in_range from to) items) acc"
  by (induction items arbitrary: acc) (simp_all add: birdeye_step_out_of_range birdeye_step_in_range)

lemma birdeye_collect_is_bucket_loop:
  "birdeye_collect from to u m items =
   bucket_loop (birdeye_bucket u) (>) (\<lambda>i. birdeye_open_bar (birdeye_bucket u i) m i) (birdeye_merge_item m)
     (filter (birdeye_in_range from to) items)"
  by (simp add: birdeye_collect_def bucket_loop_def fold_birdeye_step_filter)

lemma birdeye_aggregate_is_bucket_aggregate:
  "birdeye_aggregate u m = bucket_aggregate (\<lambda>i. birdeye_open_bar (birdeye_bucket u i) m i) (birdeye_merge_item m)"
  by (intro ext) (simp add: birdeye_aggregate_def bucket_aggregate_def)

lemma birdeye_open_bar_time [simp]: "lb_time (birdeye_open_bar b m i) = b * 1000"
  by (simp add: birdeye_open_bar_def)

lemma birdeye_merge_item_time [simp]: "lb_time (birdeye_merge_item m cb i) = lb_time cb"
  by (simp add: birdeye_merge_item_def)

lemma birdeye_closes_on_change: "closes_on_change (\<le>) (>)"
  by (auto simp: closes_on_change_def)

lemma birdeye_bucket_sorted:
  assumes u: "0 < u" and s: "sorted_wrt (\<le>) (map unixTime items)"
  shows "sorted_wrt (\<le>) (map (birdeye_bucket u) items)"
proof -
  have "sorted_wrt (\<lambda>a b. unixTime a \<le> unixTime b) items" using s by (simp add: sorted_wrt_map)
  then have "sorted_wrt (\<lambda>a b. birdeye_bucket u a \<le> birdeye_bucket u b) items"
    by (rule sorted_wrt_mono_rel [rotated]) (simp add: birdeye_bucket_def floor_to_unit_mono u)
  then show ?thesis by (simp add: sorted_wrt_map)
qed

lemma sorted_wrt_filter': "sorted_wrt R xs \<Longrightarrow> sorted_wrt R (filter P xs)"
  by (induction xs) auto

lemma birdeye_collect_eq_runs:
  assumes "0 < u" and "sorted_wrt (\<le>) (map unixTime items)"
  shows "birdeye_collect from to u m items =
    map (birdeye_aggregate u m) (group_runs (birdeye_bucket u) (filter (birdeye_in_range from to) items))"
proof -
  have "sorted_wrt (\<le>) (map unixTime (filter (birdeye_in_range from to) items))"
    using assms(2) by (simp add: sorted_wrt_map sorted_wrt_filter')
  then have "sorted_wrt (\<le>) (map (birdeye_bucket u) (filter (birdeye_in_range from to) items))"
    by (rule birdeye_bucket_sorted [OF assms(1)])
  then show ?thesis
    unfolding birdeye_collect_is_bucket_loop birdeye_aggregate_is_bucket_aggregate
    by (intro bucket_loop_runs [OF _ _ birdeye_closes_on_change]) simp_all
qed

lemma birdeye_step_volume:
  "bars_volume (push_current (bucket_step (birdeye_bucket u) (>) (\<lambda>i. birdeye_open_bar (birdeye_bucket u i) m i)
      (birdeye_merge_item m) acc i)) = bars_volume (push_current acc) + js_or_zero (vQuote i)"
  by (cases acc; cases "snd acc")
    (auto simp: bucket_step_Some bars_volume_def birdeye_open_bar_def birdeye_merge_item_def js_or_zero_def
       split: option.splits)

lemma fold_birdeye_volume:
  "bars_volume (push_current (fold (\<lambda>i acc. bucket_step (birdeye_bucket u) (>)
      (\<lambda>i. birdeye_open_bar (birdeye_bucket u i) m i) (birdeye_merge_item m) acc i) items acc)) =
   bars_volume (push_current acc) + sum_list (map (\<lambda>i. js_or_zero (vQuote i)) items)"
  by (induction items arbitrary: acc) (simp_all add: birdeye_step_volume)

lemma birdeye_open_bar_wf: "0 \<le> m \<Longrightarrow> item_ohlc_consistent i \<Longrightarrow> bar_wf (birdeye_open_bar b m i)"
  by (auto simp: birdeye_open_bar_def bar_wf_def item_ohlc_consistent_def mult_right_mono)

lemma birdeye_merge_item_wf:
  "0 \<le> m \<Longrightarrow> bar_wf cb \<Longrightarrow> item_ohlc_consistent i \<Longrightarrow> bar_wf (birdeye_merge_item m cb i)"
  by (auto simp: birdeye_merge_item_def bar_wf_def item_ohlc_consistent_def mult_right_mono
      min.coboundedI1 min.coboundedI2 max.coboundedI1 max.coboundedI2)

text \<open>
  C2: bucketing an oldest-first feed is one aggregate bar per run of equal bucket start among
  the items inside the requested range.
\<close>

theorem birdeye_collect_refines_runs:
  assumes "0 < u" and "sorted_wrt (\<le>) (map unixTime items)"
  shows "birdeye_collect from to u m items =
    map (birdeye_aggregate u m) (group_runs (birdeye_bucket u) (filter (birdeye_in_range from to) items))"
  using assms by (rule birdeye_collect_eq_runs)

text \<open>
  C8: on an oldest-first feed the bars are strictly oldest first, one per bucket, on the
  bucket grid in milliseconds.
\<close>

theorem birdeye_collect_grid_increasing:
  assumes u: "0 < u" and s: "sorted_wrt (\<le>) (map unixTime items)"
  shows "sorted_wrt (<) (map lb_time (birdeye_collect from to u m items)) \<and>
         (\<forall>b \<in> set (birdeye_collect from to u m items). u * 1000 dvd lb_time b)"
proof
  let ?its = "filter (birdeye_in_range from to) items"
  have "sorted_wrt (\<le>) (map unixTime ?its)" using s by (simp add: sorted_wrt_map sorted_wrt_filter')
  then have "sorted_wrt (\<le>) (map (birdeye_bucket u) ?its)" by (rule birdeye_bucket_sorted [OF u])
  then have "sorted_wrt (<) (map (\<lambda>g. birdeye_bucket u (hd g)) (group_runs (birdeye_bucket u) ?its))"
    by (rule group_runs_keys_increasing)
  moreover have "map lb_time (birdeye_collect from to u m items) =
      map (\<lambda>g. birdeye_bucket u (hd g) * 1000) (group_runs (birdeye_bucket u) ?its)"
    using birdeye_collect_eq_runs [OF u s]
    by (simp add: birdeye_aggregate_is_bucket_aggregate bucket_aggregate_time)
  ultimately show "sorted_wrt (<) (map lb_time (birdeye_collect from to u m items))"
    by (simp add: sorted_wrt_map)
  show "\<forall>b \<in> set (birdeye_collect from to u m items). u * 1000 dvd lb_time b"
    unfolding birdeye_collect_is_bucket_loop
    by (rule bucket_loop_preserves [where Q = "\<lambda>_. True"]) (simp_all add: birdeye_bucket_def floor_to_unit_dvd)
qed

text \<open>
  C10: with a non-negative multiplier and consistent items, every bar is well formed, in any
  order of the feed.
\<close>

theorem birdeye_collect_wf:
  "0 \<le> m \<Longrightarrow> \<forall>i \<in> set items. item_ohlc_consistent i \<Longrightarrow>
   \<forall>b \<in> set (birdeye_collect from to u m items). bar_wf b"
  unfolding birdeye_collect_is_bucket_loop
  by (rule bucket_loop_preserves [where Q = item_ohlc_consistent])
    (simp_all add: birdeye_open_bar_wf birdeye_merge_item_wf)

text \<open>
  C16: volume is conserved: the bars carry, in total, the quote volume of the items inside
  the range, missing volumes counting as zero, whatever the order of the feed.
\<close>

theorem birdeye_collect_volume:
  "bars_volume (birdeye_collect from to u m items) =
   sum_list (map (\<lambda>i. js_or_zero (vQuote i)) (filter (birdeye_in_range from to) items))"
  using fold_birdeye_volume [of u m "filter (birdeye_in_range from to) items" "([], None)"]
  by (simp add: birdeye_collect_is_bucket_loop bucket_loop_def bars_volume_def)

text \<open>
  Unlike the kline loop, the birdeye loop does not order an opening item's prices: an
  item whose open exceeds its high gives a bar whose open exceeds its high.
\<close>

theorem birdeye_inconsistent_item_bar:
  "birdeye_collect 0 2000 60 1 [\<lparr>unixTime = 1000, bi_o = 3, bi_h = 2, bi_l = 1, bi_c = 2, vQuote = None\<rparr>] =
   [\<lparr>lb_time = 960000, lb_open = 3, lb_high = 2, lb_low = 1, lb_close = 2, lb_volume = None\<rparr>]"
  by (simp add: model_defs)

section \<open>Witnesses\<close>

theorem birdeye_collect_refines_runs_witness:
  "0 < (60::int) \<and> sorted_wrt (\<le>) (map unixTime [\<lparr>unixTime = 1000, bi_o = 1, bi_h = 2, bi_l = 0.5, bi_c = 1.5, vQuote = Some 10\<rparr>, \<lparr>unixTime = 1030, bi_o = 1.5, bi_h = 1.8, bi_l = 1.2, bi_c = 1.6, vQuote = Some 5\<rparr>]) \<and>
   birdeye_collect 0 2000 60 1 [\<lparr>unixTime = 1000, bi_o = 1, bi_h = 2, bi_l = 0.5, bi_c = 1.5, vQuote = Some 10\<rparr>, \<lparr>unixTime = 1030, bi_o = 1.5, bi_h = 1.8, bi_l = 1.2, bi_c = 1.6, vQuote = Some 5\<rparr>] =
     map (birdeye_aggregate 60 1) (group_runs (birdeye_bucket 60) (filter (birdeye_in_range 0 2000) [\<lparr>unixTime = 1000, bi_o = 1, bi_h = 2, bi_l = 0.5, bi_c = 1.5, vQuote = Some 10\<rparr>, \<lparr>unixTime = 1030, bi_o = 1.5, bi_h = 1.8, bi_l = 1.2, bi_c = 1.6, vQuote = Some 5\<rparr>]))"
proof -
  have h1: "0 < (60::int)" by simp
  have h2: "sorted_wrt (\<le>) (map unixTime [\<lparr>unixTime = 1000, bi_o = 1, bi_h = 2, bi_l = 0.5, bi_c = 1.5, vQuote = Some 10\<rparr>, \<lparr>unixTime = 1030, bi_o = 1.5, bi_h = 1.8, bi_l = 1.2, bi_c = 1.6, vQuote = Some 5\<rparr>])" by simp
  show ?thesis using h1 h2 birdeye_collect_refines_runs [OF h1 h2, of 0 2000 1] by blast
qed

theorem birdeye_collect_grid_increasing_witness:
  "0 < (60::int) \<and> sorted_wrt (\<le>) (map unixTime [\<lparr>unixTime = 1000, bi_o = 1, bi_h = 2, bi_l = 0.5, bi_c = 1.5, vQuote = Some 10\<rparr>, \<lparr>unixTime = 1030, bi_o = 1.5, bi_h = 1.8, bi_l = 1.2, bi_c = 1.6, vQuote = Some 5\<rparr>]) \<and>
   sorted_wrt (<) (map lb_time (birdeye_collect 0 2000 60 1 [\<lparr>unixTime = 1000, bi_o = 1, bi_h = 2, bi_l = 0.5, bi_c = 1.5, vQuote = Some 10\<rparr>, \<lparr>unixTime = 1030, bi_o = 1.5, bi_h = 1.8, bi_l = 1.2, bi_c = 1.6, vQuote = Some 5\<rparr>])) \<and>
   list_all (\<lambda>b. 60 * 1000 dvd lb_time b) (birdeye_collect 0 2000 60 1 [\<lparr>unixTime = 1000, bi_o = 1, bi_h = 2, bi_l = 0.5, bi_c = 1.5, vQuote = Some 10\<rparr>, \<lparr>unixTime = 1030, bi_o = 1.5, bi_h = 1.8, bi_l = 1.2, bi_c = 1.6, vQuote = Some 5\<rparr>])"
proof -
  have h1: "0 < (60::int)" by simp
  have h2: "sorted_wrt (\<le>) (map unixTime [\<lparr>unixTime = 1000, bi_o = 1, bi_h = 2, bi_l = 0.5, bi_c = 1.5, vQuote = Some 10\<rparr>, \<lparr>unixTime = 1030, bi_o = 1.5, bi_h = 1.8, bi_l = 1.2, bi_c = 1.6, vQuote = Some 5\<rparr>])" by simp
  show ?thesis using h1 h2 birdeye_collect_grid_increasing [OF h1 h2, of 0 2000 1] by (simp add: list_all_iff)
qed

theorem birdeye_collect_wf_witness:
  "0 \<le> (1::real) \<and> item_ohlc_consistent (\<lparr>unixTime = 1000, bi_o = 1, bi_h = 2, bi_l = 0.5, bi_c = 1.5, vQuote = Some 10\<rparr>) \<and> item_ohlc_consistent (\<lparr>unixTime = 1030, bi_o = 1.5, bi_h = 1.8, bi_l = 1.2, bi_c = 1.6, vQuote = Some 5\<rparr>) \<and>
   list_all bar_wf (birdeye_collect 0 2000 60 1 [\<lparr>unixTime = 1000, bi_o = 1, bi_h = 2, bi_l = 0.5, bi_c = 1.5, vQuote = Some 10\<rparr>, \<lparr>unixTime = 1030, bi_o = 1.5, bi_h = 1.8, bi_l = 1.2, bi_c = 1.6, vQuote = Some 5\<rparr>])"
proof -
  have h1: "0 \<le> (1::real)" by simp
  have h2: "\<forall>i \<in> set [\<lparr>unixTime = 1000, bi_o = 1, bi_h = 2, bi_l = 0.5, bi_c = 1.5, vQuote = Some 10\<rparr>, \<lparr>unixTime = 1030, bi_o = 1.5, bi_h = 1.8, bi_l = 1.2, bi_c = 1.6, vQuote = Some 5\<rparr>]. item_ohlc_consistent i" by (simp add: item_ohlc_consistent_def)
  show ?thesis using h1 h2 birdeye_collect_wf [OF h1 h2, of 0 2000 60] by (simp add: list_all_iff item_ohlc_consistent_def)
qed

end
