(* ===== verification/TVChart.thy ===== *)
theory TVChart
  imports Datafeed BirdeyeBucketer
begin

text \<open>
  The data path of TVChart.tsx. \<open>fetch_chart_data\<close> is \<open>fetchChartData\<close>: the birdeye branch
  builds the proxy request from the pool id (split at the underscore, the USDC quote for a
  market-cap pool) and runs the birdeye loop with the market-cap multiplier; the regular
  branch asks the history host for 300 klines and runs the kline loop of \<open>getBars\<close>
  (KlineBucketer.thy), but without reversing the result. \<open>load_data\<close>, \<open>arrow_listener\<close>,
  \<open>chart_setup\<close> and \<open>chart_teardown\<close> are the chart effect: the chart state records what
  the effect hands to the candle and volume series and to \<open>lastBarRef\<close>; \<open>chart_step\<close> runs
  one event of the component and \<open>chart_reachable\<close> is every interleaving of them.
\<close>

section \<open>fetchChartData\<close>

record mint_info =
  mi_mint :: string
  mi_supply :: price
  mi_decimals :: nat

record birdeye_request =
  be_base_address :: string
  be_quote_address :: string
  be_type :: string
  be_time_from :: seconds
  be_time_to :: seconds

type_synonym birdeye_api = "birdeye_request \<Rightarrow> fetch_error + birdeye_item list option"

text \<open>\<open>String.prototype.split\<close> on one character, and indexing its result into a template.\<close>

fun js_split :: "char \<Rightarrow> string \<Rightarrow> string list" where
  "js_split c [] = [[]]"
| "js_split c (x # xs) = (let ws = js_split c xs in if x = c then [] # ws else (x # hd ws) # tl ws)"

definition js_index :: "string list \<Rightarrow> nat \<Rightarrow> string" where
  "js_index xs i = (if i < length xs then xs ! i else ''undefined'')"

definition js_includes :: "string \<Rightarrow> string \<Rightarrow> bool" where
  "js_includes hay needle \<longleftrightarrow>
     list_ex (\<lambda>i. take (length needle) (drop i hay) = needle) [0..<Suc (length hay)]"

definition usdc_mint :: string where
  "usdc_mint = ''EPjFWdd5AufqSSqeM2qN1xzybapC8G4wEGGkZwyTDt1v''"

definition is_market_cap :: "mint_info option \<Rightarrow> string \<Rightarrow> bool" where
  "is_market_cap mintInfo poolId \<longleftrightarrow> mintInfo \<noteq> None \<and> js_includes poolId ''marketcap''"

definition birdeye_multiplier :: "mint_info option \<Rightarrow> string \<Rightarrow> price" where
  "birdeye_multiplier mintInfo poolId = (if is_market_cap mintInfo poolId then mi_supply (the mintInfo) else 1)"

definition birdeye_request_of ::
  "mint_info option \<Rightarrow> string \<Rightarrow> resolution_string \<Rightarrow> seconds \<Rightarrow> seconds \<Rightarrow> birdeye_request" where
  "birdeye_request_of mintInfo poolId resolution from to =
     \<lparr>be_base_address = js_index (js_split CHR ''_'' poolId) 0,
      be_quote_address = (if is_market_cap mintInfo poolId then usdc_mint
                          else js_index (js_split CHR ''_'' poolId) 1),
      be_type = birdeye_frame resolution,
      be_time_from = from, be_time_to = to\<rparr>"

definition regular_request :: "string \<Rightarrow> resolution_string \<Rightarrow> kline_request" where
  "regular_request poolId resolution =
     \<lparr>req_poolId = poolId, req_interval = regular_frame resolution, req_limit = 300, req_nextPageKey = None\<rparr>"

definition fetch_chart_data ::
  "birdeye_api \<Rightarrow> kline_api \<Rightarrow> string \<Rightarrow> resolution_string \<Rightarrow> seconds \<Rightarrow> seconds \<Rightarrow> bool \<Rightarrow>
   mint_info option \<Rightarrow> fetch_error + bar list" where
  "fetch_chart_data beApi api poolId resolution from to birdeye mintInfo =
     (let timeUnit = resolution_to_seconds resolution in
      if birdeye then
        (case beApi (birdeye_request_of mintInfo poolId resolution from to) of
           Inl e \<Rightarrow> Inl e
         | Inr items \<Rightarrow>
             (case items of
                None \<Rightarrow> Inr []
              | Some its \<Rightarrow>
                  if its = [] then Inr []
                  else Inr (birdeye_collect from to timeUnit (birdeye_multiplier mintInfo poolId) its)))
      else
        (case api (regular_request poolId resolution) of
           Inl e \<Rightarrow> Inl e
         | Inr data \<Rightarrow>
             (let rows = (case resp_rows data of None \<Rightarrow> [] | Some rs \<Rightarrow> rs)
              in if rows = [] then Inr [] else Inr (kline_collect timeUnit rows))))"

text \<open>\<open>Array.prototype.join\<close> on one character: the inverse the split is checked against.\<close>

fun js_join :: "char \<Rightarrow> string list \<Rightarrow> string" where
  "js_join c [] = []"
| "js_join c [w] = w"
| "js_join c (w # v # ws) = w @ c # js_join c (v # ws)"

declare js_index_def [model_defs] js_includes_def [model_defs] usdc_mint_def [model_defs]
  is_market_cap_def [model_defs] birdeye_multiplier_def [model_defs] birdeye_request_of_def [model_defs]
  regular_request_def [model_defs] fetch_chart_data_def [model_defs]

section \<open>The chart effect\<close>

text \<open>
  \<open>savedResolution || (birdeye ? '15' : '5')\<close>, and the last 24 hours in whole seconds,
  from \<open>Date.now()\<close> in milliseconds.
\<close>

definition default_resolution :: "resolution_string option \<Rightarrow> bool \<Rightarrow> resolution_string" where
  "default_resolution saved birdeye = (case saved of Some r \<Rightarrow> r | None \<Rightarrow> if birdeye then R15 else R5)"

definition load_window :: "millis \<Rightarrow> seconds \<times> seconds" where
  "load_window now = ((now - 24 * 60 * 60 * 1000) div 1000, now div 1000)"

definition load_fetch ::
  "birdeye_api \<Rightarrow> kline_api \<Rightarrow> millis \<Rightarrow> resolution_string option \<Rightarrow> string \<Rightarrow> bool \<Rightarrow>
   mint_info option \<Rightarrow> fetch_error + bar list" where
  "load_fetch beApi api now saved poolId birdeye mintInfo =
     (let resolution = default_resolution saved birdeye;
          (from, to) = load_window now
      in fetch_chart_data beApi api poolId resolution from to birdeye mintInfo)"

text \<open>
  What the effect has handed to the chart: whether \<open>chartRef.current\<close> holds a live chart, the
  last \<open>setData\<close> of the candle and volume series, the bars passed to \<open>candle.update\<close> in
  order, \<open>lastBarRef.current\<close>, and whether the arrow listener is registered.
\<close>

record chart_state =
  chart_live :: bool
  candle_data :: "bar list"
  volume_data :: "(millis \<times> price) list"
  candle_updates :: "bar list"
  lastBarRef :: "bar option"
  arrow_listener_on :: bool

definition chart_init :: chart_state where
  "chart_init = \<lparr>chart_live = False, candle_data = [], volume_data = [], candle_updates = [],
                 lastBarRef = None, arrow_listener_on = False\<rparr>"

definition load_data :: "fetch_error + bar list \<Rightarrow> chart_state \<Rightarrow> chart_state" where
  "load_data res st =
     (case res of
        Inl _ \<Rightarrow> st
      | Inr bars \<Rightarrow>
          if bars = [] then st
          else st\<lparr>candle_data := bars,
                  volume_data := map (\<lambda>b. (lb_time b, js_or_zero (lb_volume b))) bars,
                  lastBarRef := Some (last bars)\<rparr>)"

definition arrow_listener :: "bar \<Rightarrow> bar \<Rightarrow> chart_state \<Rightarrow> chart_state" where
  "arrow_listener prev next st =
     (if \<not> chart_live st \<or> lastBarRef st = None then st
      else
        (let newBar = \<lparr>lb_time = lb_time next, lb_open = lb_open next, lb_high = lb_high next,
                       lb_low = lb_low next, lb_close = lb_close next, lb_volume = None\<rparr>
         in st\<lparr>candle_updates := candle_updates st @ [newBar], lastBarRef := Some newBar\<rparr>))"

definition chart_setup :: "bool \<Rightarrow> chart_state \<Rightarrow> chart_state" where
  "chart_setup birdeye st =
     st\<lparr>chart_live := True, candle_data := [], volume_data := [], candle_updates := [],
        arrow_listener_on := (if birdeye then arrow_listener_on st else True)\<rparr>"

definition chart_teardown :: "chart_state \<Rightarrow> chart_state" where
  "chart_teardown st = st\<lparr>chart_live := False, arrow_listener_on := False\<rparr>"

datatype chart_event =
    Setup bool bool
  | Loaded "fetch_error + bar list"
  | Arrow bar bar
  | Teardown

fun chart_step :: "chart_event \<Rightarrow> chart_state \<Rightarrow> chart_state" where
  "chart_step (Setup ready birdeye) st = (if ready then chart_setup birdeye st else st)"
| "chart_step (Loaded res) st = load_data res st"
| "chart_step (Arrow prev next) st = (if arrow_listener_on st then arrow_listener prev next st else st)"
| "chart_step Teardown st = chart_teardown st"

definition chart_run :: "chart_event list \<Rightarrow> chart_state \<Rightarrow> chart_state" where
  "chart_run es st = fold chart_step es st"

inductive chart_reachable :: "chart_state \<Rightarrow> bool" where
  init: "chart_reachable chart_init"
| step: "chart_reachable st \<Longrightarrow> chart_reachable (chart_step e st)"

declare default_resolution_def [model_defs] load_window_def [model_defs] load_fetch_def [model_defs]
  chart_init_def [model_defs] load_data_def [model_defs] arrow_listener_def [model_defs]
  chart_setup_def [model_defs] chart_teardown_def [model_defs] chart_run_def [model_defs]

text \<open>The arrow listener is only registered while a chart is live.\<close>

definition chart_inv :: "chart_state \<Rightarrow> bool" where
  "chart_inv st \<longleftrightarrow> (arrow_listener_on st \<longrightarrow> chart_live st)"

section \<open>Example inputs\<close>

text \<open>A history host whose page holds two newest-first klines five minutes apart.\<close>

abbreviation tv_example_api :: kline_api where
  "tv_example_api \<equiv> (\<lambda>req. Inr \<lparr>resp_rows = Some [example_row 600, example_row 300], resp_nextPageKey = None\<rparr>)"

abbreviation tv_example_bar :: "millis \<Rightarrow> bar" where
  "tv_example_bar t \<equiv> \<lparr>lb_time = t, lb_open = 2, lb_high = 3, lb_low = 1, lb_close = 2, lb_volume = None\<rparr>"

section \<open>Lemmas\<close>

lemma js_split_nonempty [simp]: "js_split c s \<noteq> []"
  by (induction s) (simp_all add: Let_def)

lemma js_join_Cons_Cons: "js_join c ((x # w) # ws) = x # js_join c (w # ws)"
  by (cases ws) simp_all


lemma chart_step_inv: "chart_inv st \<Longrightarrow> chart_inv (chart_step e st)"
  by (cases e) (auto simp: chart_inv_def chart_setup_def chart_teardown_def load_data_def
      arrow_listener_def Let_def split: sum.splits)

lemma chart_run_Cons [simp]: "chart_run (e # es) st = chart_run es (chart_step e st)"
  by (simp add: chart_run_def)

lemma chart_run_Nil [simp]: "chart_run [] st = st"
  by (simp add: chart_run_def)

lemma fetch_chart_data_regularE:
  assumes "fetch_chart_data beApi api poolId r from to False mi = Inr bars"
  obtains "bars = []"
  | data rows where "api (regular_request poolId r) = Inr data" and "resp_rows data = Some rows"
      and "bars = kline_collect (resolution_to_seconds r) rows"
  using assms unfolding fetch_chart_data_def Let_def
  by (auto split: sum.splits option.splits if_splits)

lemma load_window_div: "(now - 86400000) div 1000 = now div 1000 - (86400::int)"
proof -
  have "(now + (- 86400) * 1000) div 1000 = - 86400 + now div 1000"
    by (rule div_mult_self1) simp
  then show ?thesis by simp
qed

lemma js_split_sep_free: "c \<notin> set q \<Longrightarrow> js_split c q = [q]"
  by (induction q) (auto simp: Let_def)

lemma js_split_append: "c \<notin> set b \<Longrightarrow> js_split c (b @ c # rest) = b # js_split c rest"
  by (induction b) (auto simp: Let_def)

lemma tv_example_fetch:
  "fetch_chart_data beApi tv_example_api ''pool'' R5 from to False mi = Inr [tv_example_bar 600000, tv_example_bar 300000]"
  by (simp add: fetch_chart_data_def regular_request_def kline_collect_is_bucket_loop bucket_loop_def
      bucket_step_def kline_bucket_def floor_to_unit_def kline_open_bar_def kline_merge_row_def
      push_current_def trade_data.make_def)

lemma tv_example_load_fetch:
  "load_fetch beApi tv_example_api now None ''pool'' False mi = Inr [tv_example_bar 600000, tv_example_bar 300000]"
  by (simp add: load_fetch_def default_resolution_def split_def tv_example_fetch)

text \<open>In a list of strictly decreasing times the last element has the least time.\<close>

lemma sorted_gt_last_min:
  fixes f :: "'a \<Rightarrow> 'b::linorder"
  shows "sorted_wrt (>) (map f xs) \<Longrightarrow> xs \<noteq> [] \<Longrightarrow> list_all (\<lambda>x. f (last xs) \<le> f x) xs"
proof (induction xs)
  case (Cons x xs)
  then show ?case by (cases xs) (auto simp: list_all_iff intro: order_trans [OF _ less_imp_le])
qed simp

section \<open>Properties\<close>

text \<open>
  The regular branch of \<open>fetchChartData\<close> hands the chart the kline loop's output as
  it is: on a newest-first host the bars come strictly newest first (\<open>getBars\<close> reverses
  them, \<open>fetchChartData\<close> does not), although \<open>setData\<close> expects ascending times.
\<close>

theorem fetch_chart_data_regular_newest_first:
  assumes host: "host_newest_first api"
    and res: "fetch_chart_data beApi api poolId r from to False mi = Inr bars"
  shows "sorted_wrt (>) (map lb_time bars)"
  using res
proof (cases rule: fetch_chart_data_regularE)
  case (2 data rows)
  then have "sorted_wrt (\<ge>) (map td_t rows)" using host by (auto simp: host_newest_first_def)
  with 2 show ?thesis using kline_collect_desc_grid [OF resolution_to_seconds_pos] by blast
qed simp

text \<open>
  C23: consequently, on a newest-first host, \<open>loadData\<close> on the regular path sets the candle
  series to bars in strictly decreasing time and points \<open>lastBarRef\<close> at the oldest bar of
  the page, the one the live listener then continues from.
\<close>

theorem load_regular_last_bar_oldest:
  assumes host: "host_newest_first api"
    and res: "load_fetch beApi api now saved poolId False mi = Inr bars" and ne: "bars \<noteq> []"
  shows "candle_data (chart_step (Loaded (load_fetch beApi api now saved poolId False mi)) st) = bars \<and>
         sorted_wrt (>) (map lb_time bars) \<and>
         lastBarRef (chart_step (Loaded (load_fetch beApi api now saved poolId False mi)) st) = Some (last bars) \<and>
         list_all (\<lambda>b. lb_time (last bars) \<le> lb_time b) bars"
proof -
  obtain t0 t1 where w: "load_window now = (t0, t1)" by (cases "load_window now")
  have f: "fetch_chart_data beApi api poolId (default_resolution saved False) t0 t1 False mi = Inr bars"
    using res w by (simp add: load_fetch_def)
  have s: "sorted_wrt (>) (map lb_time bars)"
    by (rule fetch_chart_data_regular_newest_first [OF host f])
  then show ?thesis using res ne sorted_gt_last_min [OF s ne] by (simp add: load_data_def)
qed

text \<open>
  C24: the live listener has no staleness check: an update older than \<open>lastBarRef\<close> is
  passed to \<open>candle.update\<close> and moves \<open>lastBarRef\<close> back in time, without volume.
\<close>

theorem arrow_listener_stale_forwarded:
  assumes "chart_live st" and "lastBarRef st = Some b" and "lb_time next < lb_time b"
  shows "\<exists>b'. lastBarRef (arrow_listener prev next st) = Some b' \<and> lb_time b' < lb_time b \<and>
           candle_updates (arrow_listener prev next st) = candle_updates st @ [b'] \<and> lb_volume b' = None"
  using assms by (simp add: arrow_listener_def Let_def)

text \<open>
  C25: in every interleaving of effect runs, page loads, live updates and cleanups, the arrow
  listener is registered only while a chart is live.
\<close>

theorem chart_reachable_listener_live:
  "chart_reachable st \<Longrightarrow> arrow_listener_on st \<longrightarrow> chart_live st"
proof (induction rule: chart_reachable.induct)
  case init
  show ?case by (simp add: chart_init_def)
next
  case (step st e)
  then show ?case using chart_step_inv [of st e] by (simp add: chart_inv_def)
qed

text \<open>After the cleanup of the effect, live updates change nothing.\<close>

theorem chart_teardown_silences_arrow:
  "chart_run (map (\<lambda>(p, n). Arrow p n) evs) (chart_step Teardown st) = chart_step Teardown st"
  by (induction evs) (auto simp: chart_teardown_def)

text \<open>
  C26: \<open>lastBarRef\<close> belongs to the component, not to one chart: from any state in which a
  previous chart left a bar there, the cleanup and the next effect run keep it, and the new
  chart draws a live update while its own series are still empty.
\<close>

theorem chart_switch_draws_before_history:
  assumes "lastBarRef st = Some b"
  shows "candle_data (chart_run [Teardown, Setup True False, Arrow prev next] st) = [] \<and>
         candle_updates (chart_run [Teardown, Setup True False, Arrow prev next] st) = [next\<lparr>lb_volume := None\<rparr>] \<and>
         lastBarRef (chart_run [Teardown, Setup True False, Arrow prev next] st) = Some (next\<lparr>lb_volume := None\<rparr>)"
  using assms by (simp add: chart_teardown_def chart_setup_def arrow_listener_def Let_def)

text \<open>
  A market-cap pool is quoted in USDC and its items are scaled by the mint's supply;
  the bars are those of the birdeye loop on the items the proxy returns.
\<close>

theorem fetch_chart_data_birdeye_marketcap:
  assumes "js_includes poolId ''marketcap''"
    and "beApi (birdeye_request_of (Some mi) poolId r from to) = Inr (Some its)" and "its \<noteq> []"
  shows "be_quote_address (birdeye_request_of (Some mi) poolId r from to) = usdc_mint \<and>
         fetch_chart_data beApi api poolId r from to True (Some mi) =
           Inr (birdeye_collect from to (resolution_to_seconds r) (mi_supply mi) its)"
  using assms by (simp add: fetch_chart_data_def birdeye_request_of_def is_market_cap_def birdeye_multiplier_def)

text \<open>
  For any other pool id \<open>base_quote\<close> the request names the base and the quote mint
  of the id.
\<close>

theorem birdeye_request_split:
  assumes "CHR ''_'' \<notin> set b" and "CHR ''_'' \<notin> set q" and "\<not> is_market_cap mi (b @ ''_'' @ q)"
  shows "be_base_address (birdeye_request_of mi (b @ ''_'' @ q) r from to) = b \<and>
         be_quote_address (birdeye_request_of mi (b @ ''_'' @ q) r from to) = q"
  using assms by (simp add: birdeye_request_of_def js_index_def js_split_append js_split_sep_free)

text \<open>The load window is the last 86400 whole seconds before now.\<close>

theorem load_window_span:
  "fst (load_window now) \<le> snd (load_window now) \<and> snd (load_window now) - fst (load_window now) = 86400"
  by (simp add: load_window_def load_window_div)

text \<open>Joining the parts of a split on the separator gives back the pool id.\<close>

theorem js_split_join: "js_join c (js_split c s) = s"
proof (induction s)
  case (Cons x xs)
  obtain w ws where e: "js_split c xs = w # ws" by (cases "js_split c xs") simp_all
  show ?case using Cons.IH by (simp add: e Let_def js_join_Cons_Cons)
qed simp

text \<open>The substring test of \<open>includes\<close> is the library's contiguous-sublist relation.\<close>

theorem js_includes_iff: "js_includes hay needle \<longleftrightarrow> sublist needle hay"
proof
  assume "js_includes hay needle"
  then have "\<exists>i \<in> set [0..<Suc (length hay)]. take (length needle) (drop i hay) = needle"
    by (simp add: js_includes_def list_ex_iff)
  then obtain i where t: "take (length needle) (drop i hay) = needle" by blast
  have "hay = take i hay @ take (length needle) (drop i hay) @ drop (length needle) (drop i hay)"
    by (simp only: append_take_drop_id)
  then show "sublist needle hay" unfolding t sublist_def by blast
next
  assume "sublist needle hay"
  then obtain ps ss where h: "hay = ps @ needle @ ss" by (auto simp: sublist_def)
  then show "js_includes hay needle"
    by (auto simp: js_includes_def list_ex_iff intro!: bexI [of _ "length ps"])
qed

section \<open>Witnesses\<close>

theorem fetch_chart_data_regular_newest_first_witness:
  "host_newest_first tv_example_api \<and>
   fetch_chart_data (\<lambda>req. Inl (FetchError ''none'')) tv_example_api ''pool'' R5 0 1000 False None = Inr [tv_example_bar 600000, tv_example_bar 300000] \<and>
   sorted_wrt (>) (map lb_time [tv_example_bar 600000, tv_example_bar 300000])"
proof -
  have h: "host_newest_first tv_example_api" by (simp add: host_newest_first_def trade_data.make_def)
  have f: "fetch_chart_data (\<lambda>req. Inl (FetchError ''none'')) tv_example_api ''pool'' R5 0 1000 False None = Inr [tv_example_bar 600000, tv_example_bar 300000]"
    by (rule tv_example_fetch)
  show ?thesis using h f fetch_chart_data_regular_newest_first [OF h f] by blast
qed

theorem load_regular_last_bar_oldest_witness:
  "candle_data (chart_step (Loaded (load_fetch (\<lambda>req. Inl (FetchError ''none'')) tv_example_api 0 None ''pool'' False None)) chart_init) =
     [tv_example_bar 600000, tv_example_bar 300000] \<and>
   lastBarRef (chart_step (Loaded (load_fetch (\<lambda>req. Inl (FetchError ''none'')) tv_example_api 0 None ''pool'' False None)) chart_init) =
     Some (tv_example_bar 300000)"
proof -
  have h: "host_newest_first tv_example_api" by (simp add: host_newest_first_def trade_data.make_def)
  have f: "load_fetch (\<lambda>req. Inl (FetchError ''none'')) tv_example_api 0 None ''pool'' False None =
      Inr [tv_example_bar 600000, tv_example_bar 300000]" by (rule tv_example_load_fetch)
  show ?thesis using load_regular_last_bar_oldest [OF h f, of chart_init] by simp
qed

theorem chart_switch_draws_before_history_witness:
  "candle_updates (chart_run [Teardown, Setup True False, Arrow (tv_example_bar 600000) (tv_example_bar 900000)]
      (chart_run [Setup True False, Loaded (Inr [tv_example_bar 600000])] chart_init)) = [tv_example_bar 900000] \<and>
   candle_data (chart_run [Teardown, Setup True False, Arrow (tv_example_bar 600000) (tv_example_bar 900000)]
      (chart_run [Setup True False, Loaded (Inr [tv_example_bar 600000])] chart_init)) = []"
proof -
  have l: "lastBarRef (chart_run [Setup True False, Loaded (Inr [tv_example_bar 600000])] chart_init) =
      Some (tv_example_bar 600000)" by (simp add: model_defs)
  show ?thesis using chart_switch_draws_before_history [OF l, of "tv_example_bar 600000" "tv_example_bar 900000"]
    by simp
qed

theorem arrow_listener_stale_forwarded_witness:
  "chart_live (chart_setup False chart_init\<lparr>lastBarRef := Some (tv_example_bar 600000)\<rparr>) \<and>
   lastBarRef (chart_setup False chart_init\<lparr>lastBarRef := Some (tv_example_bar 600000)\<rparr>) = Some (tv_example_bar 600000) \<and>
   lb_time (tv_example_bar 300000) < lb_time (tv_example_bar 600000) \<and>
   (\<exists>b'. lastBarRef (arrow_listener (tv_example_bar 600000) (tv_example_bar 300000)
            (chart_setup False chart_init\<lparr>lastBarRef := Some (tv_example_bar 600000)\<rparr>)) = Some b' \<and>
         lb_time b' < lb_time (tv_example_bar 600000) \<and>
         candle_updates (arrow_listener (tv_example_bar 600000) (tv_example_bar 300000)
            (chart_setup False chart_init\<lparr>lastBarRef := Some (tv_example_bar 600000)\<rparr>)) = [b'] \<and>
         lb_volume b' = None)"
proof -
  let ?st = "chart_setup False chart_init\<lparr>lastBarRef := Some (tv_example_bar 600000)\<rparr>"
  have l: "chart_live ?st" by (simp add: model_defs)
  have b: "lastBarRef ?st = Some (tv_example_bar 600000)" by simp
  have t: "lb_time (tv_example_bar 300000) < lb_time (tv_example_bar 600000)" by simp
  have u: "candle_updates ?st = []" by (simp add: model_defs)
  show ?thesis using l b t arrow_listener_stale_forwarded [OF l b t] unfolding u by simp
qed

theorem chart_reachable_listener_live_witness:
  "chart_reachable (chart_step (Setup True False) chart_init) \<and>
   arrow_listener_on (chart_step (Setup True False) chart_init) \<and> chart_live (chart_step (Setup True False) chart_init)"
proof -
  have r: "chart_reachable (chart_step (Setup True False) chart_init)" by (rule chart_reachable.step [OF chart_reachable.init])
  have on: "arrow_listener_on (chart_step (Setup True False) chart_init)" by (simp add: model_defs)
  show ?thesis using r on chart_reachable_listener_live [OF r] by blast
qed

theorem fetch_chart_data_birdeye_marketcap_witness:
  "js_includes ''Base_marketcap'' ''marketcap'' \<and>
   fetch_chart_data (\<lambda>req. Inr (Some [\<lparr>unixTime = 1000, bi_o = 1, bi_h = 2, bi_l = 0.5, bi_c = 1.5, vQuote = Some 10\<rparr>])) tv_example_api ''Base_marketcap'' R1 0 2000 True
     (Some \<lparr>mi_mint = ''m'', mi_supply = 1000, mi_decimals = 6\<rparr>) =
   Inr (birdeye_collect 0 2000 60 1000 [\<lparr>unixTime = 1000, bi_o = 1, bi_h = 2, bi_l = 0.5, bi_c = 1.5, vQuote = Some 10\<rparr>])"
proof -
  have h: "js_includes ''Base_marketcap'' ''marketcap''" by (simp add: js_includes_def)
  show ?thesis using h fetch_chart_data_birdeye_marketcap [OF h, of "\<lambda>req. Inr (Some [\<lparr>unixTime = 1000, bi_o = 1, bi_h = 2, bi_l = 0.5, bi_c = 1.5, vQuote = Some 10\<rparr>])" "\<lparr>mi_mint = ''m'', mi_supply = 1000, mi_decimals = 6\<rparr>" R1 0 2000 "[\<lparr>unixTime = 1000, bi_o = 1, bi_h = 2, bi_l = 0.5, bi_c = 1.5, vQuote = Some 10\<rparr>]" tv_example_api]
    by simp
qed

theorem birdeye_request_split_witness:
  "\<not> is_market_cap None (''So1'' @ ''_'' @ ''USD'') \<and>
   be_quote_address (birdeye_request_of None (''So1'' @ ''_'' @ ''USD'') R15 0 10) = ''USD''"
proof -
  have a: "CHR ''_'' \<notin> set ''So1''" and b: "CHR ''_'' \<notin> set ''USD''" by simp_all
  have c: "\<not> is_market_cap None (''So1'' @ ''_'' @ ''USD'')" by (simp add: is_market_cap_def)
  show ?thesis using c birdeye_request_split [OF a b c, of R15 0 10] by blast
qed

end
