(* ===== verification/ReadinessGate.thy ===== *)
theory ReadinessGate
  imports Prelude
begin

text \<open>
  The data-readiness gate: the polling effect of TVChart.tsx that, for a pool that needs a
  refresh, asks the history host every second whether a one-minute candle exists, and
  reloads the chart when one does or when its attempt counter runs out. The closure
  variables \<open>count\<close> and \<open>interval\<close> and the effects it has (probes sent, probes in
  flight, \<open>setReloadChartTag\<close> calls) form \<open>gate_state\<close>. Three kinds of event drive it:
  a timer tick (the \<open>setInterval\<close> callback, which sends a probe), the resolution of one
  probe (the \<open>.then\<close> callback), and the effect's cleanup.

  \<open>gate_poll\<close> runs the gate when every probe answers before the next tick, with the
  number of ticks as fuel; \<open>gate_reachable\<close> is the set of states of any interleaving.
\<close>

section \<open>The gate\<close>

datatype probe_response = ProbeRows nat | ProbeFailed

datatype gate_event = Tick | ProbeResolved probe_response | Cleanup

record gate_state =
  gate_count :: nat
  interval_active :: bool
  probes_sent :: nat
  probes_pending :: nat
  reloads :: nat
  torn_down :: bool

text \<open>\<open>checkData\<close>: rows found, or \<open>false\<close> when the request throws.\<close>

definition check_data :: "probe_response \<Rightarrow> bool" where
  "check_data resp = (case resp of ProbeRows n \<Rightarrow> 0 < n | ProbeFailed \<Rightarrow> False)"

text \<open>The effect body: the early return, and \<open>count = 0\<close> with a running interval.\<close>

definition gate_effect :: "bool \<Rightarrow> bool \<Rightarrow> bool \<Rightarrow> bool \<Rightarrow> gate_state option" where
  "gate_effect hasPoolId birdeye isNeedRefreshData hasConnection =
     (if \<not> hasPoolId \<or> birdeye \<or> \<not> isNeedRefreshData \<or> \<not> hasConnection then None
      else Some \<lparr>gate_count = 0, interval_active = True, probes_sent = 0, probes_pending = 0,
                 reloads = 0, torn_down = False\<rparr>)"

definition gate_init :: gate_state where
  "gate_init = \<lparr>gate_count = 0, interval_active = True, probes_sent = 0, probes_pending = 0,
                reloads = 0, torn_down = False\<rparr>"

text \<open>
  The probe callback: \<open>if (r || count++ >= 15)\<close> increments \<open>count\<close> only when \<open>r\<close> is
  false (short-circuit), compares the old value, and on success clears the interval and
  calls \<open>setReloadChartTag\<close>.
\<close>

fun gate_step :: "gate_state \<Rightarrow> gate_event \<Rightarrow> gate_state" where
  "gate_step s Tick =
     (if interval_active s then s\<lparr>probes_sent := Suc (probes_sent s), probes_pending := Suc (probes_pending s)\<rparr>
      else s)"
| "gate_step s (ProbeResolved resp) =
     (if probes_pending s = 0 then s
      else
        (let s = s\<lparr>probes_pending := probes_pending s - 1\<rparr> in
         if check_data resp then s\<lparr>interval_active := False, reloads := Suc (reloads s)\<rparr>
         else if 15 \<le> gate_count s
         then s\<lparr>gate_count := Suc (gate_count s), interval_active := False, reloads := Suc (reloads s)\<rparr>
         else s\<lparr>gate_count := Suc (gate_count s)\<rparr>))"
| "gate_step s Cleanup = s\<lparr>interval_active := False, torn_down := True\<rparr>"

definition gate_run :: "gate_state \<Rightarrow> gate_event list \<Rightarrow> gate_state" where
  "gate_run s es = fold (\<lambda>e s. gate_step s e) es s"

text \<open>
  Every probe answers before the next tick: one tick sends probe number \<open>probes_sent s\<close>,
  whose answer is \<open>probe (probes_sent s)\<close>, and resolves it. The fuel is the number of ticks.
\<close>

fun gate_poll :: "nat \<Rightarrow> (nat \<Rightarrow> probe_response) \<Rightarrow> gate_state \<Rightarrow> gate_state" where
  "gate_poll 0 probe s = s"
| "gate_poll (Suc n) probe s =
     (if interval_active s
      then gate_poll n probe (gate_step (gate_step s Tick) (ProbeResolved (probe (probes_sent s))))
      else s)"

inductive gate_reachable :: "gate_state \<Rightarrow> bool" where
  start: "gate_reachable gate_init"
| step: "gate_reachable s \<Longrightarrow> gate_reachable (gate_step s e)"

definition gate_inv :: "gate_state \<Rightarrow> bool" where
  "gate_inv s \<longleftrightarrow>
     (interval_active s \<longrightarrow> gate_count s \<le> 15 \<and> reloads s = 0 \<and> \<not> torn_down s) \<and>
     probes_pending s \<le> probes_sent s"

text \<open>A polling state whose probes have all answered, as in a synchronous run.\<close>

definition gate_sync :: "gate_state \<Rightarrow> bool" where
  "gate_sync s \<longleftrightarrow> interval_active s \<and> probes_pending s = 0 \<and> reloads s = 0 \<and>
     gate_count s = probes_sent s \<and> gate_count s \<le> 15"

declare check_data_def [model_defs] gate_effect_def [model_defs] gate_init_def [model_defs]
  gate_run_def [model_defs]

section \<open>Lemmas\<close>

lemma gate_step_inactive:
  "\<not> interval_active s \<Longrightarrow>
   \<not> interval_active (gate_step s e) \<and> probes_sent (gate_step s e) = probes_sent s"
  by (cases e) (simp_all add: Let_def)

lemma gate_step_inv: "gate_inv s \<Longrightarrow> gate_inv (gate_step s e)"
  by (cases e) (auto simp: gate_inv_def Let_def)

lemma gate_run_Cons [simp]: "gate_run s (e # es) = gate_run (gate_step s e) es"
  by (simp add: gate_run_def)

lemma gate_run_Nil [simp]: "gate_run s [] = s"
  by (simp add: gate_run_def)

lemma gate_reachable_run: "gate_reachable s \<Longrightarrow> gate_reachable (gate_run s es)"
  by (induction es arbitrary: s) (simp_all add: gate_reachable.step)

lemma gate_reachable_inv: "gate_reachable s \<Longrightarrow> gate_inv s"
proof (induction rule: gate_reachable.induct)
  case start
  then show ?case by (simp add: gate_inv_def gate_init_def)
next
  case (step s e)
  from step.IH show ?case by (rule gate_step_inv)
qed

lemma gate_poll_inactive [simp]: "\<not> interval_active s \<Longrightarrow> gate_poll n probe s = s"
  by (cases n) simp_all

lemma gate_sync_init: "gate_sync gate_init"
  by (simp add: gate_sync_def gate_init_def)

lemma gate_poll_sync_stops:
  "gate_sync s \<Longrightarrow> 16 \<le> gate_count s + n \<Longrightarrow>
   \<not> interval_active (gate_poll n probe s) \<and> reloads (gate_poll n probe s) = 1 \<and>
   probes_sent (gate_poll n probe s) \<le> 16 \<and> probes_pending (gate_poll n probe s) = 0"
proof (induction n arbitrary: s)
  case 0
  then show ?case by (simp add: gate_sync_def)
next
  case (Suc n)
  let ?s1 = "gate_step (gate_step s Tick) (ProbeResolved (probe (probes_sent s)))"
  have act: "interval_active s" using Suc.prems by (simp add: gate_sync_def)
  show ?case
  proof (cases "check_data (probe (probes_sent s)) \<or> 15 \<le> gate_count s")
    case True
    then have "\<not> interval_active ?s1 \<and> reloads ?s1 = 1 \<and> probes_sent ?s1 \<le> 16 \<and> probes_pending ?s1 = 0"
      using Suc.prems by (auto simp: gate_sync_def Let_def)
    with act show ?thesis by simp
  next
    case False
    then have "gate_sync ?s1" and "gate_count ?s1 = Suc (gate_count s)"
      using Suc.prems by (auto simp: gate_sync_def Let_def)
    moreover have "16 \<le> gate_count ?s1 + n" using Suc.prems \<open>gate_count ?s1 = Suc (gate_count s)\<close> by simp
    ultimately show ?thesis using Suc.IH act by simp
  qed
qed

lemma gate_poll_all_fail:
  "gate_sync s \<Longrightarrow>
   gate_poll n (\<lambda>_. ProbeRows 0) s =
     (if gate_count s + n \<le> 15 then s\<lparr>gate_count := gate_count s + n, probes_sent := probes_sent s + n\<rparr>
      else s\<lparr>gate_count := 16, probes_sent := 16, interval_active := False, reloads := 1\<rparr>)"
proof (induction n arbitrary: s)
  case 0
  then show ?case by (simp add: gate_sync_def)
next
  case (Suc n)
  let ?s1 = "gate_step (gate_step s Tick) (ProbeResolved (ProbeRows 0))"
  have act: "interval_active s" using Suc.prems by (simp add: gate_sync_def)
  show ?case
  proof (cases "15 \<le> gate_count s")
    case True
    with Suc.prems have "gate_count s = 15" "probes_sent s = 15" by (simp_all add: gate_sync_def)
    with act Suc.prems show ?thesis by (simp add: gate_sync_def Let_def check_data_def)
  next
    case False
    let ?s2 = "s\<lparr>gate_count := Suc (gate_count s), probes_sent := Suc (probes_sent s)\<rparr>"
    have eq: "?s1 = ?s2" using False Suc.prems by (simp add: gate_sync_def Let_def check_data_def)
    have s2: "gate_sync ?s2" using False Suc.prems by (simp add: gate_sync_def)
    have "gate_poll (Suc n) (\<lambda>_. ProbeRows 0) s = gate_poll n (\<lambda>_. ProbeRows 0) ?s2"
      using act eq by simp
    also have "\<dots> = (if gate_count ?s2 + n \<le> 15
        then ?s2\<lparr>gate_count := gate_count ?s2 + n, probes_sent := probes_sent ?s2 + n\<rparr>
        else ?s2\<lparr>gate_count := 16, probes_sent := 16, interval_active := False, reloads := 1\<rparr>)"
      by (rule Suc.IH [OF s2])
    finally show ?thesis by simp
  qed
qed

lemma gate_poll_sync_first_data:
  "gate_sync s \<Longrightarrow> probes_sent s \<le> k \<Longrightarrow> k \<le> 15 \<Longrightarrow> k - probes_sent s < n \<Longrightarrow>
   (\<forall>i. probes_sent s \<le> i \<and> i < k \<longrightarrow> \<not> check_data (probe i)) \<Longrightarrow> check_data (probe k) \<Longrightarrow>
   \<not> interval_active (gate_poll n probe s) \<and> reloads (gate_poll n probe s) = 1 \<and>
   probes_sent (gate_poll n probe s) = Suc k"
proof (induction n arbitrary: s)
  case 0
  then show ?case by simp
next
  case (Suc n)
  let ?s1 = "gate_step (gate_step s Tick) (ProbeResolved (probe (probes_sent s)))"
  have act: "interval_active s" using Suc.prems(1) by (simp add: gate_sync_def)
  have unf: "gate_poll (Suc n) probe s = gate_poll n probe ?s1" using act by simp
  show ?case
  proof (cases "probes_sent s = k")
    case True
    have i: "\<not> interval_active ?s1 \<and> reloads ?s1 = 1 \<and> probes_sent ?s1 = Suc k"
      using True Suc.prems(1,6) by (simp add: gate_sync_def Let_def)
    then have "gate_poll n probe ?s1 = ?s1" by (intro gate_poll_inactive) simp
    with i show ?thesis unfolding unf by simp
  next
    case False
    with Suc.prems(2) have lt: "probes_sent s < k" by simp
    with Suc.prems(5) have nd: "\<not> check_data (probe (probes_sent s))" by simp
    let ?s2 = "s\<lparr>gate_count := Suc (gate_count s), probes_sent := Suc (probes_sent s)\<rparr>"
    have eq: "?s1 = ?s2" using nd lt Suc.prems(1,3) by (simp add: gate_sync_def Let_def)
    have s2: "gate_sync ?s2" using lt Suc.prems(1,3) by (simp add: gate_sync_def)
    have "\<not> interval_active (gate_poll n probe ?s2) \<and> reloads (gate_poll n probe ?s2) = 1 \<and>
      probes_sent (gate_poll n probe ?s2) = Suc k"
    proof (rule Suc.IH [OF s2])
      show "probes_sent ?s2 \<le> k" using lt by simp
      show "k \<le> 15" by (rule Suc.prems(3))
      show "k - probes_sent ?s2 < n" using lt Suc.prems(4) by simp
      show "\<forall>i. probes_sent ?s2 \<le> i \<and> i < k \<longrightarrow> \<not> check_data (probe i)" using Suc.prems(5) by simp
      show "check_data (probe k)" by (rule Suc.prems(6))
    qed
    then show ?thesis unfolding unf eq .
  qed
qed

lemma gate_run_ticks:
  "interval_active s \<Longrightarrow> gate_run s (replicate n Tick) =
     s\<lparr>probes_sent := probes_sent s + n, probes_pending := probes_pending s + n\<rparr>"
  by (induction n arbitrary: s) simp_all

lemma gate_run_inactive:
  "\<not> interval_active s \<Longrightarrow>
   \<not> interval_active (gate_run s es) \<and> probes_sent (gate_run s es) = probes_sent s"
  by (induction es arbitrary: s) (simp_all add: gate_step_inactive)

text \<open>
  C4: the synchronous poll terminates: whatever the probes answer, sixteen ticks stop the
  interval, after at most sixteen probes and exactly one reload.
\<close>

theorem gate_poll_terminates:
  "16 \<le> n \<Longrightarrow>
   \<not> interval_active (gate_poll n probe gate_init) \<and> reloads (gate_poll n probe gate_init) = 1 \<and>
   probes_sent (gate_poll n probe gate_init) \<le> 16"
  using gate_poll_sync_stops [OF gate_sync_init, of n probe] by (simp add: gate_init_def)

text \<open>
  C19: when no probe ever finds data, the gate sends exactly sixteen probes (the counter is
  compared before its increment), still polling after fifteen ticks.
\<close>

theorem gate_all_fail_sixteen_probes:
  "probes_sent (gate_poll n (\<lambda>_. ProbeRows 0) gate_init) = min n 16 \<and>
   (interval_active (gate_poll n (\<lambda>_. ProbeRows 0) gate_init) \<longleftrightarrow> n < 16)"
  using gate_poll_all_fail [OF gate_sync_init, of n] by (simp add: gate_init_def)

text \<open>
  C20: the gate proceeds as soon as a probe finds data: if probe \<open>k\<close> (at most the
  sixteenth) is the first with rows, the poll stops after \<open>k + 1\<close> probes with one reload.
\<close>

theorem gate_stops_at_first_data:
  "k \<le> 15 \<Longrightarrow> k < n \<Longrightarrow> (\<forall>i < k. \<not> check_data (probe i)) \<Longrightarrow> check_data (probe k) \<Longrightarrow>
   \<not> interval_active (gate_poll n probe gate_init) \<and> reloads (gate_poll n probe gate_init) = 1 \<and>
   probes_sent (gate_poll n probe gate_init) = Suc k"
  by (rule gate_poll_sync_first_data [OF gate_sync_init]) (simp_all add: gate_init_def)

text \<open>
  C21: in every interleaving of ticks, probe answers and cleanup, while the interval runs the
  counter is at most fifteen, no reload has been signalled and the effect is not torn
  down; once it has stopped, no event restarts it or sends another probe.
\<close>

theorem gate_reachable_polling_inv:
  assumes "gate_reachable s"
  shows "(interval_active s \<longrightarrow> gate_count s \<le> 15 \<and> reloads s = 0 \<and> \<not> torn_down s) \<and>
         (\<not> interval_active s \<longrightarrow> \<not> interval_active (gate_run s es) \<and> probes_sent (gate_run s es) = probes_sent s)"
  using gate_reachable_inv [OF assms] gate_run_inactive by (auto simp: gate_inv_def)

text \<open>
  Cleanup does not cancel a probe in flight: when it answers with data after the
  effect was torn down, the gate still calls \<open>setReloadChartTag\<close>.
\<close>

theorem gate_reload_after_cleanup:
  "gate_reachable s \<Longrightarrow> torn_down s \<Longrightarrow> 0 < probes_pending s \<Longrightarrow>
   reloads (gate_step s (ProbeResolved (ProbeRows 1))) = Suc (reloads s)"
  by (simp add: Let_def check_data_def)

text \<open>
  C30: the attempt budget does not bound the probes: with a host slower than the one-second
  tick, any number of probes is sent while none has answered.
\<close>

theorem gate_unbounded_probes:
  "gate_reachable (gate_run gate_init (replicate n Tick)) \<and>
   probes_sent (gate_run gate_init (replicate n Tick)) = n \<and>
   interval_active (gate_run gate_init (replicate n Tick))"
proof -
  have e: "gate_run gate_init (replicate n Tick) = gate_init\<lparr>probes_sent := n, probes_pending := n\<rparr>"
    using gate_run_ticks [of gate_init n] by (simp add: gate_init_def)
  have "gate_reachable (gate_run gate_init (replicate n Tick))"
    by (rule gate_reachable_run [OF gate_reachable.start])
  then show ?thesis unfolding e by (simp add: gate_init_def)
qed

text \<open>Two probes in flight that both find data reload the chart twice.\<close>

theorem gate_double_reload:
  "reloads (gate_run gate_init [Tick, Tick, ProbeResolved (ProbeRows 1), ProbeResolved (ProbeRows 1)]) = 2"
  by (simp add: gate_init_def check_data_def)

section \<open>Witnesses\<close>

theorem gate_poll_terminates_witness:
  "16 \<le> (16::nat) \<and> \<not> interval_active (gate_poll 16 (\<lambda>_. ProbeFailed) gate_init) \<and>
   reloads (gate_poll 16 (\<lambda>_. ProbeFailed) gate_init) = 1"
  using gate_poll_terminates [of 16 "\<lambda>_. ProbeFailed"] by simp

theorem gate_stops_at_first_data_witness:
  "(3::nat) \<le> 15 \<and> 3 < (5::nat) \<and> check_data ((\<lambda>i::nat. if i = 3 then ProbeRows 1 else ProbeRows 0) 3) \<and>
   \<not> check_data ((\<lambda>i::nat. if i = 3 then ProbeRows 1 else ProbeRows 0) 0) \<and>
   probes_sent (gate_poll 5 (\<lambda>i::nat. if i = 3 then ProbeRows 1 else ProbeRows 0) gate_init) = 4"
proof -
  have h: "\<forall>i < (3::nat). \<not> check_data ((\<lambda>i::nat. if i = 3 then ProbeRows 1 else ProbeRows 0) i)"
    by (simp add: check_data_def)
  show ?thesis
    using gate_stops_at_first_data [of 3 5 "\<lambda>i. if i = 3 then ProbeRows 1 else ProbeRows 0"] h
    by (simp add: check_data_def)
qed

theorem gate_reachable_polling_inv_witness:
  "gate_reachable (gate_run gate_init [Tick, ProbeResolved (ProbeRows 0)]) \<and>
   interval_active (gate_run gate_init [Tick, ProbeResolved (ProbeRows 0)]) \<and>
   gate_count (gate_run gate_init [Tick, ProbeResolved (ProbeRows 0)]) \<le> 15"
proof -
  have r: "gate_reachable (gate_run gate_init [Tick, ProbeResolved (ProbeRows 0)])"
    by (rule gate_reachable_run [OF gate_reachable.start])
  have a: "interval_active (gate_run gate_init [Tick, ProbeResolved (ProbeRows 0)])"
    by (simp add: gate_init_def check_data_def)
  show ?thesis using gate_reachable_polling_inv [OF r] r a by blast
qed

theorem gate_reload_after_cleanup_witness:
  "gate_reachable (gate_run gate_init [Tick, Cleanup]) \<and> torn_down (gate_run gate_init [Tick, Cleanup]) \<and>
   0 < probes_pending (gate_run gate_init [Tick, Cleanup]) \<and>
   reloads (gate_step (gate_run gate_init [Tick, Cleanup]) (ProbeResolved (ProbeRows 1))) = 1"
proof -
  have r: "gate_reachable (gate_run gate_init [Tick, Cleanup])"
    by (rule gate_reachable_run [OF gate_reachable.start])
  have t: "torn_down (gate_run gate_init [Tick, Cleanup])" by (simp add: gate_init_def)
  have p: "0 < probes_pending (gate_run gate_init [Tick, Cleanup])" by (simp add: gate_init_def)
  have z: "reloads (gate_run gate_init [Tick, Cleanup]) = 0" by (simp add: gate_init_def)
  show ?thesis using gate_reload_after_cleanup [OF r t p] r t p z by simp
qed

end
