(* ===== verification/ChartRendering.thy ===== *)
theory ChartRendering
  imports TVChart ReadinessGate
begin

text \<open>
  The parts of the chart set-up in TVChart.tsx that compute values rather than only style
  the widget. The time-axis label \<open>tickMarkFormatter\<close> formats \<open>dayjs(time * 1000).utc()\<close>
  as \<open>YYYY/M\<close>, \<open>M/D\<close> or \<open>H:mm\<close> by tick kind. The calendar fields of a UTC time are
  those of the ECMAScript \<open>Date\<close> that dayjs reads: \<open>day_from_year\<close> is DayFromYear,
  \<open>year_from_day\<close> computes YearFromTime (the largest year starting at or before the
  day) by a search from an estimate below it, and the month and date come from the table of
  month starts of MonthFromTime and DateFromTime; the format tokens are those of dayjs.
  Beside it: the candle series' \<open>minMove\<close> (with JavaScript's \<open>Number\<close> and \<open>??\<close> written
  out), the price label, the theme and the locale choices, the option objects handed to
  lightweight-charts, and the refresh trigger that starts the readiness gate.
\<close>

section \<open>UTC calendar fields (ECMAScript Date, as read by dayjs)\<close>

definition ms_per_day :: int where
  "ms_per_day = 86400000"

definition day_from_year :: "int \<Rightarrow> int" where
  "day_from_year y = 365 * (y - 1970) + (y - 1969) div 4 - (y - 1901) div 100 + (y - 1601) div 400"

definition days_in_year :: "int \<Rightarrow> int" where
  "days_in_year y = day_from_year (y + 1) - day_from_year y"

definition year_estimate :: "int \<Rightarrow> int" where
  "year_estimate d = 1970 + 400 * (d div 146097) + (d mod 146097) div 366"

text \<open>YearFromTime: from an estimate that never exceeds the year, step up while the next year starts no later than the day.\<close>

function year_up :: "int \<Rightarrow> int \<Rightarrow> int" where
  "year_up d y = (if day_from_year (y + 1) \<le> d then year_up d (y + 1) else y)"
  by pat_completeness auto

definition year_from_day :: "int \<Rightarrow> int" where
  "year_from_day d = year_up d (year_estimate d)"

definition month_starts :: "bool \<Rightarrow> int list" where
  "month_starts leap =
     (let l = (if leap then 1 else 0)
      in [0, 31, 59 + l, 90 + l, 120 + l, 151 + l, 181 + l, 212 + l, 243 + l, 273 + l, 304 + l, 334 + l])"

record utc_date =
  dt_year :: int
  dt_month :: int
  dt_date :: int
  dt_hour :: int
  dt_minute :: int

definition utc_of_ms :: "int \<Rightarrow> utc_date" where
  "utc_of_ms t =
     (let day = t div ms_per_day;
          y = year_from_day day;
          dwy = day - day_from_year y;
          starts = month_starts (days_in_year y = 366);
          m = length (filter (\<lambda>s. s \<le> dwy) starts) - 1
      in \<lparr>dt_year = y, dt_month = int m + 1, dt_date = dwy - starts ! m + 1,
          dt_hour = (t div 3600000) mod 24, dt_minute = (t div 60000) mod 60\<rparr>)"

section \<open>Format tokens (dayjs)\<close>

function nat_str :: "nat \<Rightarrow> string" where
  "nat_str n = (if n < 10 then [''0123456789'' ! n] else nat_str (n div 10) @ [''0123456789'' ! (n mod 10)])"
  by pat_completeness auto

definition int_str :: "int \<Rightarrow> string" where
  "int_str i = (if i < 0 then CHR ''-'' # nat_str (nat (- i)) else nat_str (nat i))"

definition pad_start :: "nat \<Rightarrow> char \<Rightarrow> string \<Rightarrow> string" where
  "pad_start n c s = replicate (n - length s) c @ s"

section \<open>tickMarkFormatter\<close>

definition tick_date :: "int \<Rightarrow> utc_date" where
  "tick_date time = utc_of_ms (time * 1000)"

definition tick_mark_format :: "int \<Rightarrow> nat \<Rightarrow> string" where
  "tick_mark_format time tickMarkType =
     (let dt = tick_date time
      in if tickMarkType = 0 then pad_start 4 CHR ''0'' (int_str (dt_year dt)) @ ''/'' @ int_str (dt_month dt)
         else if tickMarkType < 3 then int_str (dt_month dt) @ ''/'' @ int_str (dt_date dt)
         else int_str (dt_hour dt) @ '':'' @ pad_start 2 CHR ''0'' (int_str (dt_minute dt)))"

section \<open>Price scale, price label, theme\<close>

text \<open>The JavaScript values \<open>minMove\<close> passes through: \<open>Number(x)\<close> of an optional number, \<open>??\<close>, \<open>**\<close> and \<open>/\<close>.\<close>

datatype js_value = JUndefined | JNull | JNum real | JNaN

definition js_number_of :: "nat option \<Rightarrow> js_value" where
  "js_number_of x = (case x of None \<Rightarrow> JNaN | Some n \<Rightarrow> JNum (real n))"

definition js_nullish :: "js_value \<Rightarrow> js_value \<Rightarrow> js_value" where
  "js_nullish a b = (case a of JUndefined \<Rightarrow> b | JNull \<Rightarrow> b | _ \<Rightarrow> a)"

definition js_pow10 :: "js_value \<Rightarrow> js_value" where
  "js_pow10 e = (case e of JNum x \<Rightarrow> JNum (10 powr x) | _ \<Rightarrow> JNaN)"

definition js_div_num :: "real \<Rightarrow> js_value \<Rightarrow> js_value" where
  "js_div_num a b = (case b of JNum x \<Rightarrow> if x = 0 then JNaN else JNum (a / x) | _ \<Rightarrow> JNaN)"

definition min_move :: "mint_info option \<Rightarrow> js_value" where
  "min_move mintInfo = js_div_num 10 (js_pow10 (js_nullish (js_number_of (map_option mi_decimals mintInfo)) (JNum 2)))"

definition price_label :: "(real \<Rightarrow> string) \<Rightarrow> real \<Rightarrow> real + string" where
  "price_label formatCurrency val = (if val \<noteq> 0 then Inr (formatCurrency val) else Inl val)"

datatype app_theme = ThemeLight | ThemeDark

definition app_theme_of :: "string \<Rightarrow> app_theme" where
  "app_theme_of colorMode = (if colorMode = ''light'' then ThemeLight else ThemeDark)"

definition chart_locale :: "string \<Rightarrow> string" where
  "chart_locale language = (if language = ''zh-CN'' then ''zh'' else language)"

definition volume_color :: "string \<Rightarrow> string" where
  "volume_color colorMode = (if colorMode = ''light'' then ''#7191FF4d'' else ''#7081943e'')"

section \<open>Chart and series options\<close>

text \<open>
  The colours of \<open>Themes[appTheme][appColorMode]\<close> that the chart reads (TvTheme is not
  part of the sources), and the option objects the effect hands to \<open>createChart\<close>,
  \<open>addSeries\<close>, \<open>priceScale().applyOptions\<close> and \<open>timeScale().applyOptions\<close>. A scale
  margin is the pair (top, bottom) of fractions of the pane height left free.
\<close>

record chart_theme =
  th_textPrimary :: string
  th_layer0 :: string
  th_layer1 :: string
  th_positive :: string
  th_negative :: string

record chart_options =
  co_textColor :: string
  co_background :: string
  co_fontFamily :: string
  co_gridColor :: string
  co_crosshairColor :: string
  co_borderColor :: string
  co_autoSize :: bool
  co_tickMarkFormatter :: "int \<Rightarrow> nat \<Rightarrow> string"
  co_timeVisible :: bool

definition chart_options_of :: "chart_theme \<Rightarrow> chart_options" where
  "chart_options_of theme =
     \<lparr>co_textColor = th_textPrimary theme, co_background = th_layer0 theme, co_fontFamily = ''Space Grotesk'',
      co_gridColor = th_layer1 theme, co_crosshairColor = th_textPrimary theme, co_borderColor = th_layer1 theme,
      co_autoSize = True, co_tickMarkFormatter = tick_mark_format, co_timeVisible = True\<rparr>"

record series_options =
  so_upColor :: string
  so_downColor :: string
  so_borderVisible :: bool
  so_priceLineVisible :: bool
  so_lastValueVisible :: bool
  so_ownScale :: bool
  so_minMove :: "js_value option"
  so_margins :: "real \<times> real"

definition candle_options_of :: "chart_theme \<Rightarrow> mint_info option \<Rightarrow> series_options" where
  "candle_options_of theme mintInfo =
     \<lparr>so_upColor = th_positive theme, so_downColor = th_negative theme, so_borderVisible = False,
      so_priceLineVisible = True, so_lastValueVisible = True, so_ownScale = False,
      so_minMove = Some (min_move mintInfo), so_margins = (0.1, 0.1)\<rparr>"

text \<open>The volume histogram: one colour, \<open>priceScaleId: ''\<close> (an overlay scale of its own).\<close>

definition volume_options_of :: "string \<Rightarrow> series_options" where
  "volume_options_of colorMode =
     \<lparr>so_upColor = volume_color colorMode, so_downColor = volume_color colorMode, so_borderVisible = False,
      so_priceLineVisible = False, so_lastValueVisible = False, so_ownScale = True,
      so_minMove = None, so_margins = (0.7, 0)\<rparr>"

section \<open>Refresh trigger\<close>

text \<open>
  The subscription to \<open>refreshChartSubject\<close> stores the last mint announced in
  \<open>refreshChartMint\<close> (initially the empty string), and the polling effect of the readiness gate
  runs when \<open>needRefresh || (refreshChartMint && refreshChartMint === mintInfo?.mint)\<close> holds.
\<close>

definition on_refresh_chart :: "string \<Rightarrow> string \<Rightarrow> string" where
  "on_refresh_chart mint refreshChartMint = mint"

definition is_need_refresh_data :: "bool \<Rightarrow> string \<Rightarrow> mint_info option \<Rightarrow> bool" where
  "is_need_refresh_data needRefresh refreshChartMint mintInfo =
     (needRefresh \<or> (refreshChartMint \<noteq> [] \<and> Some refreshChartMint = map_option mi_mint mintInfo))"

declare on_refresh_chart_def [model_defs] is_need_refresh_data_def [model_defs] chart_options_of_def [model_defs]
  candle_options_of_def [model_defs] volume_options_of_def [model_defs]
  ms_per_day_def [model_defs] day_from_year_def [model_defs] days_in_year_def [model_defs]
  year_estimate_def [model_defs] year_from_day_def [model_defs] month_starts_def [model_defs]
  utc_of_ms_def [model_defs] int_str_def [model_defs] pad_start_def [model_defs] tick_date_def [model_defs]
  tick_mark_format_def [model_defs] js_number_of_def [model_defs] js_nullish_def [model_defs]
  js_pow10_def [model_defs] js_div_num_def [model_defs] min_move_def [model_defs] price_label_def [model_defs]
  app_theme_of_def [model_defs] chart_locale_def [model_defs] volume_color_def [model_defs]

section \<open>Lemmas\<close>

text \<open>Integer division by a constant above one steps by at most one.\<close>

lemma int_div_succ:
  fixes a k :: int
  assumes "1 < k"
  shows "(a + 1) div k = a div k + (if k dvd (a + 1) then 1 else 0)"
proof -
  have split: "(a + 1) div k = a div k + 1 div k + (a mod k + 1 mod k) div k"
    by (rule div_add1_eq)
  have one: "1 div k = 0" "1 mod k = 1" using assms by simp_all
  have r: "0 \<le> a mod k" "a mod k < k" using assms by simp_all
  have dv: "k dvd (a + 1) \<longleftrightarrow> a mod k + 1 = k"
  proof -
    have "(a + 1) mod k = (a mod k + 1) mod k" by (simp add: mod_add_left_eq)
    moreover have "(a mod k + 1) mod k = (if a mod k + 1 = k then 0 else a mod k + 1)"
      using r by (auto simp: mod_pos_pos_trivial)
    ultimately show ?thesis using r by (auto simp: dvd_eq_mod_eq_0)
  qed
  have "(a mod k + 1) div k = (if a mod k + 1 = k then 1 else 0)"
    using r by (auto simp: div_pos_pos_trivial)
  then show ?thesis using split one dv by simp
qed

lemma day_from_year_succ:
  "day_from_year (y + 1) = day_from_year y + 365 + (if 4 dvd y then 1 else 0)
     - (if 100 dvd y then 1 else 0) + (if 400 dvd y then 1 else 0)"
proof -
  have a: "(y + 1 - 1969) div 4 = (y - 1969) div 4 + (if 4 dvd y then 1 else 0)"
  proof -
    have "4 dvd (y - 1969 + 1) \<longleftrightarrow> 4 dvd y"
      using dvd_add_left_iff [of 4 "-1968" y] by simp
    then show ?thesis using int_div_succ [of 4 "y - 1969"] by simp
  qed
  have b: "(y + 1 - 1901) div 100 = (y - 1901) div 100 + (if 100 dvd y then 1 else 0)"
  proof -
    have "100 dvd (y - 1901 + 1) \<longleftrightarrow> 100 dvd y"
      using dvd_add_left_iff [of 100 "-1900" y] by simp
    then show ?thesis using int_div_succ [of 100 "y - 1901"] by simp
  qed
  have c: "(y + 1 - 1601) div 400 = (y - 1601) div 400 + (if 400 dvd y then 1 else 0)"
  proof -
    have "400 dvd (y - 1601 + 1) \<longleftrightarrow> 400 dvd y"
      using dvd_add_left_iff [of 400 "-1600" y] by simp
    then show ?thesis using int_div_succ [of 400 "y - 1601"] by simp
  qed
  show ?thesis unfolding day_from_year_def using a b c by simp
qed

lemma days_in_year_bounds: "365 \<le> days_in_year y \<and> days_in_year y \<le> 366"
proof -
  have "400 dvd y \<Longrightarrow> 100 dvd y" by (rule dvd_trans [of 100 400]) simp_all
  moreover have "100 dvd y \<Longrightarrow> 4 dvd y" by (rule dvd_trans [of 4 100]) simp_all
  ultimately show ?thesis unfolding days_in_year_def day_from_year_succ by auto
qed

termination year_up
proof (relation "measure (\<lambda>(d, y). nat (d + 1 - day_from_year (y + 1)))")
  fix d y :: int
  assume "day_from_year (y + 1) \<le> d"
  moreover have "day_from_year (y + 1) < day_from_year (y + 1 + 1)"
    using days_in_year_bounds [of "y + 1"] by (simp add: days_in_year_def)
  ultimately show "((d, y + 1), d, y) \<in> measure (\<lambda>(d, y). nat (d + 1 - day_from_year (y + 1)))"
    by simp
qed simp

termination nat_str
  by (relation "measure id") auto

declare year_up.simps [simp del] nat_str.simps [simp del]

lemma day_from_year_less: "day_from_year y < day_from_year (y + 1)"
  using days_in_year_bounds [of y] by (simp add: days_in_year_def)

lemma day_from_year_strict_mono: "y < y' \<Longrightarrow> day_from_year y < day_from_year y'"
proof -
  assume "y < y'"
  then obtain k where k: "y' = y + int (Suc k)" by (metis zless_iff_Suc_zadd)
  have "day_from_year y < day_from_year (y + int (Suc k))"
  proof (induction k)
    case 0 show ?case using day_from_year_less [of y] by simp
  next
    case (Suc k)
    then show ?case using day_from_year_less [of "y + int (Suc k)"] by (simp add: add.assoc)
  qed
  then show ?thesis by (simp add: k)
qed

lemma day_from_year_mono: "y \<le> y' \<Longrightarrow> day_from_year y \<le> day_from_year y'"
  using day_from_year_strict_mono [of y y'] by (cases "y = y'") auto

lemma int_mult_div_le: "0 < b \<Longrightarrow> b * (a div b) \<le> (a :: int)"
  using mult_div_mod_eq [of b a] pos_mod_sign [of b a] by linarith

text \<open>A day lies in exactly one year.\<close>

lemma year_of_day_unique:
  assumes "day_from_year y \<le> d" "d < day_from_year (y + 1)"
    and "day_from_year y' \<le> d" "d < day_from_year (y' + 1)"
  shows "y = y'"
proof (rule ccontr)
  assume "y \<noteq> y'"
  then consider "y + 1 \<le> y'" | "y' + 1 \<le> y" by linarith
  then show False
    using assms day_from_year_mono [of "y + 1" y'] day_from_year_mono [of "y' + 1" y] by cases auto
qed

lemma day_from_year_400: "day_from_year (y + 400 * q) = day_from_year y + 146097 * q"
proof -
  have a: "(y + 400 * q - 1969) div 4 = (y - 1969) div 4 + 100 * q"
    using div_mult_self1 [of 4 "y - 1969" "100 * q"] by (simp add: algebra_simps)
  have b: "(y + 400 * q - 1901) div 100 = (y - 1901) div 100 + 4 * q"
    using div_mult_self1 [of 100 "y - 1901" "4 * q"] by (simp add: algebra_simps)
  have c: "(y + 400 * q - 1601) div 400 = (y - 1601) div 400 + q"
    using div_mult_self1 [of 400 "y - 1601" q] by (simp add: algebra_simps)
  show ?thesis unfolding day_from_year_def a b c by simp
qed

lemma day_from_year_le_366: "0 \<le> k \<Longrightarrow> day_from_year (1970 + k) \<le> 366 * k"
proof -
  assume k: "0 \<le> k"
  have e: "day_from_year (1970 + k) = 365 * k + (k + 1) div 4 - (k + 69) div 100 + (k + 369) div 400"
    by (simp add: day_from_year_def add.commute)
  have b: "0 \<le> (k + 69) div 100" using k by simp
  show ?thesis
  proof (cases "k \<le> 1")
    case True
    then have "(k + 1) div 4 = 0" "(k + 369) div 400 = 0" using k by (simp_all add: div_pos_pos_trivial)
    then show ?thesis unfolding e using b k by linarith
  next
    case False
    have "4 * ((k + 1) div 4) \<le> k + 1" "400 * ((k + 369) div 400) \<le> k + 369"
      by (simp_all add: int_mult_div_le)
    then show ?thesis unfolding e using b False by linarith
  qed
qed

lemma year_estimate_le: "day_from_year (year_estimate d) \<le> d"
proof -
  let ?q = "d div 146097" and ?r = "d mod 146097"
  have r: "0 \<le> ?r" by simp
  have "year_estimate d = (1970 + ?r div 366) + 400 * ?q" by (simp add: year_estimate_def)
  then have "day_from_year (year_estimate d) = day_from_year (1970 + ?r div 366) + 146097 * ?q"
    by (simp add: day_from_year_400)
  also have "\<dots> \<le> 366 * (?r div 366) + 146097 * ?q"
    using day_from_year_le_366 [of "?r div 366"] r by simp
  also have "\<dots> \<le> d" using int_mult_div_le [of 366 ?r] mult_div_mod_eq [of 146097 d] by linarith
  finally show ?thesis .
qed

lemma year_up_correct:
  "day_from_year y \<le> d \<Longrightarrow> day_from_year (year_up d y) \<le> d \<and> d < day_from_year (year_up d y + 1)"
proof (induction d y rule: year_up.induct)
  case (1 d y)
  show ?case
  proof (cases "day_from_year (y + 1) \<le> d")
    case True
    with "1.IH" show ?thesis by (simp add: year_up.simps [of d y])
  next
    case False
    with "1.prems" show ?thesis by (simp add: year_up.simps [of d y])
  qed
qed

lemma year_from_day_correct:
  "day_from_year (year_from_day d) \<le> d \<and> d < day_from_year (year_from_day d + 1)"
  unfolding year_from_day_def by (rule year_up_correct [OF year_estimate_le])

text \<open>Month lookup in an ascending table of month starts.\<close>

lemma sorted_filter_le_takeWhile:
  fixes xs :: "int list"
  shows "sorted xs \<Longrightarrow> filter (\<lambda>s. s \<le> x) xs = takeWhile (\<lambda>s. s \<le> x) xs"
proof (induction xs)
  case (Cons a xs)
  show ?case
  proof (cases "a \<le> x")
    case True
    then show ?thesis using Cons by simp
  next
    case False
    then have "filter (\<lambda>s. s \<le> x) xs = []" using Cons.prems by (auto simp: filter_empty_conv)
    then show ?thesis using False by simp
  qed
qed simp

lemma month_starts_props:
  "sorted (month_starts leap) \<and> length (month_starts leap) = 12 \<and> month_starts leap ! 0 = 0 \<and>
   (\<forall>i < 11. month_starts leap ! Suc i - month_starts leap ! i \<le> 31) \<and>
   month_starts leap ! 11 = 334 + (if leap then 1 else 0)"
  by (simp add: month_starts_def Let_def less_Suc_eq numeral_eq_Suc)

lemma month_lookup:
  fixes starts :: "int list"
  assumes s: "sorted starts" and z: "starts ! 0 = 0" and ne: "starts \<noteq> []" and x: "0 \<le> x"
  defines "m \<equiv> length (filter (\<lambda>s. s \<le> x) starts) - 1"
  shows "m < length starts \<and> starts ! m \<le> x \<and> (Suc m < length starts \<longrightarrow> x < starts ! Suc m)"
proof -
  have tw: "filter (\<lambda>s. s \<le> x) starts = takeWhile (\<lambda>s. s \<le> x) starts"
    using s by (rule sorted_filter_le_takeWhile)
  let ?n = "length (takeWhile (\<lambda>s. s \<le> x) starts)"
  have pos: "0 < ?n" using ne z x by (cases starts) auto
  have le: "?n \<le> length starts" by (rule length_takeWhile_le)
  have m: "m = ?n - 1" unfolding m_def tw ..
  have "starts ! m \<in> set (takeWhile (\<lambda>s. s \<le> x) starts)"
    using pos by (metis m diff_less nth_mem takeWhile_nth zero_less_one)
  then have "starts ! m \<le> x" by (blast dest: set_takeWhileD)
  moreover have "Suc m < length starts \<Longrightarrow> x < starts ! Suc m"
    using nth_length_takeWhile [of "\<lambda>s. s \<le> x" starts] pos m by fastforce
  moreover have "m < length starts" using pos le m by linarith
  ultimately show ?thesis by blast
qed

lemma utc_of_ms_fields:
  "dt_year (utc_of_ms t) = year_from_day (t div ms_per_day)"
  "dt_hour (utc_of_ms t) = (t div 3600000) mod 24"
  "dt_minute (utc_of_ms t) = (t div 60000) mod 60"
  by (simp_all add: utc_of_ms_def Let_def)

lemma month_date_bounds:
  assumes x: "0 \<le> x" "x < n" and n: "n \<le> 366"
  defines "starts \<equiv> month_starts (n = 366)"
  defines "m \<equiv> length (filter (\<lambda>s. s \<le> x) starts) - 1"
  shows "m < 12 \<and> 1 \<le> x - starts ! m + 1 \<and> x - starts ! m + 1 \<le> 31"
proof -
  note ms = month_starts_props [of "n = 366", folded starts_def]
  have ne: "starts \<noteq> []" using ms by auto
  have lk: "m < length starts \<and> starts ! m \<le> x \<and> (Suc m < length starts \<longrightarrow> x < starts ! Suc m)"
    unfolding m_def using month_lookup [of starts x] ms ne x(1) by blast
  have m12: "m < 12" using lk ms by simp
  have "x - starts ! m + 1 \<le> 31"
  proof (cases "m < 11")
    case True
    then have "starts ! Suc m - starts ! m \<le> 31" using ms by blast
    moreover have "x < starts ! Suc m" using lk ms True by simp
    ultimately show ?thesis by linarith
  next
    case False
    then have "m = 11" using m12 by simp
    then have "starts ! m = 334 + (if n = 366 then 1 else 0)" using ms by simp
    then show ?thesis using x n by (cases "n = 366") simp_all
  qed
  then show ?thesis using lk m12 by linarith
qed

lemma utc_of_ms_month_date:
  "1 \<le> dt_month (utc_of_ms t) \<and> dt_month (utc_of_ms t) \<le> 12 \<and>
   1 \<le> dt_date (utc_of_ms t) \<and> dt_date (utc_of_ms t) \<le> 31"
proof -
  define y where "y = year_from_day (t div ms_per_day)"
  define x where "x = t div ms_per_day - day_from_year y"
  have yc: "day_from_year y \<le> t div ms_per_day \<and> t div ms_per_day < day_from_year (y + 1)"
    unfolding y_def by (rule year_from_day_correct)
  have "0 \<le> x" "x < days_in_year y" using yc by (simp_all add: x_def days_in_year_def)
  moreover have "days_in_year y \<le> 366" using days_in_year_bounds by blast
  ultimately have b: "length (filter (\<lambda>s. s \<le> x) (month_starts (days_in_year y = 366))) - 1 < 12 \<and>
      1 \<le> x - month_starts (days_in_year y = 366) ! (length (filter (\<lambda>s. s \<le> x) (month_starts (days_in_year y = 366))) - 1) + 1 \<and>
      x - month_starts (days_in_year y = 366) ! (length (filter (\<lambda>s. s \<le> x) (month_starts (days_in_year y = 366))) - 1) + 1 \<le> 31"
    by (rule month_date_bounds)
  show ?thesis using b unfolding utc_of_ms_def Let_def y_def [symmetric] x_def [symmetric] by simp
qed

text \<open>The calendar fields of two concrete label times, a second count and the same count in milliseconds.\<close>

lemma tick_date_nov_2023:
  "tick_date 1700000000 = \<lparr>dt_year = 2023, dt_month = 11, dt_date = 14, dt_hour = 22, dt_minute = 13\<rparr>"
proof -
  have y: "year_estimate 19675 = 2023" "day_from_year 2023 = 19358" "day_from_year 2024 = 19723"
    by (simp_all add: year_estimate_def day_from_year_def)
  show ?thesis
    by (simp add: tick_date_def utc_of_ms_def ms_per_day_def year_from_day_def y year_up.simps [of 19675 2023]
        days_in_year_def month_starts_def Let_def)
qed

lemma tick_date_ms_2023:
  "tick_date 1700000000000 = \<lparr>dt_year = 55840, dt_month = 11, dt_date = 8, dt_hour = 22, dt_minute = 13\<rparr>"
proof -
  have y: "year_estimate 19675925 = 55840" "day_from_year 55840 = 19675613" "day_from_year 55841 = 19675979"
    by (simp_all add: year_estimate_def day_from_year_def)
  show ?thesis
    by (simp add: tick_date_def utc_of_ms_def ms_per_day_def year_from_day_def y year_up.simps [of 19675925 55840]
        days_in_year_def month_starts_def Let_def)
qed

text \<open>Bounds on YearFromTime of a day on or after the epoch: 365 and 366 days a year.\<close>

lemma int_div_gt: "0 < b \<Longrightarrow> a - b < b * (a div b :: int)"
  using mult_div_mod_eq [of b a] pos_mod_bound [of b a] by linarith

lemma day_from_year_ge_365: "0 \<le> k \<Longrightarrow> 365 * k \<le> day_from_year (1970 + k)"
proof -
  assume k: "0 \<le> k"
  have e: "day_from_year (1970 + k) = 365 * k + (k + 1) div 4 - (k + 69) div 100 + (k + 369) div 400"
    by (simp add: day_from_year_def add.commute)
  have "100 * ((k + 69) div 100) \<le> k + 69" "k + 1 - 4 < 4 * ((k + 1) div 4)"
    by (simp_all add: int_mult_div_le int_div_gt)
  moreover have "0 \<le> (k + 1) div 4" "0 \<le> (k + 369) div 400" using k by simp_all
  ultimately show ?thesis unfolding e by linarith
qed

lemma year_from_day_le: "0 \<le> d \<Longrightarrow> year_from_day d \<le> 1970 + d div 365"
proof (rule ccontr)
  assume d: "0 \<le> d" and "\<not> year_from_day d \<le> 1970 + d div 365"
  then have "1970 + (d div 365 + 1) \<le> year_from_day d" by simp
  then have "day_from_year (1970 + (d div 365 + 1)) \<le> day_from_year (year_from_day d)"
    by (rule day_from_year_mono)
  moreover have "365 * (d div 365 + 1) \<le> day_from_year (1970 + (d div 365 + 1))"
    using d by (intro day_from_year_ge_365) simp
  moreover have "d < 365 * (d div 365 + 1)" using int_div_gt [of 365 d] by simp
  ultimately show False using year_from_day_correct [of d] by linarith
qed

lemma year_from_day_ge: "0 \<le> d \<Longrightarrow> 1970 + d div 366 \<le> year_from_day d"
proof (rule ccontr)
  assume d: "0 \<le> d" and "\<not> 1970 + d div 366 \<le> year_from_day d"
  then have "year_from_day d + 1 \<le> 1970 + d div 366" by simp
  then have "day_from_year (year_from_day d + 1) \<le> day_from_year (1970 + d div 366)"
    by (rule day_from_year_mono)
  moreover have "day_from_year (1970 + d div 366) \<le> 366 * (d div 366)"
    using d by (intro day_from_year_le_366) simp
  moreover have "366 * (d div 366) \<le> d" by (simp add: int_mult_div_le)
  ultimately show False using year_from_day_correct [of d] by linarith
qed

section \<open>Properties\<close>

text \<open>
  Whatever the time, the fields a tick label shows are in range: month 1 to 12, day of
  the month 1 to 31, hour 0 to 23, minute 0 to 59.
\<close>

theorem tick_date_bounds:
  "1 \<le> dt_month (tick_date time) \<and> dt_month (tick_date time) \<le> 12 \<and>
   1 \<le> dt_date (tick_date time) \<and> dt_date (tick_date time) \<le> 31 \<and>
   0 \<le> dt_hour (tick_date time) \<and> dt_hour (tick_date time) < 24 \<and>
   0 \<le> dt_minute (tick_date time) \<and> dt_minute (tick_date time) < 60"
  using utc_of_ms_month_date [of "time * 1000"] by (simp add: tick_date_def utc_of_ms_fields)

text \<open>
  C27: the formatter reads the time it is given as seconds (\<open>dayjs(time * 1000)\<close>), as
  lightweight-charts' UTC timestamps are, but the bars the chart effect hands to the series
  carry millisecond times (\<open>barTime * 1000\<close>): for every bar opened from 1971 on, the
  year on the time axis is later than the year the bar is in.
\<close>

theorem tick_label_of_ms_bar:
  assumes t: "31536000 \<le> t"
  shows "dt_year (utc_of_ms (lb_time (kline_open_bar t r))) < dt_year (tick_date (lb_time (kline_open_bar t r)))"
proof -
  define d where "d = t * 1000 div ms_per_day"
  define D where "D = t * 1000 * 1000 div ms_per_day"
  have d0: "365 \<le> d" using t by (simp add: d_def ms_per_day_def)
  have dD: "1000 * d \<le> D"
  proof -
    have "(1000 * d) * 86400000 \<le> t * 1000 * 1000"
      using int_mult_div_le [of 86400000 "t * 1000"] unfolding d_def ms_per_day_def by linarith
    then have "(1000 * d) * 86400000 div 86400000 \<le> t * 1000 * 1000 div 86400000"
      by (rule zdiv_mono1) simp
    then show ?thesis by (simp add: D_def ms_per_day_def)
  qed
  have y1: "year_from_day d \<le> 1970 + d div 365" using d0 by (intro year_from_day_le) simp
  have y2: "1970 + D div 366 \<le> year_from_day D" using d0 dD by (intro year_from_day_ge) simp
  have q: "d div 365 < D div 366"
    using int_mult_div_le [of 365 d] int_div_gt [of 366 D] d0 dD by linarith
  show ?thesis using y1 y2 q by (simp add: tick_date_def utc_of_ms_fields d_def D_def)
qed

text \<open>
  A chart that is not a birdeye chart and has a pool and a connection starts polling
  for data exactly when its \<open>needRefresh\<close> prop is set or the last mint announced on
  \<open>refreshChartSubject\<close> is its own, non-empty mint.
\<close>

theorem refresh_starts_gate:
  "gate_effect True False (is_need_refresh_data needRefresh (on_refresh_chart mint prev) mintInfo) True =
     (if needRefresh \<or> (mint \<noteq> [] \<and> map_option mi_mint mintInfo = Some mint) then Some gate_init else None)"
  by (cases mintInfo) (auto simp: gate_effect_def gate_init_def is_need_refresh_data_def on_refresh_chart_def)

section \<open>Witnesses\<close>

theorem tick_label_of_ms_bar_witness:
  "31536000 \<le> (1700000000::int) \<and>
   dt_year (utc_of_ms (lb_time (kline_open_bar 1700000000 (example_row 0)))) = 2023 \<and>
   dt_year (tick_date (lb_time (kline_open_bar 1700000000 (example_row 0)))) = 55840 \<and>
   tick_mark_format (lb_time (kline_open_bar 1700000000 (example_row 0))) 0 = ''55840/11''"
proof -
  have a: "utc_of_ms 1700000000000 = tick_date 1700000000" by (simp add: tick_date_def)
  have b: "tick_mark_format 1700000000000 0 = ''55840/11''"
    by (simp add: tick_mark_format_def tick_date_ms_2023 int_str_def pad_start_def nat_str.simps cong: if_weak_cong)
  have "dt_year (utc_of_ms (lb_time (kline_open_bar 1700000000 (example_row 0)))) <
      dt_year (tick_date (lb_time (kline_open_bar 1700000000 (example_row 0))))"
    by (rule tick_label_of_ms_bar) simp
  then show ?thesis using a b by (simp add: tick_date_nov_2023 tick_date_ms_2023)
qed

theorem refresh_starts_gate_witness:
  "gate_effect True False (is_need_refresh_data False (on_refresh_chart ''m'' []) (Some \<lparr>mi_mint = ''m'', mi_supply = 1000, mi_decimals = 6\<rparr>)) True =
     Some gate_init"
  using refresh_starts_gate [of False "''m''" "[]" "Some \<lparr>mi_mint = ''m'', mi_supply = 1000, mi_decimals = 6\<rparr>"] by simp

end
