(* ===== verification/ChartComponent.thy ===== *)
theory ChartComponent
  imports ChartRendering
begin

text \<open>
  The TVChart React component as one state: its props, the state hooks \<open>refreshChartMint\<close>
  and \<open>reloadChartTag\<close>, every instance of the readiness polling effect that has started
  (an instance keeps running its probes after the effect is cleaned up, so stale instances
  stay in the list), the chart effect's refs and the configuration auto-save interval.
  React re-runs an effect, after the cleanup of its previous run, when a value of its
  dependency list changes under \<open>Object.is\<close>: the gate effect depends on
  \<open>isNeedRefreshData\<close>, whose JavaScript value is \<open>true\<close>, \<open>false\<close> or the empty string, and
  the chart effect on \<open>reloadChartTag\<close>. \<open>tv_step\<close> handles an announcement on
  \<open>refreshChartSubject\<close>, an event of one polling instance (with the \<open>Date.now()\<close> its
  reload would store), a page load, a live update and an auto-save tick.
\<close>

section \<open>State and effects\<close>

text \<open>The primitive values \<open>isNeedRefreshData\<close> can take, and their truthiness.\<close>

datatype js_prim = JBool bool | JStr string

definition js_prim_truthy :: "js_prim \<Rightarrow> bool" where
  "js_prim_truthy v = (case v of JBool b \<Rightarrow> b | JStr s \<Rightarrow> s \<noteq> [])"

text \<open>\<open>needRefresh || (refreshChartMint && refreshChartMint === mintInfo?.mint)\<close> as a value.\<close>

definition need_refresh_value :: "bool \<Rightarrow> string \<Rightarrow> mint_info option \<Rightarrow> js_prim" where
  "need_refresh_value needRefresh refreshChartMint mintInfo =
     (if needRefresh then JBool True
      else if refreshChartMint = [] then JStr refreshChartMint
      else JBool (map_option mi_mint mintInfo = Some refreshChartMint))"

record tv_props =
  tp_poolId :: bool
  tp_birdeye :: bool
  tp_needRefresh :: bool
  tp_mintInfo :: "mint_info option"
  tp_connection :: bool
  tp_container :: bool
  tp_savedResolution :: "resolution_string option"
  tp_colorMode :: string

text \<open>The object \<open>saveChartConfig\<close> passes to \<open>updateChartConfig\<close>.\<close>

record chart_config =
  cfg_resolution :: "resolution_string option"
  cfg_theme :: app_theme

record tv_component =
  tc_props :: tv_props
  refreshChartMint :: string
  reloadChartTag :: int
  need_dep :: js_prim
  gates :: "gate_state list"
  gate_live :: bool
  chart :: chart_state
  autosave_on :: bool
  config_saves :: "chart_config list"
  mounted :: bool

text \<open>The cleanup of the last polling instance, the one the previous effect run started.\<close>

definition cleanup_last :: "gate_state list \<Rightarrow> gate_state list" where
  "cleanup_last gs = (if gs = [] then [] else butlast gs @ [gate_step (last gs) Cleanup])"

text \<open>
  The readiness effect (re-)run: the cleanup of the previous run if it started an instance,
  then the guard of the effect body and a new instance.
\<close>

definition gate_effect_rerun :: "tv_component \<Rightarrow> tv_component" where
  "gate_effect_rerun c =
     (let p = tc_props c;
          v = need_refresh_value (tp_needRefresh p) (refreshChartMint c) (tp_mintInfo p);
          gs = (if gate_live c then cleanup_last (gates c) else gates c)
      in case gate_effect (tp_poolId p) (tp_birdeye p) (js_prim_truthy v) (tp_connection p) of
           None \<Rightarrow> c\<lparr>need_dep := v, gates := gs, gate_live := False\<rparr>
         | Some g \<Rightarrow> c\<lparr>need_dep := v, gates := gs @ [g], gate_live := True\<rparr>)"

text \<open>
  The chart effect (re-)run: the cleanup of the previous run when it got past the early
  return (which is when it started the auto-save interval), then the effect body; the
  interval is started exactly when the body gets past its guard.
\<close>

definition chart_effect_rerun :: "tv_component \<Rightarrow> tv_component" where
  "chart_effect_rerun c =
     (let p = tc_props c;
          ready = tp_connection p \<and> tp_poolId p \<and> tp_container p;
          ch = (if autosave_on c then chart_step Teardown (chart c) else chart c)
      in c\<lparr>chart := chart_step (Setup ready (tp_birdeye p)) ch, autosave_on := ready\<rparr>)"

definition tv_mount :: "tv_props \<Rightarrow> tv_component" where
  "tv_mount p =
     chart_effect_rerun (gate_effect_rerun
       \<lparr>tc_props = p, refreshChartMint = [], reloadChartTag = 0, need_dep = JBool False, gates = [],
        gate_live = False, chart = chart_init, autosave_on = False, config_saves = [], mounted = True\<rparr>)"

text \<open>
  Unmounting runs the cleanup of every effect that got past its early return: the readiness
  effect clears its interval, the chart effect clears the auto-save interval, unregisters
  the arrow listener and removes the chart. The \<open>refreshChartSubject\<close> subscription has no
  cleanup; its callback and the callbacks still pending then set the state of an unmounted
  component, which React ignores.
\<close>

definition tv_unmount :: "tv_component \<Rightarrow> tv_component" where
  "tv_unmount c =
     (let c1 = (if gate_live c then c\<lparr>gates := cleanup_last (gates c), gate_live := False\<rparr> else c)
      in c1\<lparr>chart := (if autosave_on c1 then chart_step Teardown (chart c1) else chart c1),
            autosave_on := False, mounted := False\<rparr>)"

datatype tv_event =
    Announce string
  | GateEvent nat gate_event int
  | ChartData "fetch_error + bar list"
  | ChartArrow bar bar
  | AutoSave
  | Unmount

text \<open>
  \<open>setRefreshChartMint\<close> re-renders; the gate effect re-runs when the new value of
  \<open>isNeedRefreshData\<close> differs from the one of its last run. An event of polling instance
  \<open>i\<close> that calls \<open>setReloadChartTag(now)\<close> re-runs the chart effect when \<open>now\<close> differs from
  the tag. \<open>saveChartConfig\<close> stores \<open>savedResolution\<close> and the theme.
\<close>

fun tv_step :: "tv_component \<Rightarrow> tv_event \<Rightarrow> tv_component" where
  "tv_step c (Announce m) =
     (if \<not> mounted c then c
      else
        (let c' = c\<lparr>refreshChartMint := m\<rparr>;
             p = tc_props c
         in if need_refresh_value (tp_needRefresh p) m (tp_mintInfo p) = need_dep c then c'
            else gate_effect_rerun c'))"
| "tv_step c (GateEvent i e now) =
     (if length (gates c) \<le> i then c
      else
        (let g = gates c ! i;
             g' = gate_step g e;
             c' = c\<lparr>gates := (gates c)[i := g']\<rparr>
         in if mounted c \<and> reloads g < reloads g' \<and> now \<noteq> reloadChartTag c
            then chart_effect_rerun (c'\<lparr>reloadChartTag := now\<rparr>)
            else c'))"
| "tv_step c (ChartData res) = c\<lparr>chart := chart_step (Loaded res) (chart c)\<rparr>"
| "tv_step c (ChartArrow prev next) = c\<lparr>chart := chart_step (Arrow prev next) (chart c)\<rparr>"
| "tv_step c AutoSave =
     (if autosave_on c
      then c\<lparr>config_saves := config_saves c @
               [\<lparr>cfg_resolution = tp_savedResolution (tc_props c),
                 cfg_theme = app_theme_of (tp_colorMode (tc_props c))\<rparr>]\<rparr>
      else c)"
| "tv_step c Unmount = (if mounted c then tv_unmount c else c)"

definition tv_run :: "tv_component \<Rightarrow> tv_event list \<Rightarrow> tv_component" where
  "tv_run c es = fold (\<lambda>e c. tv_step c e) es c"

inductive tv_reachable :: "tv_component \<Rightarrow> bool" where
  mount: "tv_reachable (tv_mount p)"
| step: "tv_reachable c \<Longrightarrow> tv_reachable (tv_step c e)"

text \<open>
  The component invariant: the chart invariant; the auto-save interval runs exactly while a
  chart is live; every polling instance keeps the gate invariant; only the instance of the
  current effect run may still poll; \<open>need_dep\<close> is the value of \<open>isNeedRefreshData\<close>
  in the current render; and an unmounted component has no effect run left.
\<close>

definition tv_core_inv :: "tv_component \<Rightarrow> bool" where
  "tv_core_inv c \<longleftrightarrow>
     chart_inv (chart c) \<and> autosave_on c = chart_live (chart c) \<and>
     list_all gate_inv (gates c) \<and>
     list_all (\<lambda>g. \<not> interval_active g) (if gate_live c then butlast (gates c) else gates c) \<and>
     (gate_live c \<longrightarrow> gates c \<noteq> [])"

definition tv_inv :: "tv_component \<Rightarrow> bool" where
  "tv_inv c \<longleftrightarrow> tv_core_inv c \<and>
     need_dep c = need_refresh_value (tp_needRefresh (tc_props c)) (refreshChartMint c) (tp_mintInfo (tc_props c)) \<and>
     (\<not> mounted c \<longrightarrow> \<not> gate_live c \<and> \<not> autosave_on c)"

declare js_prim_truthy_def [model_defs] need_refresh_value_def [model_defs] cleanup_last_def [model_defs]
  gate_effect_rerun_def [model_defs] chart_effect_rerun_def [model_defs] tv_mount_def [model_defs]
  tv_unmount_def [model_defs]
  tv_run_def [model_defs]

section \<open>Example inputs\<close>

text \<open>
  A ready, non-birdeye chart of mint \<open>m\<close> without \<open>needRefresh\<close>; the state after \<open>m\<close> is
  announced (one polling instance); after one tick and the announcement of another mint
  (the instance cleaned up with its probe in flight).
\<close>

abbreviation tv_example_props :: tv_props where
  "tv_example_props \<equiv>
     \<lparr>tp_poolId = True, tp_birdeye = False, tp_needRefresh = False,
      tp_mintInfo = Some \<lparr>mi_mint = ''m'', mi_supply = 1000, mi_decimals = 6\<rparr>, tp_connection = True,
      tp_container = True, tp_savedResolution = None, tp_colorMode = ''dark''\<rparr>"

abbreviation tv_polling :: tv_component where
  "tv_polling \<equiv> tv_step (tv_mount tv_example_props) (Announce ''m'')"

abbreviation tv_stale :: tv_component where
  "tv_stale \<equiv> tv_step (tv_step tv_polling (GateEvent 0 Tick 1)) (Announce ''x'')"

section \<open>Lemmas\<close>

lemma list_all_update: "list_all P xs \<Longrightarrow> P x \<Longrightarrow> list_all P (xs[i := x])"
  by (auto simp: list_all_iff dest: set_update_subset_insert [THEN subsetD])

lemma filter_le_one_butlast:
  "list_all (\<lambda>g. \<not> P g) (butlast xs) \<Longrightarrow> length (filter P xs) \<le> 1"
  by (cases xs rule: rev_cases) (auto simp: list_all_iff filter_empty_conv)

lemma cleanup_last_length [simp]: "length (cleanup_last gs) = length gs"
  by (simp add: cleanup_last_def)

lemma cleanup_last_inactive:
  "list_all (\<lambda>g. \<not> interval_active g) (butlast gs) \<Longrightarrow>
   list_all (\<lambda>g. \<not> interval_active g) (cleanup_last gs)"
  by (cases gs rule: rev_cases) (simp_all add: cleanup_last_def)

lemma cleanup_last_inv: "list_all gate_inv gs \<Longrightarrow> list_all gate_inv (cleanup_last gs)"
  by (cases gs rule: rev_cases) (auto simp: cleanup_last_def gate_inv_def)

lemma tv_core_inv_upd [simp]:
  "tv_core_inv (c\<lparr>refreshChartMint := m\<rparr>) = tv_core_inv c"
  "tv_core_inv (c\<lparr>reloadChartTag := t\<rparr>) = tv_core_inv c"
  "tv_core_inv (c\<lparr>config_saves := cs\<rparr>) = tv_core_inv c"
  by (simp_all add: tv_core_inv_def)

lemma gate_effect_Some: "gate_effect a b v d = Some g \<Longrightarrow> g = gate_init"
  by (auto simp: gate_effect_def gate_init_def split: if_splits)

lemma gate_init_inv: "gate_inv gate_init"
  by (simp add: gate_inv_def gate_init_def)

lemma rerun_mounted [simp]:
  "mounted (gate_effect_rerun c) = mounted c" "mounted (chart_effect_rerun c) = mounted c"
  by (simp_all add: gate_effect_rerun_def chart_effect_rerun_def Let_def split: option.splits)

text \<open>The cleanup of the readiness effect leaves no instance polling.\<close>

lemma gate_cleanup:
  assumes "tv_core_inv c"
  shows "list_all (\<lambda>g. \<not> interval_active g) (if gate_live c then cleanup_last (gates c) else gates c) \<and>
         list_all gate_inv (if gate_live c then cleanup_last (gates c) else gates c)"
  using assms cleanup_last_inactive cleanup_last_inv by (auto simp: tv_core_inv_def)

lemma gate_effect_rerun_inv:
  assumes "tv_core_inv c" and "mounted c"
  shows "tv_inv (gate_effect_rerun c)"
proof -
  define gs where "gs = (if gate_live c then cleanup_last (gates c) else gates c)"
  have ab: "list_all (\<lambda>g. \<not> interval_active g) gs" "list_all gate_inv gs"
    using gate_cleanup [OF assms(1)] by (simp_all add: gs_def)
  show ?thesis
    using assms ab gate_init_inv
    unfolding gate_effect_rerun_def Let_def gs_def [symmetric]
    by (auto simp: tv_inv_def tv_core_inv_def dest: gate_effect_Some split: option.splits)
qed

lemma chart_live_data:
  "chart_live (load_data r st) = chart_live st"
  "chart_live (arrow_listener p n st) = chart_live st"
  by (auto simp: load_data_def arrow_listener_def Let_def split: sum.splits)

lemma chart_data_inv: "chart_inv st \<Longrightarrow> chart_inv (load_data r st)"
  using chart_step_inv [of st "Loaded r"] by simp

lemma chart_arrow_inv:
  "chart_inv st \<Longrightarrow> chart_inv (if arrow_listener_on st then arrow_listener p n st else st)"
  using chart_step_inv [of st "Arrow p n"] by simp

text \<open>The cleanup of the chart effect leaves no chart live.\<close>

lemma chart_cleanup:
  assumes c: "tv_core_inv c"
  shows "chart_inv (if autosave_on c then chart_step Teardown (chart c) else chart c) \<and>
         \<not> chart_live (if autosave_on c then chart_step Teardown (chart c) else chart c)"
proof -
  have i: "chart_inv (chart c)" and a: "autosave_on c = chart_live (chart c)"
    using c by (simp_all add: tv_core_inv_def)
  have t: "\<not> chart_live (chart_step Teardown (chart c))" by (simp add: chart_teardown_def)
  show ?thesis using i a t chart_step_inv [of "chart c" Teardown] by (simp del: chart_step.simps)
qed

lemma chart_effect_rerun_inv:
  assumes c: "tv_inv c" and m: "mounted c"
  shows "tv_inv (chart_effect_rerun c)"
proof -
  let ?p = "tc_props c"
  let ?ready = "tp_connection ?p \<and> tp_poolId ?p \<and> tp_container ?p"
  define ch where "ch = (if autosave_on c then chart_step Teardown (chart c) else chart c)"
  have ch: "chart_inv ch" "\<not> chart_live ch"
    using chart_cleanup [of c] c by (simp_all add: ch_def tv_inv_def del: chart_step.simps)
  have "chart_inv (chart_step (Setup ?ready (tp_birdeye ?p)) ch)" using ch(1) by (rule chart_step_inv)
  moreover have "chart_live (chart_step (Setup ?ready (tp_birdeye ?p)) ch) = ?ready"
    using ch(2) by (simp add: chart_setup_def)
  ultimately show ?thesis using c m
    unfolding chart_effect_rerun_def Let_def ch_def [symmetric]
    by (auto simp: tv_inv_def tv_core_inv_def simp del: chart_step.simps split: if_splits)
qed

lemma tv_unmount_inv:
  assumes c: "tv_inv c"
  shows "tv_inv (tv_unmount c)"
proof -
  define gs where "gs = (if gate_live c then cleanup_last (gates c) else gates c)"
  define ch where "ch = (if autosave_on c then chart_step Teardown (chart c) else chart c)"
  have core: "tv_core_inv c" using c by (simp add: tv_inv_def)
  have g: "list_all (\<lambda>g. \<not> interval_active g) gs" "list_all gate_inv gs"
    using gate_cleanup [OF core] by (simp_all add: gs_def)
  have ch: "chart_inv ch" "\<not> chart_live ch"
    using chart_cleanup [OF core] by (simp_all add: ch_def del: chart_step.simps)
  have u: "tv_unmount c = c\<lparr>gates := gs, gate_live := False, chart := ch, autosave_on := False, mounted := False\<rparr>"
    by (simp add: tv_unmount_def Let_def gs_def ch_def del: chart_step.simps)
  show ?thesis using c g ch unfolding u by (simp add: tv_inv_def tv_core_inv_def)
qed

lemma tv_core_gate_update:
  assumes c: "tv_core_inv c" and i: "i < length (gates c)"
  shows "tv_core_inv (c\<lparr>gates := (gates c)[i := gate_step (gates c ! i) e]\<rparr>)"
proof -
  let ?gs = "gates c" and ?g' = "gate_step (gates c ! i) e"
  have gi: "gate_inv (gates c ! i)" using c i by (simp add: tv_core_inv_def list_all_length)
  have inv: "list_all gate_inv (?gs[i := ?g'])"
    using c gi by (simp add: tv_core_inv_def list_all_update gate_step_inv)
  have stop: "\<not> interval_active ?g'" if "\<not> interval_active (gates c ! i)"
    using gate_step_inactive that by blast
  have "list_all (\<lambda>g. \<not> interval_active g) (if gate_live c then butlast (?gs[i := ?g']) else ?gs[i := ?g'])"
  proof (cases "gate_live c")
    case True
    then have bl: "list_all (\<lambda>g. \<not> interval_active g) (butlast ?gs)" using c by (simp add: tv_core_inv_def)
    show ?thesis
    proof (cases "i = length ?gs - 1")
      case False
      then have "i < length (butlast ?gs)" using i by simp
      then have "\<not> interval_active (gates c ! i)" using bl by (simp add: list_all_length nth_butlast)
      then show ?thesis using True bl False stop by (simp add: butlast_list_update list_all_update)
    qed (simp add: True bl butlast_list_update)
  next
    case False
    then have al: "list_all (\<lambda>g. \<not> interval_active g) ?gs" using c by (simp add: tv_core_inv_def)
    then have "\<not> interval_active (gates c ! i)" using i by (simp add: list_all_length)
    then show ?thesis using False al stop by (simp add: list_all_update)
  qed
  then show ?thesis using c inv by (auto simp: tv_core_inv_def split: if_splits)
qed

lemma tv_step_inv: "tv_inv c \<Longrightarrow> tv_inv (tv_step c e)"
proof (cases e)
  case (Announce m)
  assume c: "tv_inv c"
  show ?thesis
  proof (cases "mounted c")
    case True
    have "tv_core_inv (c\<lparr>refreshChartMint := m\<rparr>)" using c by (simp add: tv_inv_def)
    then show ?thesis using c True Announce gate_effect_rerun_inv by (auto simp: tv_inv_def Let_def)
  qed (simp add: Announce c)
next
  case (GateEvent i ge now)
  assume c: "tv_inv c"
  show ?thesis
  proof (cases "i < length (gates c)")
    case True
    let ?c' = "c\<lparr>gates := (gates c)[i := gate_step (gates c ! i) ge]\<rparr>"
    have "tv_core_inv ?c'" using c True tv_core_gate_update by (simp add: tv_inv_def)
    then have c': "tv_inv ?c'" "tv_inv (?c'\<lparr>reloadChartTag := now\<rparr>)" using c
      by (simp_all add: tv_inv_def)
    show ?thesis using GateEvent True c' chart_effect_rerun_inv by (simp add: Let_def)
  qed (simp add: GateEvent c)
next
  case Unmount
  assume c: "tv_inv c"
  then show ?thesis using Unmount tv_unmount_inv by simp
qed (auto simp: tv_inv_def tv_core_inv_def chart_data_inv chart_arrow_inv chart_live_data split: if_splits)

lemma tv_mount_inv: "tv_inv (tv_mount p)"
proof -
  let ?c0 = "\<lparr>tc_props = p, refreshChartMint = [], reloadChartTag = 0, need_dep = JBool False, gates = [],
        gate_live = False, chart = chart_init, autosave_on = False, config_saves = [], mounted = True\<rparr>"
  have "tv_core_inv ?c0" by (simp add: tv_core_inv_def chart_inv_def chart_init_def)
  then show ?thesis unfolding tv_mount_def by (intro chart_effect_rerun_inv gate_effect_rerun_inv) simp_all
qed

lemma tv_reachable_inv: "tv_reachable c \<Longrightarrow> tv_inv c"
  by (induction rule: tv_reachable.induct) (simp_all add: tv_mount_inv tv_step_inv)


lemma tv_reachable_run: "tv_reachable c \<Longrightarrow> tv_reachable (tv_run c es)"
  by (induction es arbitrary: c) (simp_all add: tv_run_def tv_reachable.step)

lemma tv_core_inactive_butlast:
  "tv_core_inv c \<Longrightarrow> list_all (\<lambda>g. \<not> interval_active g) (butlast (gates c))"
  by (auto simp: tv_core_inv_def list_all_iff dest: in_set_butlastD split: if_splits)

lemma gate_effect_rerun_falsy:
  assumes "tv_core_inv c"
    and "\<not> js_prim_truthy (need_refresh_value (tp_needRefresh (tc_props c)) (refreshChartMint c) (tp_mintInfo (tc_props c)))"
  shows "\<not> gate_live (gate_effect_rerun c) \<and> list_all (\<lambda>g. \<not> interval_active g) (gates (gate_effect_rerun c)) \<and>
         chart (gate_effect_rerun c) = chart c \<and> reloadChartTag (gate_effect_rerun c) = reloadChartTag c"
proof -
  have "list_all (\<lambda>g. \<not> interval_active g) (if gate_live c then cleanup_last (gates c) else gates c)"
    using assms(1) cleanup_last_inactive tv_core_inactive_butlast by (auto simp: tv_core_inv_def)
  then show ?thesis using assms(2) by (simp add: gate_effect_rerun_def Let_def gate_effect_def)
qed

lemma tv_step_unmounted:
  assumes "tv_inv c" and "\<not> mounted c"
  shows "\<not> mounted (tv_step c e) \<and> config_saves (tv_step c e) = config_saves c \<and>
         reloadChartTag (tv_step c e) = reloadChartTag c"
  using assms by (cases e) (auto simp: tv_inv_def Let_def)

lemma tv_run_unmounted:
  "tv_inv c \<Longrightarrow> \<not> mounted c \<Longrightarrow>
   tv_inv (tv_run c es) \<and> \<not> mounted (tv_run c es) \<and> config_saves (tv_run c es) = config_saves c \<and>
   reloadChartTag (tv_run c es) = reloadChartTag c"
proof (induction es arbitrary: c)
  case (Cons e es)
  have "tv_inv (tv_step c e)" using Cons.prems(1) by (rule tv_step_inv)
  moreover have "\<not> mounted (tv_step c e) \<and> config_saves (tv_step c e) = config_saves c \<and>
      reloadChartTag (tv_step c e) = reloadChartTag c"
    using Cons.prems by (rule tv_step_unmounted)
  ultimately show ?case using Cons.IH [of "tv_step c e"] by (simp add: tv_run_def)
qed (simp add: tv_run_def)

section \<open>Properties\<close>

text \<open>
  C11: in every reachable state of the component, at most one polling interval runs (every
  earlier instance has been cleaned up), the configuration auto-save interval runs exactly
  while a chart is live, and the arrow listener is only registered while a chart is live.
\<close>

theorem tv_reachable_single_poller:
  assumes "tv_reachable c"
  shows "length (filter interval_active (gates c)) \<le> 1 \<and> autosave_on c = chart_live (chart c) \<and>
         (arrow_listener_on (chart c) \<longrightarrow> chart_live (chart c))"
proof -
  have c: "tv_core_inv c" using tv_reachable_inv [OF assms] by (simp add: tv_inv_def)
  then have "length (filter interval_active (gates c)) \<le> 1"
    using filter_le_one_butlast tv_core_inactive_butlast by blast
  then show ?thesis using c by (simp add: tv_core_inv_def chart_inv_def)
qed

text \<open>
  C13: when a probe of any polling instance finds data, whether or not that instance has
  been cleaned up, \<open>setReloadChartTag(now)\<close> re-runs the chart effect: for a ready,
  non-birdeye chart the chart is rebuilt live with empty series and the listener
  registered, and \<open>lastBarRef\<close> keeps the previous bar.
\<close>

theorem tv_probe_data_rebuilds_chart:
  assumes m: "mounted c" and i: "i < length (gates c)" and pend: "0 < probes_pending (gates c ! i)"
    and found: "check_data resp" and now: "now \<noteq> reloadChartTag c"
    and ready: "tp_connection (tc_props c) \<and> tp_poolId (tc_props c) \<and> tp_container (tc_props c)"
    and nb: "\<not> tp_birdeye (tc_props c)"
  shows "reloadChartTag (tv_step c (GateEvent i (ProbeResolved resp) now)) = now \<and>
         chart_live (chart (tv_step c (GateEvent i (ProbeResolved resp) now))) \<and>
         arrow_listener_on (chart (tv_step c (GateEvent i (ProbeResolved resp) now))) \<and>
         candle_data (chart (tv_step c (GateEvent i (ProbeResolved resp) now))) = [] \<and>
         candle_updates (chart (tv_step c (GateEvent i (ProbeResolved resp) now))) = [] \<and>
         lastBarRef (chart (tv_step c (GateEvent i (ProbeResolved resp) now))) = lastBarRef (chart c) \<and>
         autosave_on (tv_step c (GateEvent i (ProbeResolved resp) now))"
proof -
  have "reloads (gates c ! i) < reloads (gate_step (gates c ! i) (ProbeResolved resp))"
    using pend found by (simp add: Let_def)
  then show ?thesis using m i now ready nb
    by (simp add: Let_def chart_effect_rerun_def chart_setup_def chart_teardown_def)
qed

text \<open>
  C14: while a chart polls because the last announced mint is its own, an announcement of
  any other mint (the empty string included) changes \<open>isNeedRefreshData\<close> to a falsy value:
  the effect's cleanup stops the interval and no new poll starts, so no polling instance
  runs afterwards and the chart is not reloaded.
\<close>

theorem tv_announce_other_mint_stops_polling:
  assumes r: "tv_reachable c" and nr: "\<not> tp_needRefresh (tc_props c)"
    and own: "map_option mi_mint (tp_mintInfo (tc_props c)) = Some (refreshChartMint c)"
    and ne: "refreshChartMint c \<noteq> []" and other: "m \<noteq> refreshChartMint c"
  shows "\<not> gate_live (tv_step c (Announce m)) \<and>
         list_all (\<lambda>g. \<not> interval_active g) (gates (tv_step c (Announce m))) \<and>
         chart (tv_step c (Announce m)) = chart c \<and> reloadChartTag (tv_step c (Announce m)) = reloadChartTag c"
proof (cases "mounted c")
  case False
  have "tv_inv c" by (rule tv_reachable_inv [OF r])
  then show ?thesis using False by (auto simp: tv_inv_def tv_core_inv_def split: if_splits)
next
  case True
  have inv: "tv_inv c" by (rule tv_reachable_inv [OF r])
  then have dep: "need_dep c = JBool True" using nr own ne by (simp add: tv_inv_def need_refresh_value_def)
  let ?v = "need_refresh_value (tp_needRefresh (tc_props c)) m (tp_mintInfo (tc_props c))"
  have falsy: "\<not> js_prim_truthy ?v" using nr own other by (auto simp: need_refresh_value_def js_prim_truthy_def)
  then have "?v \<noteq> need_dep c" using dep by (auto simp: js_prim_truthy_def)
  moreover have "tv_core_inv (c\<lparr>refreshChartMint := m\<rparr>)" using inv by (simp add: tv_inv_def)
  ultimately show ?thesis using True gate_effect_rerun_falsy [of "c\<lparr>refreshChartMint := m\<rparr>"] falsy
    by (simp add: Let_def)
qed

text \<open>
  C15: once the component has unmounted, nothing it started acts any more: whatever events
  still arrive (the answer of a probe in flight, an announcement on the subject, which is
  never unsubscribed, a tick of any interval), the configuration is not saved again, the
  reload tag does not change, no polling interval runs, no chart is live and the arrow
  listener stays unregistered.
\<close>

theorem tv_unmount_stops_everything:
  assumes r: "tv_reachable c" and u: "\<not> mounted c"
  shows "config_saves (tv_run c es) = config_saves c \<and> reloadChartTag (tv_run c es) = reloadChartTag c \<and>
         list_all (\<lambda>g. \<not> interval_active g) (gates (tv_run c es)) \<and>
         \<not> chart_live (chart (tv_run c es)) \<and> \<not> arrow_listener_on (chart (tv_run c es))"
proof -
  have inv: "tv_inv c" by (rule tv_reachable_inv [OF r])
  have run: "tv_inv (tv_run c es) \<and> \<not> mounted (tv_run c es) \<and> config_saves (tv_run c es) = config_saves c \<and>
      reloadChartTag (tv_run c es) = reloadChartTag c"
    using inv u by (rule tv_run_unmounted)
  then show ?thesis by (auto simp: tv_inv_def tv_core_inv_def chart_inv_def split: if_splits)
qed

section \<open>Witnesses\<close>

lemma tv_polling_reachable: "tv_reachable tv_polling"
  by (rule tv_reachable.step [OF tv_reachable.mount])

lemma tv_stale_reachable: "tv_reachable tv_stale"
  by (intro tv_reachable.step tv_reachable.mount)

theorem tv_reachable_single_poller_witness:
  "length (filter interval_active (gates tv_stale)) \<le> 1 \<and> autosave_on tv_stale = chart_live (chart tv_stale) \<and>
   arrow_listener_on (chart tv_stale) \<and> chart_live (chart tv_stale)"
  using tv_reachable_single_poller [OF tv_stale_reachable] by (simp add: model_defs)

theorem tv_probe_data_rebuilds_chart_witness:
  "0 < length (gates tv_stale) \<and> 0 < probes_pending (gates tv_stale ! 0) \<and> torn_down (gates tv_stale ! 0) \<and>
   reloadChartTag (tv_step tv_stale (GateEvent 0 (ProbeResolved (ProbeRows 1)) 7)) = 7 \<and>
   chart_live (chart (tv_step tv_stale (GateEvent 0 (ProbeResolved (ProbeRows 1)) 7))) \<and>
   arrow_listener_on (chart (tv_step tv_stale (GateEvent 0 (ProbeResolved (ProbeRows 1)) 7)))"
  using tv_probe_data_rebuilds_chart [of tv_stale 0 "ProbeRows 1" 7] by (simp add: model_defs)

theorem tv_announce_other_mint_stops_polling_witness:
  "interval_active (gates tv_polling ! 0) \<and> \<not> gate_live (tv_step tv_polling (Announce ''x'')) \<and>
   list_all (\<lambda>g. \<not> interval_active g) (gates (tv_step tv_polling (Announce ''x'')))"
  using tv_announce_other_mint_stops_polling [OF tv_polling_reachable, of "''x''"] by (simp add: model_defs)

theorem tv_unmount_stops_everything_witness:
  "config_saves (tv_run (tv_step (tv_step tv_polling (GateEvent 0 Tick 1)) Unmount)
      [GateEvent 0 (ProbeResolved (ProbeRows 1)) 9, AutoSave, Announce ''x'', Announce ''m'', GateEvent 0 Tick 10]) = [] \<and>
   reloadChartTag (tv_run (tv_step (tv_step tv_polling (GateEvent 0 Tick 1)) Unmount)
      [GateEvent 0 (ProbeResolved (ProbeRows 1)) 9, AutoSave, Announce ''x'', Announce ''m'', GateEvent 0 Tick 10]) = 0 \<and>
   \<not> chart_live (chart (tv_run (tv_step (tv_step tv_polling (GateEvent 0 Tick 1)) Unmount)
      [GateEvent 0 (ProbeResolved (ProbeRows 1)) 9, AutoSave, Announce ''x'', Announce ''m'', GateEvent 0 Tick 10]))"
proof -
  have r: "tv_reachable (tv_step (tv_step tv_polling (GateEvent 0 Tick 1)) Unmount)"
    by (intro tv_reachable.step tv_reachable.mount)
  show ?thesis
    using tv_unmount_stops_everything [OF r, of "[GateEvent 0 (ProbeResolved (ProbeRows 1)) 9, AutoSave,
        Announce ''x'', Announce ''m'', GateEvent 0 Tick 10]"]
    by (simp add: model_defs)
qed

end
