(* ===== verification/Orchestrator.thy ===== *)
theory Orchestrator
  imports Datafeed "HOL-Library.AList"
begin

text \<open>
  The public face of \<open>DataFeed\<close> (datafeed.ts) around \<open>getBars\<close>: the constructor,
  \<open>resolveSymbol\<close>, \<open>subscribeBars\<close> and \<open>unsubscribeBars\<close>, over one state that holds the
  module-level cursor and cache of Datafeed.thy together with the state of the streaming
  module they call. streaming.ts is not part of the sources: its socket, its subscription
  table and the live bar merger are modelled from the specification (the socket as the list
  of pools with an open socket, the table as an association list keyed by subscriber id,
  the merger as the decision rule of the live-bar section). \<open>orch_step\<close> runs one call or
  one live event, \<open>orch_reachable\<close> is every sequence of them.
\<close>

section \<open>The DataFeed instance\<close>

record token_info =
  tk_symbol :: string
  tk_address :: string
  tk_decimals :: nat

record launch_mint =
  lm_mint :: string
  lm_symbol :: string
  lm_decimals :: nat
  lm_mintB :: "token_info option"

record datafeed =
  df_mintInfo :: "launch_mint option"
  df_mintBInfo :: "token_info option"
  df_curveType :: "nat option"

definition datafeed_new :: "launch_mint option \<Rightarrow> token_info option \<Rightarrow> nat option \<Rightarrow> datafeed" where
  "datafeed_new mintInfo mintBInfo curveType =
     \<lparr>df_mintInfo = mintInfo,
      df_mintBInfo = (case mintInfo of
                        Some mi \<Rightarrow> (case lm_mintB mi of Some b \<Rightarrow> Some b | None \<Rightarrow> mintBInfo)
                      | None \<Rightarrow> mintBInfo),
      df_curveType = curveType\<rparr>"

section \<open>The streaming module\<close>

record stream_sub =
  sub_pool :: string
  sub_resolution :: resolution_string
  sub_curveType :: nat
  sub_mintBDecimals :: "nat option"
  sub_lastBar :: "bar option"

record orch_state =
  feed :: feed_state
  sockets :: "string list"
  subs :: "(string \<times> stream_sub) list"
  delivered :: "(string \<times> bar) list"

definition orch_init :: orch_state where
  "orch_init = \<lparr>feed = \<lparr>nextPageKey = None, lastBarsCache = Map.empty\<rparr>, sockets = [], subs = [], delivered = []\<rparr>"

definition close_socket :: "orch_state \<Rightarrow> orch_state" where
  "close_socket st = st\<lparr>sockets := []\<rparr>"

definition start_socket :: "string \<Rightarrow> orch_state \<Rightarrow> orch_state" where
  "start_socket pool st = st\<lparr>sockets := sockets st @ [pool]\<rparr>"

definition subscribe_on_stream :: "string \<Rightarrow> stream_sub \<Rightarrow> orch_state \<Rightarrow> orch_state" where
  "subscribe_on_stream uid sub st = st\<lparr>subs := AList.update uid sub (subs st)\<rparr>"

definition unsubscribe_from_stream :: "string \<Rightarrow> orch_state \<Rightarrow> orch_state" where
  "unsubscribe_from_stream uid st = st\<lparr>subs := AList.delete uid (subs st)\<rparr>"

text \<open>
  The live-bar rule: an event in the bucket of the current bar updates its close, high and
  low; an event in a later bucket starts a new bar; an older one is dropped. The second
  component is the bar handed to the subscriber's callback, if any.
\<close>

definition live_merge :: "bar \<Rightarrow> bar option \<Rightarrow> bar option \<times> bar option" where
  "live_merge ev cur =
     (case cur of
        None \<Rightarrow> (Some ev, Some ev)
      | Some cb \<Rightarrow>
          if lb_time ev = lb_time cb then
            (let b = cb\<lparr>lb_close := lb_close ev, lb_high := max (lb_high cb) (lb_high ev),
                        lb_low := min (lb_low cb) (lb_low ev)\<rparr>
             in (Some b, Some b))
          else if lb_time cb < lb_time ev then (Some ev, Some ev)
          else (cur, None))"

definition on_live_event :: "string \<Rightarrow> bar \<Rightarrow> orch_state \<Rightarrow> orch_state" where
  "on_live_event uid ev st =
     (case map_of (subs st) uid of
        None \<Rightarrow> st
      | Some sub \<Rightarrow>
          (let (cur, out) = live_merge ev (sub_lastBar sub)
           in st\<lparr>subs := AList.update uid (sub\<lparr>sub_lastBar := cur\<rparr>) (subs st),
                 delivered := delivered st @ (case out of None \<Rightarrow> [] | Some b \<Rightarrow> [(uid, b)])\<rparr>))"

section \<open>resolveSymbol, subscribeBars, unsubscribeBars\<close>

datatype resolve_error = CannotResolveSymbol string

definition resolve_symbol :: "datafeed \<Rightarrow> string \<Rightarrow> orch_state \<Rightarrow> (resolve_error + symbol_info) \<times> orch_state" where
  "resolve_symbol df symbolName st =
     (case df_mintInfo df of
        None \<Rightarrow> (Inl (CannotResolveSymbol ''cannot resolve symbol''), st)
      | Some mi \<Rightarrow>
          (let decimals = 9 + lm_decimals mi div 2;
               symbolInfo = \<lparr>si_poolId = symbolName, si_exchange = ''Raydium'',
                             si_decimals = decimals, si_pricescale = 10 ^ decimals\<rparr>
           in (Inr symbolInfo, start_socket symbolName (close_socket st))))"

definition subscribe_bars ::
  "datafeed \<Rightarrow> symbol_info \<Rightarrow> resolution_string \<Rightarrow> string \<Rightarrow> orch_state \<Rightarrow> orch_state" where
  "subscribe_bars df symbolInfo resolution uid st =
     (if si_exchange symbolInfo = ''birdeye'' then st
      else subscribe_on_stream uid
             \<lparr>sub_pool = si_poolId symbolInfo, sub_resolution = resolution,
              sub_curveType = (case df_curveType df of Some c \<Rightarrow> c | None \<Rightarrow> 0),
              sub_mintBDecimals = map_option tk_decimals (df_mintBInfo df),
              sub_lastBar = lastBarsCache (feed st) (si_poolId symbolInfo)\<rparr> st)"

definition unsubscribe_bars :: "string \<Rightarrow> orch_state \<Rightarrow> orch_state" where
  "unsubscribe_bars uid st = unsubscribe_from_stream uid st"

definition get_bars_call ::
  "price \<Rightarrow> kline_api \<Rightarrow> symbol_info \<Rightarrow> resolution_string \<Rightarrow> bool \<Rightarrow> orch_state \<Rightarrow>
   history_callback \<times> orch_state" where
  "get_bars_call ip api symbolInfo resolution first st =
     (case get_bars ip api symbolInfo resolution first (feed st) of
        (f, cb, reqs) \<Rightarrow> (cb, st\<lparr>feed := f\<rparr>))"

section \<open>Calls and events\<close>

datatype orch_event =
    Resolve string
  | GetBars symbol_info resolution_string bool
  | Subscribe symbol_info resolution_string string
  | Unsubscribe string
  | Live string bar
  | CloseChart

fun orch_step :: "datafeed \<Rightarrow> price \<Rightarrow> kline_api \<Rightarrow> orch_event \<Rightarrow> orch_state \<Rightarrow> orch_state" where
  "orch_step df ip api (Resolve name) st = snd (resolve_symbol df name st)"
| "orch_step df ip api (GetBars si r first) st = snd (get_bars_call ip api si r first st)"
| "orch_step df ip api (Subscribe si r uid) st = subscribe_bars df si r uid st"
| "orch_step df ip api (Unsubscribe uid) st = unsubscribe_bars uid st"
| "orch_step df ip api (Live uid ev) st = on_live_event uid ev st"
| "orch_step df ip api CloseChart st = close_socket st"

inductive orch_reachable :: "datafeed \<Rightarrow> price \<Rightarrow> kline_api \<Rightarrow> orch_state \<Rightarrow> bool"
  for df ip api where
  init: "orch_reachable df ip api orch_init"
| step: "orch_reachable df ip api st \<Longrightarrow> orch_reachable df ip api (orch_step df ip api e st)"

text \<open>One socket at most, and one subscription per subscriber id.\<close>

definition orch_inv :: "orch_state \<Rightarrow> bool" where
  "orch_inv st \<longleftrightarrow> length (sockets st) \<le> 1 \<and> distinct (map fst (subs st))"

text \<open>The bars a consumer shows after a sequence of live updates: same time replaces, else appends.\<close>

definition consumer_apply :: "bar list \<Rightarrow> bar \<Rightarrow> bar list" where
  "consumer_apply bars b =
     (if bars \<noteq> [] \<and> lb_time (last bars) = lb_time b then butlast bars @ [b] else bars @ [b])"

definition live_step :: "bar option \<times> bar list \<Rightarrow> bar \<Rightarrow> bar option \<times> bar list" where
  "live_step acc ev =
     (case acc of (c, out) \<Rightarrow>
        (case live_merge ev c of (c', emitted) \<Rightarrow> (c', out @ (case emitted of None \<Rightarrow> [] | Some b \<Rightarrow> [b]))))"

definition live_run :: "bar list \<Rightarrow> bar option \<Rightarrow> bar option \<times> bar list" where
  "live_run evs cur = fold (\<lambda>ev acc. live_step acc ev) evs (cur, [])"

declare datafeed_new_def [model_defs] orch_init_def [model_defs] close_socket_def [model_defs]
  start_socket_def [model_defs] subscribe_on_stream_def [model_defs] unsubscribe_from_stream_def [model_defs]
  live_merge_def [model_defs] on_live_event_def [model_defs] resolve_symbol_def [model_defs]
  subscribe_bars_def [model_defs] unsubscribe_bars_def [model_defs] get_bars_call_def [model_defs]
  orch_inv_def [model_defs] consumer_apply_def [model_defs] live_step_def [model_defs] live_run_def [model_defs]

section \<open>Example inputs\<close>

abbreviation live_bar :: "millis \<Rightarrow> price \<Rightarrow> price \<Rightarrow> price \<Rightarrow> price \<Rightarrow> bar" where
  "live_bar t op h l c \<equiv> \<lparr>lb_time = t, lb_open = op, lb_high = h, lb_low = l, lb_close = c, lb_volume = None\<rparr>"

abbreviation example_mint :: launch_mint where
  "example_mint \<equiv> \<lparr>lm_mint = ''mintA'', lm_symbol = ''TKN'', lm_decimals = 6, lm_mintB = None\<rparr>"

abbreviation example_feed :: datafeed where
  "example_feed \<equiv> datafeed_new (Some example_mint) None None"

section \<open>Lemmas\<close>

lemma get_bars_call_streams [simp]:
  "sockets (snd (get_bars_call ip api si r first st)) = sockets st"
  "subs (snd (get_bars_call ip api si r first st)) = subs st"
  "delivered (snd (get_bars_call ip api si r first st)) = delivered st"
  by (simp_all add: get_bars_call_def split: prod.splits)

lemma get_bars_call_feed:
  "get_bars ip api si r first (feed st) = (f, cb, reqs) \<Longrightarrow> get_bars_call ip api si r first st = (cb, st\<lparr>feed := f\<rparr>)"
  by (simp add: get_bars_call_def)

lemma on_live_event_streams [simp]: "sockets (on_live_event uid ev st) = sockets st"
  by (simp add: on_live_event_def split: option.splits prod.splits)

lemma on_live_event_keys: "map fst (subs (on_live_event uid ev st)) = map fst (subs st)"
proof (cases "map_of (subs st) uid")
  case (Some sub)
  then have "uid \<in> set (map fst (subs st))" by (auto dest: map_of_SomeD intro: rev_image_eqI)
  then show ?thesis using Some
    by (simp add: on_live_event_def AList.update_keys insert_absorb split: prod.splits)
qed (simp add: on_live_event_def)

lemma orch_step_inv: "orch_inv st \<Longrightarrow> orch_inv (orch_step df ip api e st)"
proof (cases e)
  case (Live uid ev)
  assume "orch_inv st"
  then show ?thesis using on_live_event_keys [of uid ev st] by (simp add: Live orch_inv_def)
qed (auto simp: orch_inv_def resolve_symbol_def subscribe_bars_def subscribe_on_stream_def
       unsubscribe_bars_def unsubscribe_from_stream_def close_socket_def start_socket_def Let_def
       AList.distinct_update AList.distinct_delete split: option.splits)

lemma update_map_of_same: "map_of al k = Some v \<Longrightarrow> AList.update k v al = al"
  by (induction al) (auto split: if_splits)

lemma live_merge_stale: "lb_time ev < lb_time cb \<Longrightarrow> live_merge ev (Some cb) = (Some cb, None)"
  by (simp add: live_merge_def)

text \<open>The times the subscriber sees, preceded by the seed and followed by the current bar, never decrease.\<close>

lemma live_step_sorted:
  assumes "sorted (t0 # map lb_time out @ [lb_time cb])"
  shows "\<exists>cb' out'. live_step (Some cb, out) ev = (Some cb', out') \<and> sorted (t0 # map lb_time out' @ [lb_time cb'])"
  using assms by (auto simp: live_step_def live_merge_def Let_def sorted_append)

lemma fold_live_step_sorted:
  "sorted (t0 # map lb_time out @ [lb_time cb]) \<Longrightarrow>
   \<exists>cb' out'. fold (\<lambda>ev acc. live_step acc ev) evs (Some cb, out) = (Some cb', out') \<and>
     sorted (t0 # map lb_time out' @ [lb_time cb'])"
proof (induction evs arbitrary: cb out)
  case (Cons ev evs)
  obtain cb1 out1 where s: "live_step (Some cb, out) ev = (Some cb1, out1)"
    and srt: "sorted (t0 # map lb_time out1 @ [lb_time cb1])"
    using live_step_sorted [OF Cons.prems] by blast
  show ?case using Cons.IH [OF srt] by (simp add: s)
qed auto

lemma live_run_sorted:
  "live_run evs (Some seed) = (cur, out) \<Longrightarrow> sorted (lb_time seed # map lb_time out)"
  using fold_live_step_sorted [of "lb_time seed" "[]" seed evs]
  by (auto simp: live_run_def sorted_append)

lemma live_run_snoc: "live_run (evs @ [ev]) c = live_step (live_run evs c) ev"
  by (simp add: live_run_def)

lemma map_pair_emitted:
  "map (Pair uid) (case e of None \<Rightarrow> [] | Some b \<Rightarrow> [b]) = (case e of None \<Rightarrow> [] | Some b \<Rightarrow> [(uid, b)])"
  by (cases e) simp_all

lemma on_live_event_Some:
  "map_of (subs st) uid = Some sub \<Longrightarrow> live_merge ev (sub_lastBar sub) = (cur, e) \<Longrightarrow>
   on_live_event uid ev st =
     st\<lparr>subs := AList.update uid (sub\<lparr>sub_lastBar := cur\<rparr>) (subs st),
        delivered := delivered st @ (case e of None \<Rightarrow> [] | Some b \<Rightarrow> [(uid, b)])\<rparr>"
  by (simp add: on_live_event_def)

text \<open>Live events for one subscriber are the merger's run from the subscription's bar.\<close>

lemma on_live_events_run:
  assumes "map_of (subs st) uid = Some sub"
  shows "\<exists>sub' out. map_of (subs (fold (on_live_event uid) evs st)) uid = Some sub' \<and>
           live_run evs (sub_lastBar sub) = (sub_lastBar sub', out) \<and>
           delivered (fold (on_live_event uid) evs st) = delivered st @ map (Pair uid) out"
proof (induction evs rule: rev_induct)
  case Nil
  show ?case using assms by (simp add: live_run_def)
next
  case (snoc ev evs)
  then obtain sub' out where m: "map_of (subs (fold (on_live_event uid) evs st)) uid = Some sub'"
    and r: "live_run evs (sub_lastBar sub) = (sub_lastBar sub', out)"
    and d: "delivered (fold (on_live_event uid) evs st) = delivered st @ map (Pair uid) out" by blast
  obtain cur e where lm: "live_merge ev (sub_lastBar sub') = (cur, e)" by fastforce
  show ?case
    by (rule exI [of _ "sub'\<lparr>sub_lastBar := cur\<rparr>"], rule exI [of _ "out @ (case e of None \<Rightarrow> [] | Some b \<Rightarrow> [b])"])
      (simp add: on_live_event_Some [OF m lm] r d lm live_run_snoc live_step_def AList.update_conv' map_pair_emitted)
qed

lemma subscribe_bars_lookup:
  "si_exchange si \<noteq> ''birdeye'' \<Longrightarrow>
   map_of (subs (subscribe_bars df si r uid st)) uid =
     Some \<lparr>sub_pool = si_poolId si, sub_resolution = r,
           sub_curveType = (case df_curveType df of Some c \<Rightarrow> c | None \<Rightarrow> 0),
           sub_mintBDecimals = map_option tk_decimals (df_mintBInfo df),
           sub_lastBar = lastBarsCache (feed st) (si_poolId si)\<rparr>"
  by (simp add: subscribe_bars_def subscribe_on_stream_def AList.update_conv')

lemma subscribe_bars_delivered [simp]: "delivered (subscribe_bars df si r uid st) = delivered st"
  by (simp add: subscribe_bars_def subscribe_on_stream_def)

lemma subscribe_bars_feed [simp]: "feed (subscribe_bars df si r uid st) = feed st"
  by (simp add: subscribe_bars_def subscribe_on_stream_def)

lemma resolve_symbol_Inr:
  "resolve_symbol df name st = (Inr si, st') \<Longrightarrow>
   si_poolId si = name \<and> si_exchange si = ''Raydium'' \<and> si_pricescale si = 10 ^ si_decimals si \<and>
   st' = st\<lparr>sockets := [name]\<rparr>"
  by (auto simp: resolve_symbol_def Let_def close_socket_def start_socket_def split: option.splits)

section \<open>Properties\<close>

text \<open>
  The live merger hands its subscriber bars in non-decreasing time order, none older than
  the bar the subscription was seeded with, whatever the events.
\<close>

theorem live_run_monotone:
  assumes "live_run evs (Some seed) = (cur, out)"
  shows "sorted (map lb_time out) \<and> (\<forall>b \<in> set out. lb_time seed \<le> lb_time b)"
  using live_run_sorted [OF assms] by simp

text \<open>
  The live-merge scenario of the specification: events in the buckets 100, 100, 160, 160
  and 220 give a consumer three bars, the first the fold of its two events.
\<close>

theorem live_spec_example:
  "fold (\<lambda>b bars. consumer_apply bars b)
     (snd (live_run [live_bar 100 1 2 0 1, live_bar 100 1 3 (-1) 2, live_bar 160 2 2 2 2,
                     live_bar 160 2 4 1 3, live_bar 220 3 3 3 3] None)) [] =
   [live_bar 100 1 3 (-1) 2, live_bar 160 2 4 1 3, live_bar 220 3 3 3 3]"
  by (simp add: live_run_def live_step_def live_merge_def consumer_apply_def Let_def)

text \<open>
  A live event older than the subscriber's current bar is dropped: the state, the
  current bar and the delivered bars stay as they are.
\<close>

theorem on_live_event_stale_dropped:
  assumes "map_of (subs st) uid = Some sub" and "sub_lastBar sub = Some cb" and "lb_time ev < lb_time cb"
  shows "on_live_event uid ev st = st"
  using assms by (simp add: on_live_event_def live_merge_stale update_map_of_same)

text \<open>
  C22: in every sequence of calls and live events, at most one socket is open and each
  subscriber id has one subscription.
\<close>

theorem orch_reachable_inv:
  "orch_reachable df ip api st \<Longrightarrow> length (sockets st) \<le> 1 \<and> distinct (map fst (subs st))"
proof (induction rule: orch_reachable.induct)
  case init
  show ?case by (simp add: orch_init_def)
next
  case (step st e)
  then show ?case using orch_step_inv [of st df ip api e] by (simp add: orch_inv_def)
qed

text \<open>
  Without mint information resolveSymbol reports "cannot resolve symbol" and changes
  nothing: the previous socket stays open.
\<close>

theorem resolve_symbol_error:
  "df_mintInfo df = None \<Longrightarrow> resolve_symbol df name st = (Inl (CannotResolveSymbol ''cannot resolve symbol''), st)"
  by (simp add: resolve_symbol_def)

text \<open>
  Unsubscribing is idempotent and removes the subscriber; unsubscribing an unknown id
  changes nothing.
\<close>

theorem unsubscribe_bars_idempotent:
  "unsubscribe_bars uid (unsubscribe_bars uid st) = unsubscribe_bars uid st \<and>
   map_of (subs (unsubscribe_bars uid st)) uid = None \<and>
   (map_of (subs st) uid = None \<longrightarrow> unsubscribe_bars uid st = st)"
  by (auto simp: unsubscribe_bars_def unsubscribe_from_stream_def AList.delete_idem AList.delete_conv'
      map_of_eq_None_iff)

section \<open>Witnesses\<close>

theorem live_run_monotone_witness:
  "live_run [live_bar 100 1 3 (-1) 2, live_bar 60 1 1 1 1] (Some (live_bar 100 1 2 0 1)) =
     (Some (live_bar 100 1 3 (-1) 2), [live_bar 100 1 3 (-1) 2]) \<and>
   sorted (map lb_time [live_bar 100 1 3 (-1) 2]) \<and> list_all (\<lambda>b. 100 \<le> lb_time b) [live_bar 100 1 3 (-1) 2]"
proof -
  have r: "live_run [live_bar 100 1 3 (-1) 2, live_bar 60 1 1 1 1] (Some (live_bar 100 1 2 0 1)) =
     (Some (live_bar 100 1 3 (-1) 2), [live_bar 100 1 3 (-1) 2])"
    by (simp add: live_run_def live_step_def live_merge_def Let_def)
  show ?thesis using r live_run_monotone [OF r] by (simp add: list_all_iff)
qed

theorem on_live_event_stale_dropped_witness:
  "on_live_event ''u'' (live_bar 60 1 1 1 1)
     (orch_init\<lparr>subs := [(''u'', \<lparr>sub_pool = ''p'', sub_resolution = R1, sub_curveType = 0,
                 sub_mintBDecimals = None, sub_lastBar = Some (live_bar 120 1 1 1 1)\<rparr>)]\<rparr>) =
   orch_init\<lparr>subs := [(''u'', \<lparr>sub_pool = ''p'', sub_resolution = R1, sub_curveType = 0,
                 sub_mintBDecimals = None, sub_lastBar = Some (live_bar 120 1 1 1 1)\<rparr>)]\<rparr>"
proof -
  let ?sub = "\<lparr>sub_pool = ''p'', sub_resolution = R1, sub_curveType = 0,
                 sub_mintBDecimals = None, sub_lastBar = Some (live_bar 120 1 1 1 1)\<rparr>"
  have a: "map_of (subs (orch_init\<lparr>subs := [(''u'', ?sub)]\<rparr>)) ''u'' = Some ?sub" by simp
  have b: "sub_lastBar ?sub = Some (live_bar 120 1 1 1 1)" by simp
  have c: "lb_time (live_bar 60 1 1 1 1) < lb_time (live_bar 120 1 1 1 1)" by simp
  show ?thesis by (rule on_live_event_stale_dropped [OF a b c])
qed

theorem orch_reachable_inv_witness:
  "orch_reachable example_feed 1 (\<lambda>req. Inl (FetchError ''down'')) (orch_step example_feed 1 (\<lambda>req. Inl (FetchError ''down'')) (Resolve ''pool'') orch_init) \<and>
   length (sockets (orch_step example_feed 1 (\<lambda>req. Inl (FetchError ''down'')) (Resolve ''pool'') orch_init)) \<le> 1"
proof -
  have r: "orch_reachable example_feed 1 (\<lambda>req. Inl (FetchError ''down''))
      (orch_step example_feed 1 (\<lambda>req. Inl (FetchError ''down'')) (Resolve ''pool'') orch_init)"
    by (rule orch_reachable.step [OF orch_reachable.init])
  show ?thesis using r orch_reachable_inv [OF r] by blast
qed


theorem resolve_symbol_error_witness:
  "df_mintInfo (datafeed_new None None None) = None \<and>
   resolve_symbol (datafeed_new None None None) ''pool'' (orch_init\<lparr>sockets := [''old'']\<rparr>) =
     (Inl (CannotResolveSymbol ''cannot resolve symbol''), orch_init\<lparr>sockets := [''old'']\<rparr>)"
proof -
  have h: "df_mintInfo (datafeed_new None None None) = None" by (simp add: datafeed_new_def)
  show ?thesis using h resolve_symbol_error [OF h] by blast
qed

theorem unsubscribe_bars_idempotent_witness:
  "map_of (subs orch_init) ''u'' = None \<and> unsubscribe_bars ''u'' orch_init = orch_init"
proof -
  have h: "map_of (subs orch_init) ''u'' = None" by (simp add: orch_init_def)
  show ?thesis using h unsubscribe_bars_idempotent [of "''u''" orch_init] by blast
qed

end
