(* ===== verification/Proxy.thy ===== *)
theory Proxy
  imports Prelude "HOL-Library.AList"
begin

text \<open>
  The CORS relay of proxy.js. A request is its method, URL and (lower-cased, as Node
  delivers them) headers. \<open>proxy_preflight\<close> answers \<open>OPTIONS\<close>; \<open>proxy_target\<close> picks the
  upstream by path; \<open>proxy_headers\<close> and \<open>proxy_options\<close> build the outgoing request;
  \<open>cors_response_headers\<close> rewrites the upstream response headers. The response object is
  a small state (headers sent, status lines written, body ended, upstream destroyed) and
  \<open>proxy_step\<close> handles the three callbacks registered on the upstream request: response,
  error and timeout. Upstream events that Node no longer emits (a second response, anything
  after \<open>destroy\<close>) are ignored by the step. Headers are association lists in insertion
  order, as JavaScript objects keep their string keys.
\<close>

section \<open>Requests, routing and outgoing options\<close>

type_synonym headers = "(string \<times> string) list"

record http_request =
  rq_method :: string
  rq_url :: string
  rq_headers :: headers

definition js_starts_with :: "string \<Rightarrow> string \<Rightarrow> bool" where
  "js_starts_with s p \<longleftrightarrow> take (length p) s = p"

definition header_or :: "headers \<Rightarrow> string \<Rightarrow> string \<Rightarrow> string" where
  "header_or hs k dflt = (case map_of hs k of Some v \<Rightarrow> if v = [] then dflt else v | None \<Rightarrow> dflt)"

definition cors_headers :: "string \<Rightarrow> headers" where
  "cors_headers origin =
     [(''Access-Control-Allow-Origin'', origin), (''Access-Control-Allow-Headers'', ''*''),
      (''Access-Control-Allow-Methods'', ''GET, POST, OPTIONS''), (''Access-Control-Allow-Credentials'', ''true'')]"

definition error_headers :: headers where
  "error_headers =
     [(''Content-Type'', ''application/json''), (''Access-Control-Allow-Origin'', ''*''),
      (''Access-Control-Allow-Headers'', ''*''), (''Access-Control-Allow-Methods'', ''GET, POST, OPTIONS'')]"

definition service_host :: string where
  "service_host = ''https://service-v1.raydium.io''"

definition rpc_host :: string where
  "rpc_host = ''https://api.mainnet-beta.solana.com''"

definition proxy_target :: "string \<Rightarrow> string" where
  "proxy_target url =
     (if js_starts_with url ''/check-tx'' \<or> js_starts_with url ''/send-tx'' then service_host else rpc_host)"

text \<open>\<open>url.parse\<close> on an absolute URL \<open>scheme://host[:port][/path]\<close>.\<close>

record parsed_url =
  pu_protocol :: string
  pu_host :: string
  pu_hostname :: string
  pu_port :: "string option"

definition url_parse :: "string \<Rightarrow> parsed_url" where
  "url_parse u =
     (let scheme = takeWhile (\<lambda>c. c \<noteq> CHR '':'') u;
          rest = drop (length scheme + 3) u;
          host = takeWhile (\<lambda>c. c \<noteq> CHR ''/'') rest;
          hostname = takeWhile (\<lambda>c. c \<noteq> CHR '':'') host;
          port = drop (length hostname + 1) host
      in \<lparr>pu_protocol = scheme @ '':'', pu_host = host, pu_hostname = hostname,
          pu_port = (if port = [] then None else Some port)\<rparr>)"

definition proxy_headers :: "http_request \<Rightarrow> parsed_url \<Rightarrow> headers" where
  "proxy_headers req pu =
     (let base =
        [(''User-Agent'', ''Mozilla/5.0 (Macintosh; Intel Mac OS X 10_15_7) AppleWebKit/537.36 (KHTML, like Gecko) Chrome/120.0.0.0 Safari/537.36''),
         (''Accept'', ''application/json, text/plain, */*''), (''Accept-Language'', ''en-US,en;q=0.9''),
         (''Accept-Encoding'', ''gzip, deflate, br''), (''Connection'', ''keep-alive''),
         (''Sec-Fetch-Dest'', ''empty''), (''Sec-Fetch-Mode'', ''cors''), (''Sec-Fetch-Site'', ''cross-site''),
         (''Cache-Control'', ''no-cache''), (''Pragma'', ''no-cache''), (''DNT'', ''1''),
         (''Upgrade-Insecure-Requests'', ''1''), (''Referer'', ''https://raydium.io/''),
         (''Host'', pu_host pu),
         (''Content-Type'', header_or (rq_headers req) ''content-type'' ''application/json''),
         (''sec-ch-ua'', ''\"Not_A Brand\";v=\"8\", \"Chromium\";v=\"120\", \"Google Chrome\";v=\"120\"''),
         (''sec-ch-ua-mobile'', ''?0''), (''sec-ch-ua-platform'', ''\"macOS\"''),
         (''X-Requested-With'', ''XMLHttpRequest'')];
          withAuth = (case map_of (rq_headers req) ''authorization'' of
                        Some v \<Rightarrow> if v = [] then base else AList.update ''Authorization'' v base
                      | None \<Rightarrow> base)
      in case map_of (rq_headers req) ''x-api-key'' of
           Some v \<Rightarrow> if v = [] then withAuth else AList.update ''X-API-Key'' v withAuth
         | None \<Rightarrow> withAuth)"

datatype client_kind = HttpsClient | HttpClient

record request_options =
  opt_hostname :: string
  opt_port :: string
  opt_path :: string
  opt_method :: string
  opt_headers :: headers
  opt_timeout :: nat
  opt_client :: client_kind

definition proxy_options :: "http_request \<Rightarrow> request_options" where
  "proxy_options req =
     (let pu = url_parse (proxy_target (rq_url req))
      in \<lparr>opt_hostname = pu_hostname pu,
          opt_port = (case pu_port pu of Some p \<Rightarrow> p
                      | None \<Rightarrow> if pu_protocol pu = ''https:'' then ''443'' else ''80''),
          opt_path = rq_url req, opt_method = rq_method req, opt_headers = proxy_headers req pu,
          opt_timeout = 30000,
          opt_client = (if pu_protocol pu = ''https:'' then HttpsClient else HttpClient)\<rparr>)"

definition pipes_body :: "http_request \<Rightarrow> bool" where
  "pipes_body req \<longleftrightarrow> rq_method req = ''POST'' \<or> rq_method req = ''PUT''"

text \<open>The upstream response headers with the CORS headers spread over them and three removed.\<close>

definition cors_response_headers :: "headers \<Rightarrow> string \<Rightarrow> headers" where
  "cors_response_headers upstream origin =
     AList.delete ''access-control-allow-methods''
       (AList.delete ''access-control-allow-headers''
         (AList.delete ''access-control-allow-origin''
           (foldl (\<lambda>hs (k, v). AList.update k v hs) upstream (cors_headers origin))))"

section \<open>The response\<close>

record proxy_res =
  headers_sent :: bool
  heads :: "(nat \<times> headers) list"
  body :: "string list"
  ended :: bool
  upstream_started :: bool
  upstream_responded :: bool
  upstream_destroyed :: bool

definition res_init :: proxy_res where
  "res_init = \<lparr>headers_sent = False, heads = [], body = [], ended = False,
               upstream_started = False, upstream_responded = False, upstream_destroyed = False\<rparr>"

definition write_head :: "nat \<Rightarrow> headers \<Rightarrow> proxy_res \<Rightarrow> proxy_res" where
  "write_head status hs res = res\<lparr>headers_sent := True, heads := heads res @ [(status, hs)]\<rparr>"

definition end_with :: "string \<Rightarrow> proxy_res \<Rightarrow> proxy_res" where
  "end_with s res = res\<lparr>body := body res @ [s], ended := True\<rparr>"

definition origin_of :: "http_request \<Rightarrow> string" where
  "origin_of req = header_or (rq_headers req) ''origin'' ''*''"

definition proxy_preflight :: "http_request \<Rightarrow> proxy_res \<Rightarrow> proxy_res" where
  "proxy_preflight req res =
     end_with [] (write_head 200 (cors_headers (origin_of req)) res)"

definition proxy_handle :: "http_request \<Rightarrow> proxy_res" where
  "proxy_handle req =
     (if rq_method req = ''OPTIONS'' then proxy_preflight req res_init
      else res_init\<lparr>upstream_started := True\<rparr>)"

datatype upstream_event =
    UpstreamResponse nat headers
  | UpstreamError string string
  | UpstreamTimeout

fun proxy_step :: "http_request \<Rightarrow> upstream_event \<Rightarrow> proxy_res \<Rightarrow> proxy_res" where
  "proxy_step req (UpstreamResponse status hs) res =
     (if \<not> upstream_started res \<or> upstream_responded res \<or> upstream_destroyed res then res
      else (write_head status (cors_response_headers hs (origin_of req)) res)\<lparr>upstream_responded := True\<rparr>)"
| "proxy_step req (UpstreamError msg code) res =
     (if \<not> upstream_started res \<or> upstream_destroyed res then res
      else
        (let res = res\<lparr>upstream_destroyed := True\<rparr>
         in if \<not> headers_sent res
            then end_with (''{\"error\":\"Proxy error\",\"message\":\"'' @ msg @ ''\",\"code\":\"'' @ code @ ''\"}'')
                   (write_head 500 error_headers res)
            else res))"
| "proxy_step req UpstreamTimeout res =
     (if \<not> upstream_started res \<or> upstream_destroyed res then res
      else
        (let res = res\<lparr>upstream_destroyed := True\<rparr>
         in if \<not> headers_sent res
            then end_with ''{\"error\":\"Gateway Timeout\",\"message\":\"Request timed out\"}''
                   (write_head 504 error_headers res)
            else res))"

definition proxy_run :: "http_request \<Rightarrow> upstream_event list \<Rightarrow> proxy_res" where
  "proxy_run req evs = fold (proxy_step req) evs (proxy_handle req)"

text \<open>Headers are sent exactly when a status line has been written, and at most one is.\<close>

definition proxy_inv :: "proxy_res \<Rightarrow> bool" where
  "proxy_inv res \<longleftrightarrow> (headers_sent res \<longleftrightarrow> heads res \<noteq> []) \<and> length (heads res) \<le> 1 \<and>
     (upstream_started res \<and> \<not> upstream_responded res \<and> \<not> upstream_destroyed res \<longrightarrow> heads res = [])"

declare js_starts_with_def [model_defs] header_or_def [model_defs] cors_headers_def [model_defs]
  error_headers_def [model_defs] service_host_def [model_defs] rpc_host_def [model_defs]
  proxy_target_def [model_defs] url_parse_def [model_defs] proxy_headers_def [model_defs]
  proxy_options_def [model_defs] pipes_body_def [model_defs] cors_response_headers_def [model_defs]
  res_init_def [model_defs] write_head_def [model_defs] end_with_def [model_defs]
  origin_of_def [model_defs] proxy_preflight_def [model_defs] proxy_handle_def [model_defs]
  proxy_run_def [model_defs]

section \<open>Lemmas\<close>

lemma proxy_step_inv: "proxy_inv res \<Longrightarrow> proxy_inv (proxy_step req e res)"
  by (cases e) (auto simp: proxy_inv_def write_head_def end_with_def Let_def)

lemma fold_proxy_step_inv: "proxy_inv res \<Longrightarrow> proxy_inv (fold (proxy_step req) evs res)"
  by (induction evs arbitrary: res) (simp_all add: proxy_step_inv)

lemma proxy_handle_inv: "proxy_inv (proxy_handle req)"
  by (simp add: proxy_inv_def proxy_handle_def proxy_preflight_def res_init_def write_head_def end_with_def)

lemma proxy_step_not_started: "\<not> upstream_started res \<Longrightarrow> proxy_step req e res = res"
  by (cases e) simp_all

lemma proxy_step_sent_heads: "heads res \<noteq> [] \<Longrightarrow> proxy_inv res \<Longrightarrow> heads (proxy_step req e res) = heads res"
  by (cases e) (auto simp: proxy_inv_def write_head_def end_with_def Let_def)

lemma fold_proxy_step_sent_heads:
  "heads res \<noteq> [] \<Longrightarrow> proxy_inv res \<Longrightarrow> heads (fold (proxy_step req) evs res) = heads res"
proof (induction evs arbitrary: res)
  case (Cons e evs)
  have "heads (proxy_step req e res) \<noteq> []" and "proxy_inv (proxy_step req e res)"
    using Cons.prems by (simp_all add: proxy_step_sent_heads proxy_step_inv)
  then show ?case using Cons.IH Cons.prems by (simp add: proxy_step_sent_heads)
qed simp

lemma url_parse_service: "url_parse service_host =
  \<lparr>pu_protocol = ''https:'', pu_host = ''service-v1.raydium.io'', pu_hostname = ''service-v1.raydium.io'', pu_port = None\<rparr>"
  by (simp add: url_parse_def service_host_def Let_def)

lemma url_parse_rpc: "url_parse rpc_host =
  \<lparr>pu_protocol = ''https:'', pu_host = ''api.mainnet-beta.solana.com'', pu_hostname = ''api.mainnet-beta.solana.com'', pu_port = None\<rparr>"
  by (simp add: url_parse_def rpc_host_def Let_def)

lemma proxy_first_event_heads:
  assumes "rq_method req \<noteq> ''OPTIONS''"
  shows "heads (proxy_step req e (proxy_handle req)) \<noteq> []"
  using assms by (cases e) (simp_all add: proxy_handle_def res_init_def write_head_def end_with_def Let_def)

section \<open>Properties\<close>

text \<open>
  Every request that is relayed goes over HTTPS on port 443 with its own path: to the
  Raydium service when the path starts with \<open>/check-tx\<close> or \<open>/send-tx\<close>, to the Solana RPC
  otherwise.
\<close>

theorem proxy_options_route:
  "opt_hostname (proxy_options req) =
     (if js_starts_with (rq_url req) ''/check-tx'' \<or> js_starts_with (rq_url req) ''/send-tx''
      then ''service-v1.raydium.io'' else ''api.mainnet-beta.solana.com'') \<and>
   opt_port (proxy_options req) = ''443'' \<and> opt_client (proxy_options req) = HttpsClient \<and>
   opt_path (proxy_options req) = rq_url req \<and> opt_timeout (proxy_options req) = 30000"
  by (cases "js_starts_with (rq_url req) ''/check-tx'' \<or> js_starts_with (rq_url req) ''/send-tx''")
    (simp_all add: proxy_options_def proxy_target_def url_parse_service url_parse_rpc)

text \<open>
  C31: whatever the upstream does (a response, an error, a timeout, in any order), the relay
  writes at most one status line, and has sent headers exactly when it has written one.
\<close>

theorem proxy_run_single_head:
  "length (heads (proxy_run req evs)) \<le> 1 \<and> (headers_sent (proxy_run req evs) \<longleftrightarrow> heads (proxy_run req evs) \<noteq> [])"
  using fold_proxy_step_inv [OF proxy_handle_inv [of req], where evs = evs] by (simp add: proxy_run_def proxy_inv_def)

text \<open>
  C32: for a relayed request the first upstream event decides the answer: its status line is
  the one the client gets, and later events do not change it.
\<close>

theorem proxy_first_event_wins:
  assumes "rq_method req \<noteq> ''OPTIONS''"
  shows "heads (proxy_run req (e # evs)) = heads (proxy_run req [e]) \<and> length (heads (proxy_run req [e])) = 1"
proof -
  have ne: "heads (proxy_step req e (proxy_handle req)) \<noteq> []" using assms by (rule proxy_first_event_heads)
  have inv: "proxy_inv (proxy_step req e (proxy_handle req))" by (intro proxy_step_inv proxy_handle_inv)
  have "length (heads (proxy_step req e (proxy_handle req))) \<le> 1" using inv by (simp add: proxy_inv_def)
  with ne have "length (heads (proxy_step req e (proxy_handle req))) = 1"
    by (cases "heads (proxy_step req e (proxy_handle req))") simp_all
  then show ?thesis using fold_proxy_step_sent_heads [OF ne inv, where evs = evs] by (simp add: proxy_run_def)
qed

text \<open>
  C33: the relayed response carries the client's origin as \<open>Access-Control-Allow-Origin\<close> and
  none of the upstream's lower-case allow-origin, allow-headers and allow-methods headers;
  an upstream \<open>access-control-allow-credentials\<close> header is not removed and is sent beside
  the relay's own.
\<close>

theorem cors_response_headers_fields:
  "map_of (cors_response_headers up origin) ''Access-Control-Allow-Origin'' = Some origin \<and>
   map_of (cors_response_headers up origin) ''access-control-allow-origin'' = None \<and>
   map_of (cors_response_headers up origin) ''access-control-allow-headers'' = None \<and>
   map_of (cors_response_headers up origin) ''access-control-allow-methods'' = None \<and>
   map_of (cors_response_headers up origin) ''access-control-allow-credentials'' =
     map_of up ''access-control-allow-credentials''"
  by (simp add: cors_response_headers_def cors_headers_def AList.delete_conv' AList.update_conv')

text \<open>A preflight request is answered 200 with the CORS headers and never relayed.\<close>

theorem proxy_preflight_answers:
  "rq_method req = ''OPTIONS'' \<Longrightarrow>
   proxy_run req evs = end_with [] (write_head 200 (cors_headers (origin_of req)) res_init)"
proof (induction evs rule: rev_induct)
  case (snoc e evs)
  have "\<not> upstream_started (proxy_run req evs)"
    using snoc by (simp add: res_init_def write_head_def end_with_def)
  then show ?case using snoc by (simp add: proxy_run_def proxy_step_not_started)
qed (simp add: proxy_run_def proxy_handle_def proxy_preflight_def)

section \<open>Witnesses\<close>

theorem proxy_first_event_wins_witness:
  "rq_method \<lparr>rq_method = ''GET'', rq_url = ''/'', rq_headers = []\<rparr> \<noteq> ''OPTIONS'' \<and>
   heads (proxy_run \<lparr>rq_method = ''GET'', rq_url = ''/'', rq_headers = []\<rparr>
     [UpstreamTimeout, UpstreamError ''socket hang up'' ''ECONNRESET'']) = [(504, error_headers)]"
proof -
  let ?req = "\<lparr>rq_method = ''GET'', rq_url = ''/'', rq_headers = []\<rparr>"
  have h: "rq_method ?req \<noteq> ''OPTIONS''" by simp
  have one: "heads (proxy_run ?req [UpstreamTimeout]) = [(504, error_headers)]"
    by (simp add: proxy_run_def proxy_handle_def res_init_def write_head_def end_with_def)
  show ?thesis using h one proxy_first_event_wins [OF h, of UpstreamTimeout "[UpstreamError ''socket hang up'' ''ECONNRESET'']"]
    by simp
qed

theorem proxy_preflight_answers_witness:
  "rq_method \<lparr>rq_method = ''OPTIONS'', rq_url = ''/check-tx'', rq_headers = [(''origin'', ''https://raydium.io'')]\<rparr> = ''OPTIONS'' \<and>
   heads (proxy_run \<lparr>rq_method = ''OPTIONS'', rq_url = ''/check-tx'', rq_headers = [(''origin'', ''https://raydium.io'')]\<rparr>
     [UpstreamResponse 502 []]) = [(200, cors_headers ''https://raydium.io'')]"
proof -
  let ?req = "\<lparr>rq_method = ''OPTIONS'', rq_url = ''/check-tx'', rq_headers = [(''origin'', ''https://raydium.io'')]\<rparr>"
  have h: "rq_method ?req = ''OPTIONS''" by simp
  show ?thesis using h proxy_preflight_answers [OF h, of "[UpstreamResponse 502 []]"]
    by (simp add: end_with_def write_head_def res_init_def origin_of_def header_or_def)
qed

end
