(* ===== verification/TxService.thy ===== *)
theory TxService
  imports Prelude
begin

text \<open>
  The two calls of txService.ts. The application store is the record \<open>app_store\<close> (the RPC
  list, the selected node URL, the wallet adapter), the HTTP client a function from the
  posted body to an error or the service's answer (the axios instance of the repository
  returns the response body). \<open>validate_tx_data\<close> and \<open>extend_tx_data\<close> build the body as
  the code does and turn every failure into a failed answer. Building the body of
  \<open>validateTxData\<close> can itself throw: for a WalletConnect adapter the code reads
  \<open>(adapter as any)?._wallet._session\<close>, which raises a TypeError when the adapter has no
  \<open>_wallet\<close>; the throw happens inside the \<open>try\<close>, before the request is sent.
\<close>

record rpc_node =
  rpc_url :: string
  rpc_name :: string

text \<open>
  A wallet adapter: its name, and its \<open>_wallet\<close> field, absent (\<open>None\<close>) or present with
  the value of \<open>_session?.peer?.metadata?.name\<close>.
\<close>

record wallet_adapter =
  wa_name :: string
  wa_wallet :: "string option option"

record app_store =
  rpcs :: "rpc_node list"
  rpcNodeUrl :: string
  wallet_adapter :: "wallet_adapter option"
  service_base_host :: string

record check_tx_response =
  ctr_id :: string
  ctr_success :: bool
  ctr_msg :: "string option"

record tx_extend_response =
  ter_id :: string
  ter_success :: bool
  ter_data :: "string list"
  ter_msg :: "string option"

text \<open>What the \<open>catch\<close> receives: a failed request, or the TypeError of a property read on \<open>undefined\<close>.\<close>

datatype http_error = HttpError string | TypeError string

definition error_message :: "http_error \<Rightarrow> string" where
  "error_message err = (case err of HttpError m \<Rightarrow> m | TypeError m \<Rightarrow> m)"

definition session_type_error :: string where
  "session_type_error = ''Cannot read properties of undefined (reading '_session')''"

record validate_body =
  vb_walletName :: string
  vb_metaData :: "string option"
  vb_deviceType :: string
  vb_rpc :: string
  vb_data :: "string list"
  vb_preData :: "string list"
  vb_userSignTime :: int

record extend_body =
  eb_walletName :: string
  eb_data :: "string list"

definition js_or_str :: "string option \<Rightarrow> string \<Rightarrow> string" where
  "js_or_str s dflt = (if js_truthy_str s then the s else dflt)"

definition validate_body_of ::
  "app_store \<Rightarrow> string option \<Rightarrow> string list \<Rightarrow> string list \<Rightarrow> int \<Rightarrow> http_error + validate_body" where
  "validate_body_of store deviceType data preData userSignTime =
     (let adapter = wallet_adapter store;
          metaData = (case adapter of
                        Some a \<Rightarrow>
                          if wa_name a = ''WalletConnect''
                          then (case wa_wallet a of None \<Rightarrow> Inl (TypeError session_type_error) | Some n \<Rightarrow> Inr n)
                          else Inr None
                      | None \<Rightarrow> Inr None)
      in case metaData of
           Inl e \<Rightarrow> Inl e
         | Inr md \<Rightarrow>
             Inr \<lparr>vb_walletName = js_or_str (map_option wa_name adapter) ''unknown'',
                  vb_metaData = md,
                  vb_deviceType = js_or_str deviceType ''pc'',
                  vb_rpc = js_or_str (map_option rpc_name (find (\<lambda>r. rpc_url r = rpcNodeUrl store) (rpcs store))) ''userChange'',
                  vb_data = data, vb_preData = preData, vb_userSignTime = userSignTime\<rparr>)"

definition validate_failed :: "http_error \<Rightarrow> check_tx_response" where
  "validate_failed err =
     \<lparr>ctr_id = [], ctr_success = False, ctr_msg = Some (js_or_str (Some (error_message err)) ''validate tx failed'')\<rparr>"

definition validate_tx_data ::
  "(validate_body \<Rightarrow> http_error + check_tx_response) \<Rightarrow> app_store \<Rightarrow> string option \<Rightarrow>
   string list \<Rightarrow> string list \<Rightarrow> int \<Rightarrow> check_tx_response" where
  "validate_tx_data post store deviceType data preData userSignTime =
     (case validate_body_of store deviceType data preData userSignTime of
        Inl err \<Rightarrow> validate_failed err
      | Inr body \<Rightarrow> (case post body of Inr resp \<Rightarrow> resp | Inl err \<Rightarrow> validate_failed err))"

definition extend_tx_data ::
  "(string \<Rightarrow> extend_body \<Rightarrow> http_error + tx_extend_response) \<Rightarrow> app_store \<Rightarrow> string list \<Rightarrow>
   tx_extend_response" where
  "extend_tx_data post store txData =
     (case post (service_base_host store @ ''/ins-extend'')
             \<lparr>eb_walletName = js_or_str (map_option wa_name (wallet_adapter store)) ''unknown'', eb_data = txData\<rparr> of
        Inr resp \<Rightarrow> resp
      | Inl err \<Rightarrow>
          \<lparr>ter_id = [], ter_success = False, ter_data = [],
           ter_msg = Some (js_or_str (Some (error_message err)) ''extend tx failed'')\<rparr>)"

declare js_or_str_def [model_defs] validate_body_of_def [model_defs] validate_tx_data_def [model_defs]
  error_message_def [model_defs] session_type_error_def [model_defs] validate_failed_def [model_defs]
  extend_tx_data_def [model_defs]

section \<open>Lemmas\<close>

lemma js_or_str_nonempty: "dflt \<noteq> [] \<Longrightarrow> js_or_str s dflt \<noteq> []"
  by (cases s) (auto simp: js_or_str_def)

section \<open>Properties\<close>

text \<open>
  C34: for a WalletConnect adapter without \<open>_wallet\<close>, building the body throws before the
  request is sent, and validateTxData answers a failure carrying the TypeError's message,
  whatever the service would have answered.
\<close>

theorem validate_tx_data_error:
  assumes "wallet_adapter store = Some a" and "wa_name a = ''WalletConnect''" and "wa_wallet a = None"
  shows "validate_tx_data post store dev data preData t =
           \<lparr>ctr_id = [], ctr_success = False, ctr_msg = Some session_type_error\<rparr>"
  using assms by (simp add: validate_tx_data_def validate_body_of_def validate_failed_def error_message_def
      js_or_str_def session_type_error_def)

text \<open>
  When the body is built, it names the first RPC node whose URL is the selected one, or
  \<open>userChange\<close> when the selection is not in the list, and the wallet's name, or
  \<open>unknown\<close>; a failed post becomes a failed answer with the error's message.
\<close>

theorem validate_body_rpc:
  assumes "validate_body_of store dev data preData t = Inr b"
  shows "vb_rpc b =
     (case find (\<lambda>r. rpc_url r = rpcNodeUrl store) (rpcs store) of
        Some r \<Rightarrow> if rpc_name r = [] then ''userChange'' else rpc_name r
      | None \<Rightarrow> ''userChange'') \<and>
   vb_walletName b \<noteq> [] \<and>
   (post b = Inl (HttpError msg) \<longrightarrow>
      validate_tx_data post store dev data preData t =
        \<lparr>ctr_id = [], ctr_success = False, ctr_msg = Some (if msg = [] then ''validate tx failed'' else msg)\<rparr>)"
  using assms
  by (auto simp: validate_body_of_def validate_tx_data_def validate_failed_def error_message_def
      js_or_str_def Let_def split: option.splits if_splits sum.splits)

section \<open>Witnesses\<close>

theorem validate_tx_data_error_witness:
  "validate_tx_data (\<lambda>b. Inr \<lparr>ctr_id = ''ok'', ctr_success = True, ctr_msg = None\<rparr>)
     \<lparr>rpcs = [], rpcNodeUrl = [], wallet_adapter = Some \<lparr>wa_name = ''WalletConnect'', wa_wallet = None\<rparr>,
      service_base_host = []\<rparr> None [] [] 0 =
   \<lparr>ctr_id = [], ctr_success = False, ctr_msg = Some ''Cannot read properties of undefined (reading '_session')''\<rparr>"
  using validate_tx_data_error [of "\<lparr>rpcs = [], rpcNodeUrl = [], wallet_adapter = Some \<lparr>wa_name = ''WalletConnect'', wa_wallet = None\<rparr>,
      service_base_host = []\<rparr>" "\<lparr>wa_name = ''WalletConnect'', wa_wallet = None\<rparr>"
      "\<lambda>b. Inr \<lparr>ctr_id = ''ok'', ctr_success = True, ctr_msg = None\<rparr>" None "[]" "[]" 0]
  by (simp add: session_type_error_def)

theorem validate_body_rpc_witness:
  "validate_body_of \<lparr>rpcs = [\<lparr>rpc_url = ''u'', rpc_name = ''Helius''\<rparr>], rpcNodeUrl = ''u'', wallet_adapter = None,
      service_base_host = []\<rparr> None [] [] 0 =
     Inr \<lparr>vb_walletName = ''unknown'', vb_metaData = None, vb_deviceType = ''pc'', vb_rpc = ''Helius'',
          vb_data = [], vb_preData = [], vb_userSignTime = 0\<rparr> \<and>
   validate_tx_data (\<lambda>b. Inl (HttpError [])) \<lparr>rpcs = [\<lparr>rpc_url = ''u'', rpc_name = ''Helius''\<rparr>], rpcNodeUrl = ''u'',
      wallet_adapter = None, service_base_host = []\<rparr> None [] [] 0 =
     \<lparr>ctr_id = [], ctr_success = False, ctr_msg = Some ''validate tx failed''\<rparr>"
proof -
  have h: "validate_body_of \<lparr>rpcs = [\<lparr>rpc_url = ''u'', rpc_name = ''Helius''\<rparr>], rpcNodeUrl = ''u'', wallet_adapter = None,
      service_base_host = []\<rparr> None [] [] 0 =
     Inr \<lparr>vb_walletName = ''unknown'', vb_metaData = None, vb_deviceType = ''pc'', vb_rpc = ''Helius'',
          vb_data = [], vb_preData = [], vb_userSignTime = 0\<rparr>"
    by (simp add: validate_body_of_def js_or_str_def Let_def)
  show ?thesis using h validate_body_rpc [OF h, of "\<lambda>b. Inl (HttpError [])" "[]"] by simp
qed

end
