(* ===== verification/Spec2Isabelle.thy ===== *)
theory Spec2Isabelle
  imports TVChart ReadinessGate ChartRendering ChartComponent Orchestrator Proxy TxService
begin

text \<open>
  \<^bold>\<open>A verification development of the chart data path of the Raydium UI.\<close>

  \<^bold>\<open>The program.\<close> The chart of a launchpad pool (src/src/components/TradingView) turns
  two upstream feeds into time-bucketed OHLC bars. datafeed.ts is the \<open>DataFeed\<close> adapter:
  \<open>resolveSymbol\<close> builds the symbol and (re)opens the live socket, \<open>getBars\<close> fetches one
  page of klines from the history host with a module-level page cursor, buckets it and
  seeds a module-level last-bar cache, \<open>subscribeBars\<close>/\<open>unsubscribeBars\<close> register live
  subscribers with the streaming module. TVChart.tsx has its own \<open>fetchChartData\<close> (a
  birdeye branch for the enriched feed, a regular branch for klines), the effect that
  creates the chart, loads a day of bars and forwards live updates, and a readiness effect
  that polls the host until a new pool has data. type.ts holds the resolution table.
  txService.ts posts transactions to a validation service and proxy.js relays such posts
  and RPC calls with CORS headers.

  \<^bold>\<open>Theories.\<close>
  \<^item> Prelude: JavaScript helpers (\<open>x || 0\<close>, string truthiness), \<open>floor_to_unit\<close> (the
    \<open>Math.floor(t / u) * u\<close> of both loops) and \<open>group_runs\<close>, the maximal runs of equal key
    that the bucketing loops refine, with their lemmas.
  \<^item> Resolution: the \<open>ResolutionString\<close> union (datafeed.ts), the \<open>ResolutionToSeconds\<close>
    table (type.ts) as an association list and its lookup, and the candle-interval choices
    of the three fetch paths.
  \<^item> Bars: \<open>LightweightBar\<close>, the kline row and the birdeye item as records, and the bar
    invariant \<open>bar_wf\<close> (low below open and close, high above them).
  \<^item> BucketLoop: the forEach loop both bucketers share (\<open>bucket_step\<close>, \<open>bucket_loop\<close>) over
    an accumulator \<open>(bars, currentBar)\<close>, with its refinement lemma: on input whose keys
    are ordered the way the close test expects, the loop is one aggregate per run.
  \<^item> KlineBucketer: the \<open>rows.forEach\<close> loop of \<open>getBars\<close> (datafeed.ts) literally, shown equal to
    the generic loop; the regular branch of \<open>fetchChartData\<close> runs the same code.
  \<^item> BirdeyeBucketer: the \<open>data.items.forEach\<close> loop of the birdeye branch (TVChart.tsx):
    range filter, market-cap multiplier, volume sum.
  \<^item> Datafeed: \<open>getBars\<close> with the cursor and cache as explicit state, the host as a function
    from request to error or response, the issued requests returned as a list.
  \<^item> Orchestrator: the \<open>DataFeed\<close> instance, \<open>resolveSymbol\<close>, \<open>subscribeBars\<close>,
    \<open>unsubscribeBars\<close>, and the streaming module (socket, subscription table, live bar rule)
    which is not in the sources and is modelled from the specification; \<open>orch_step\<close> and
    \<open>orch_reachable\<close> give every sequence of calls and live events.
  \<^item> TVChart: \<open>fetchChartData\<close>, \<open>loadData\<close>, the arrow listener and the chart effect as a
    step function over setup, page load, live update and cleanup events.
  \<^item> ReadinessGate: the polling effect as a state (count, interval, probes sent and in
    flight, reloads, cleanup) with a step per tick, probe answer and cleanup; \<open>gate_poll\<close>
    is the synchronous run with ticks as fuel, \<open>gate_reachable\<close> every interleaving.
  \<^item> ChartRendering: the values the chart set-up of TVChart.tsx computes: the time-axis
    \<open>tickMarkFormatter\<close> over the UTC calendar fields of ECMAScript \<open>Date\<close> (DayFromYear,
    YearFromTime as a search up from an estimate that never exceeds the year, the month
    table) and the dayjs tokens, the candle \<open>minMove\<close> and price label with JavaScript's
    \<open>Number\<close> and \<open>??\<close> written out, theme, locale and volume colour, the option objects of
    \<open>createChart\<close>, the two series and their price scales (the TvTheme colours a parameter),
    and the refresh trigger (\<open>refreshChartSubject\<close>, \<open>isNeedRefreshData\<close>).
  \<^item> ChartComponent: the TVChart component as one state (props, \<open>refreshChartMint\<close>,
    \<open>reloadChartTag\<close>, every polling instance ever started, the chart refs, the
    configuration auto-save). The readiness and chart effects re-run after the cleanup of
    their previous run when a dependency changes under \<open>Object.is\<close>; \<open>isNeedRefreshData\<close>
    is kept as the JavaScript value it is (\<open>true\<close>, \<open>false\<close> or the empty string), since the
    comparison is on that value and not on its truthiness. \<open>tv_step\<close> handles an
    announcement, a callback of one polling instance, a page load, a live update and an
    auto-save tick and the unmount (after which the component's state setters have no
    effect); \<open>tv_reachable\<close> is every sequence of them.
  \<^item> Proxy: preflight, routing, outgoing options and headers, CORS rewriting of the answer,
    and the response object under the response, error and timeout callbacks.
  \<^item> TxService: \<open>validateTxData\<close> and \<open>extendTxData\<close> with the bodies they post (the
    WalletConnect metadata read may throw a TypeError before the request) and their
    conversion of failures into failed answers.
  \<^item> this theory: the end-to-end property that spans resolveSymbol, getBars, subscribeBars
    and the live merger, and the equivalence of the regular branch of \<open>fetchChartData\<close>
    with a first \<open>getBars\<close> page.

  \<^bold>\<open>What is shown.\<close> Both bucketing loops refine \<open>group_runs\<close> (one bar per run of equal
  bucket) on input in the order their close test expects, give bars on the bucket grid in
  strict time order, and keep \<open>bar_wf\<close> under the consistency of their input; the birdeye
  loop conserves volume. \<open>getBars\<close> hands the chart oldest-first bars, seeds the cache with
  the newest, answers an exhausted session without a request, and commits nothing on a
  failed fetch. The readiness gate terminates (sixteen ticks), stops at the first data, and
  keeps its invariant in every interleaving. The orchestrator keeps one socket and one
  subscription per id; history followed by live updates never goes back in time. The relay
  writes one status line whatever the upstream does. Several theorems record where the
  code and the specification part (listed as findings of the manifest): the kline bars
  open at the newest candle, the regular branch of \<open>fetchChartData\<close> is not reversed and
  \<open>lastBarRef\<close> points at the oldest bar, the gate sends sixteen probes, keeps probing a
  slow host and reloads after cleanup, the cursor is shared between pools, the live
  listener forwards stale updates and draws a new pool's updates before its history, the
  time axis reads millisecond bar times as seconds (from 1971 on every bar is labelled with
  a later year than its own), and a WalletConnect adapter without \<open>_wallet\<close> makes
  \<open>validateTxData\<close> fail before its request. The labels of the \<open>ResolutionString\<close> union
  and the keys of \<open>ResolutionToSeconds\<close> agree. In the component, at most one polling
  interval runs and the auto-save runs exactly while a chart is live; a probe that finds
  data rebuilds the chart even when its polling instance has been cleaned up; announcing
  another mint ends a poll without a reload; after the unmount nothing the component
  started acts any more. On the same page, \<open>getBars\<close> hands the chart exactly the
  reversed bars of the regular \<open>fetchChartData\<close> branch.

  \<^bold>\<open>Modelling choices.\<close> JavaScript numbers are \<open>real\<close> for prices and \<open>int\<close> for times;
  resolutions are the \<open>ResolutionString\<close> union (an unknown label, which the code turns
  into NaN times, is outside the model). Asynchronous code is a step function over the
  events the runtime delivers (ticks, answers, cleanups, upstream callbacks) and an
  inductive reachability predicate over them. HTTP clients are functions to an error or
  an answer. Loops over arrays are folds, total by construction; \<open>group_runs\<close> terminates
  by the length of its argument. The only unbounded loop, the polling interval, is run
  with ticks as fuel: sixteen ticks are enough because the count is compared before its
  increment and every failing answer increments it. YearFromTime's search terminates by
  the distance from the next year's first day to the day, and the estimate
  \<open>1970 + 400 * (d div 146097) + (d mod 146097) div 366\<close> never exceeds the year.

  \<^bold>\<open>Not modelled.\<close> What lightweight-charts draws from the option objects and series
  data (the model records what is handed to it); the colours of TvTheme and the store of
  \<open>updateChartConfig\<close>, which are not in the sources; changes of the component's props
  (a new pool is an unmount and a new mount in the model); the effect that closes the
  socket when the connection changes, modelled as the cleanup event of the orchestrator;
  \<open>onReady\<close> and \<open>searchSymbols\<close>, which hand constants to callbacks; the internals of
  streaming.ts and of lightweight-charts beyond what the specification states; the byte streams, logging and catch-all error branch of proxy.js;
  the device detection of txService.ts, taken as an input.
\<close>

section \<open>Historical bars followed by live updates\<close>

lemma sorted_wrt_less_sorted: "sorted_wrt (<) (xs :: 'a::linorder list) \<Longrightarrow> sorted xs"
  by (induction xs) auto

text \<open>
  C5: what the chart receives for a pool, end to end: after resolveSymbol and a first getBars
  page from a newest-first host, the subscription of subscribeBars is seeded with the newest
  historical bar, and the live events then delivered to the subscriber extend the history
  without going back in time.
\<close>

theorem history_then_live_ordered:
  assumes host: "host_newest_first api"
    and res: "resolve_symbol df pool st0 = (Inr si, st1)"
    and gb: "get_bars_call ip api si r True st1 = (OnHistory bars False, st2)"
  shows "\<exists>out. delivered (fold (on_live_event uid) evs (subscribe_bars df si r uid st2)) =
                delivered st2 @ map (Pair uid) out \<and> sorted (map lb_time (bars @ out))"
proof -
  have ex: "si_exchange si \<noteq> ''birdeye''" using resolve_symbol_Inr [OF res] by simp
  obtain f cb reqs where g: "get_bars ip api si r True (feed st1) = (f, cb, reqs)"
    by (cases "get_bars ip api si r True (feed st1)") auto
  with gb have cb: "cb = OnHistory bars False" and st2: "st2 = st1\<lparr>feed := f\<rparr>"
    by (simp_all add: get_bars_call_feed)
  with g have g': "get_bars ip api si r True (feed st1) = (f, OnHistory bars False, reqs)" by simp
  have c: "bars \<noteq> [] \<and> lastBarsCache f (si_poolId si) = Some (last bars) \<and>
      (\<forall>b \<in> set bars. lb_time b \<le> lb_time (last bars))"
    using get_bars_first_cache [OF g' host] .
  have sb: "sorted (map lb_time bars)"
    using get_bars_sorted_grid [OF g' host] by (blast intro: sorted_wrt_less_sorted)
  let ?st3 = "subscribe_bars df si r uid st2"
  obtain sub where m: "map_of (subs ?st3) uid = Some sub" and seed: "sub_lastBar sub = Some (last bars)"
    using subscribe_bars_lookup [OF ex, of df r uid st2] c by (simp add: st2)
  obtain c' out where run: "live_run evs (Some (last bars)) = (c', out)"
    and d: "delivered (fold (on_live_event uid) evs ?st3) = delivered st2 @ map (Pair uid) out"
    using on_live_events_run [OF m, of evs] seed by fastforce
  have so: "sorted (lb_time (last bars) # map lb_time out)" by (rule live_run_sorted [OF run])
  have "sorted (map lb_time bars @ map lb_time out)"
    unfolding sorted_append using sb so c by (auto intro: order_trans)
  then show ?thesis using d by auto
qed

text \<open>
  C12: the regular branch of fetchChartData and a first getBars call run the same code on
  the same page: when the host answers both requests alike, getBars hands the chart
  exactly the bars fetchChartData returns, reversed (and clamped when there is a single
  bar), and the same error when the host fails.
\<close>

theorem regular_fetch_is_get_bars_page:
  assumes same: "api (kline_page_request symbolInfo resolution None) = api (regular_request (si_poolId symbolInfo) resolution)"
  shows "fst (snd (get_bars ip api symbolInfo resolution True st)) =
           (case fetch_chart_data beApi api (si_poolId symbolInfo) resolution from to False mi of
              Inl e \<Rightarrow> OnError e
            | Inr bars \<Rightarrow> if bars = [] then OnHistory [] True else OnHistory (rev (clamp_single_bar ip bars)) False)"
  using same by (auto simp: get_bars_def fetch_chart_data_def Let_def kline_collect_nonempty split: sum.splits option.splits)

section \<open>Witnesses\<close>

theorem history_then_live_ordered_witness:
  "\<exists>si st1 bars st2.
     host_newest_first (example_api None) \<and>
     resolve_symbol example_feed ''poolA'' orch_init = (Inr si, st1) \<and>
     get_bars_call 1 (example_api None) si R1 True st1 = (OnHistory bars False, st2) \<and>
     (\<exists>out. delivered (fold (on_live_event ''u'') [live_bar 180000 1 1 1 1] (subscribe_bars example_feed si R1 ''u'' st2)) =
              delivered st2 @ map (Pair ''u'') out \<and> sorted (map lb_time (bars @ out)))"
proof -
  have h: "df_mintInfo example_feed = Some example_mint" by (simp add: datafeed_new_def)
  have res: "resolve_symbol example_feed ''poolA'' orch_init = (Inr (example_symbol ''poolA''), orch_init\<lparr>sockets := [''poolA'']\<rparr>)"
    by (simp add: resolve_symbol_def datafeed_new_def Let_def close_socket_def start_socket_def orch_init_def)
  obtain st' bars reqs where g: "get_bars 1 (example_api None) (example_symbol ''poolA'') R1 True example_state =
      (st', OnHistory bars False, reqs)" using example_first_page by blast
  have f: "feed (orch_init\<lparr>sockets := [''poolA'']\<rparr>) = example_state" by (simp add: orch_init_def)
  have gb: "get_bars_call 1 (example_api None) (example_symbol ''poolA'') R1 True (orch_init\<lparr>sockets := [''poolA'']\<rparr>) =
      (OnHistory bars False, orch_init\<lparr>sockets := [''poolA''], feed := st'\<rparr>)"
    using get_bars_call_feed [of 1 "example_api None" "example_symbol ''poolA''" R1 True] g f by simp
  show ?thesis
    using example_host_newest_first res gb
      history_then_live_ordered [OF example_host_newest_first res gb, of "''u''" "[live_bar 180000 1 1 1 1]"]
    by blast
qed


theorem regular_fetch_is_get_bars_page_witness:
  "example_api None (kline_page_request (example_symbol ''pool'') R1 None) =
     example_api None (regular_request ''pool'' R1) \<and>
   fst (snd (get_bars 1 (example_api None) (example_symbol ''pool'') R1 True example_state)) =
     (case fetch_chart_data (\<lambda>req. Inl (FetchError ''none'')) (example_api None) ''pool'' R1 0 0 False None of
        Inl e \<Rightarrow> OnError e
      | Inr bars \<Rightarrow> if bars = [] then OnHistory [] True else OnHistory (rev (clamp_single_bar 1 bars)) False)"
  using regular_fetch_is_get_bars_page [of "example_api None" "example_symbol ''pool''" R1 1 example_state
      "\<lambda>req. Inl (FetchError ''none'')" 0 0 None] by simp

end
